(* ===== verification/Prelude.thy ===== *)
theory Prelude
  imports Complex_Main "HOL-Library.Sublist" "HOL-Library.Product_Lexorder" "HOL-Library.Multiset"
begin

text \<open>
  Shared vocabulary of the development: the Python built-ins the sources lean on
  (\<open>int()\<close> of a float, float division, \<open>min(..., key=...)\<close>, \<open>dict.get\<close> with a
  default, \<open>pandas.Series.unique\<close>, substring tests), written once as executable HOL
  functions, with the lemmas that the component theories use, collected in
  \<open>py_simps\<close>.
  A Python \<open>str\<close> is an Isabelle \<open>string\<close> whose characters are read as the Latin-1
  code points U+0000 to U+00FF: the accented Spanish letters the sources handle are
  single characters, as in Python.
\<close>

named_theorems py_simps "facts about the modelled Python built-ins"

section \<open>Definitions\<close>

text \<open>\<open>int(x)\<close> on a float truncates towards zero.\<close>

definition py_int :: "real \<Rightarrow> int" where
  "py_int x = (if 0 \<le> x then \<lfloor>x\<rfloor> else \<lceil>x\<rceil>)"

text \<open>
  Float division: Python raises \<open>ZeroDivisionError\<close> where HOL returns 0, so a
  division whose divisor may vanish is \<open>None\<close> there.
\<close>

definition py_div :: "real \<Rightarrow> real \<Rightarrow> real option" where
  "py_div a b = (if b = 0 then None else Some (a / b))"

text \<open>\<open>min(best :: xs, key=f)\<close>: the first element of least key.\<close>

fun py_min_key :: "('a \<Rightarrow> 'b::linorder) \<Rightarrow> 'a \<Rightarrow> 'a list \<Rightarrow> 'a" where
  "py_min_key f best [] = best"
| "py_min_key f best (x # xs) = py_min_key f (if f x < f best then x else best) xs"

text \<open>\<open>d.get(k, default)\<close> on a dictionary modelled as a map.\<close>

definition get_default :: "('k \<rightharpoonup> 'v) \<Rightarrow> 'k \<Rightarrow> 'v \<Rightarrow> 'v" where
  "get_default m k d = (case m k of None \<Rightarrow> d | Some v \<Rightarrow> v)"

text \<open>
  \<open>Series.unique()\<close> keeps the first occurrence of every value, in order of appearance
  (the library's \<open>remdups\<close> keeps the last one).
\<close>

fun unique_acc :: "'a list \<Rightarrow> 'a list \<Rightarrow> 'a list" where
  "unique_acc seen [] = []"
| "unique_acc seen (x # xs) =
     (if x \<in> set seen then unique_acc seen xs else x # unique_acc (x # seen) xs)"

definition unique :: "'a list \<Rightarrow> 'a list" where
  "unique xs = unique_acc [] xs"

text \<open>\<open>s.startswith(w)\<close> and \<open>w in s\<close>.\<close>

fun starts_with :: "string \<Rightarrow> string \<Rightarrow> bool" where
  "starts_with [] s = True"
| "starts_with (c # w) [] = False"
| "starts_with (c # w) (d # s) = (c = d \<and> starts_with w s)"

fun has_sub :: "string \<Rightarrow> string \<Rightarrow> bool" where
  "has_sub w [] = (w = [])"
| "has_sub w (c # s) = (starts_with w (c # s) \<or> has_sub w s)"

section \<open>Lemmas\<close>

lemma py_int_nonneg [py_simps]: "0 \<le> x \<Longrightarrow> py_int x = \<lfloor>x\<rfloor>"
  by (simp add: py_int_def)

lemma py_int_of_int [simp]: "py_int (of_int k) = k"
  by (simp add: py_int_def)

lemma py_div_eq_Some [py_simps]: "py_div x y = Some z \<longleftrightarrow> y \<noteq> 0 \<and> z = x / y"
  by (auto simp: py_div_def)

lemma py_min_key_in: "py_min_key f b xs \<in> insert b (set xs)"
  by (induction f b xs rule: py_min_key.induct) auto

lemma py_min_key_le: "y \<in> insert b (set xs) \<Longrightarrow> f (py_min_key f b xs) \<le> f y"
  by (induction f b xs arbitrary: y rule: py_min_key.induct) (force split: if_splits)+

lemma get_default_simps [simp]:
  "m k = None \<Longrightarrow> get_default m k d = d"
  "m k = Some v \<Longrightarrow> get_default m k d = v"
  by (simp_all add: get_default_def)

lemma set_unique_acc: "set (unique_acc seen xs) = set xs - set seen"
  by (induction seen xs rule: unique_acc.induct) auto

lemma distinct_unique_acc: "distinct (unique_acc seen xs)"
  by (induction seen xs rule: unique_acc.induct) (auto simp: set_unique_acc)

lemma set_unique [simp, py_simps]: "set (unique xs) = set xs"
  by (simp add: unique_def set_unique_acc)

lemma distinct_unique [simp, py_simps]: "distinct (unique xs)"
  by (simp add: unique_def distinct_unique_acc)

lemma unique_Nil [simp]: "unique [] = []"
  by (simp add: unique_def)

lemma unique_eq_Nil_iff [simp]: "unique xs = [] \<longleftrightarrow> xs = []"
  by (metis set_empty set_unique)

lemma starts_with_prefix [py_simps]: "starts_with w s \<longleftrightarrow> prefix w s"
  by (induction w s rule: starts_with.induct) auto

lemma has_sub_sublist [py_simps]: "has_sub w s \<longleftrightarrow> sublist w s"
  by (induction w s rule: has_sub.induct) (auto simp: starts_with_prefix sublist_Cons_right)

text \<open>A loop that raises at the first failing element, as \<open>those\<close> over a map.\<close>

lemma those_map_option:
  "those (map (\<lambda>x. map_option (g x) (f x)) xs) =
     (if \<forall>x \<in> set xs. f x \<noteq> None then Some (map (\<lambda>x. g x (the (f x))) xs) else None)"
  by (induction xs) (auto split: option.splits)

end
