(* ===== verification/Finance.thy ===== *)
theory Finance
  imports Prelude
begin

text \<open>
  The Quotation Engine: \<open>src/app/settings.py\<close> (the standard rate and the allowed
  terms), \<open>monthly_payment\<close> and \<open>finance_plan\<close> of \<open>src/app/nlp/tools.py\<close>, the
  monthly payment that \<open>cotiza_car\<close> computes inline, and the snapping of a requested
  term to an allowed one in \<open>_parse_term\<close> of \<open>src/app/nlp/intent.py\<close>.
  Floats are modelled as reals: the formulas are exact, rounding is not modelled.
  A division that Python would abort with \<open>ZeroDivisionError\<close> is \<open>None\<close> when its
  real denominator is 0. Python also raises \<open>ZeroDivisionError\<close> when a tiny rate makes
  \<open>1 + r\<close> round to \<open>1.0\<close>, and \<open>OverflowError\<close> on \<open>(1 + r) ** n\<close> for a huge rate;
  neither float effect is modelled, so the lemmas here are facts of exact arithmetic.
\<close>

section \<open>Settings\<close>

text \<open>\<open>KAVAK_ANNUAL_RATE\<close> is read from the environment with default \<open>"0.10"\<close>; the
  model takes the default.\<close>

definition KAVAK_ANNUAL_RATE :: real where
  "KAVAK_ANNUAL_RATE = 1 / 10"

definition ALLOWED_TERMS :: "int list" where
  "ALLOWED_TERMS = [36, 48, 60, 72]"

definition DEFAULT_TERM :: int where
  "DEFAULT_TERM = 48"

section \<open>Monthly payment (French amortization)\<close>

definition monthly_payment :: "real \<Rightarrow> real \<Rightarrow> int \<Rightarrow> real option \<Rightarrow> real option" where
  "monthly_payment price down_payment term annual_rate =
     (let principal = max (price - down_payment) 0;
          n = term;
          rate = (case annual_rate of None \<Rightarrow> KAVAK_ANNUAL_RATE | Some a \<Rightarrow> a)
      in if n \<le> 0 \<or> principal \<le> 0 then Some 0
         else let r = rate / 12
              in if r = 0 then Some (principal / of_int n)
                 else py_div (principal * (r * (1 + r) ^ nat n)) ((1 + r) ^ nat n - 1))"

definition finance_plan ::
  "real \<Rightarrow> real \<Rightarrow> int list option \<Rightarrow> real option \<Rightarrow> (int \<times> real) list option" where
  "finance_plan price down_payment terms annual_rate =
     (let plan_terms = (case terms of None \<Rightarrow> ALLOWED_TERMS | Some ts \<Rightarrow> ts);
          rate = (case annual_rate of None \<Rightarrow> KAVAK_ANNUAL_RATE | Some a \<Rightarrow> a)
      in those (map (\<lambda>t. map_option (\<lambda>m. (t, m))
                          (monthly_payment price down_payment t (Some rate))) plan_terms))"

text \<open>The inline computation of \<open>cotiza_car\<close>: rate, term and principal as there.\<close>

definition cotiza_monthly :: "real \<Rightarrow> real \<Rightarrow> int option \<Rightarrow> real option \<Rightarrow> real" where
  "cotiza_monthly price down_payment term annual_rate =
     (let rate = (case annual_rate of None \<Rightarrow> KAVAK_ANNUAL_RATE | Some a \<Rightarrow> a);
          n = (case term of None \<Rightarrow> DEFAULT_TERM | Some t \<Rightarrow> t);
          principal = max (price - down_payment) 0;
          r = rate / 12
      in if n \<le> 0 \<or> principal \<le> 0 \<or> r \<le> 0
         then (if 0 < n then principal / of_int n else 0)
         else principal * (r * (1 + r) ^ nat n) / ((1 + r) ^ nat n - 1))"

section \<open>Snapping a term to the allowed ones\<close>

text \<open>\<open>if term not in ALLOWED_TERMS: term = min(ALLOWED_TERMS, key=lambda x: abs(x - term))\<close>\<close>

definition adjust_term :: "int \<Rightarrow> int" where
  "adjust_term term =
     (if term \<in> set ALLOWED_TERMS then term
      else py_min_key (\<lambda>x. \<bar>x - term\<bar>) (hd ALLOWED_TERMS) (tl ALLOWED_TERMS))"

section \<open>The loan an annuity pays off\<close>

text \<open>
  The abstract contract of a monthly payment: a loan of \<open>P\<close> accrues the monthly rate
  \<open>r\<close>, then one payment is made; after \<open>n\<close> months nothing is owed.
\<close>

fun balance :: "real \<Rightarrow> real \<Rightarrow> real \<Rightarrow> nat \<Rightarrow> real" where
  "balance P r pmt 0 = P"
| "balance P r pmt (Suc k) = balance P r pmt k * (1 + r) - pmt"

section \<open>Lemmas\<close>

lemma balance_closed:
  assumes "r \<noteq> 0"
  shows "balance P r pmt k = P * (1 + r) ^ k - pmt * ((1 + r) ^ k - 1) / r"
proof (induction k)
  case 0
  then show ?case by simp
next
  case (Suc k)
  have "balance P r pmt (Suc k) = (P * (1 + r) ^ k - pmt * ((1 + r) ^ k - 1) / r) * (1 + r) - pmt"
    using Suc by simp
  also have "\<dots> = P * (1 + r) ^ Suc k - pmt * ((1 + r) ^ Suc k - 1) / r"
    using assms by (simp add: field_simps)
  finally show ?case .
qed

lemma balance_zero_rate: "balance P 0 pmt k = P - of_nat k * pmt"
  by (induction k) (simp_all add: algebra_simps)

lemma real_power_eq_1_iff: "(x::real) ^ n = 1 \<longleftrightarrow> n = 0 \<or> x = 1 \<or> (x = -1 \<and> even n)"
proof
  assume h: "x ^ n = 1"
  show "n = 0 \<or> x = 1 \<or> (x = -1 \<and> even n)"
  proof (cases "n = 0")
    case False
    with power_eq_1_iff [OF h] have "x = 1 \<or> x = -1" by auto
    with h show ?thesis by (cases "even n") auto
  qed simp
qed auto

lemma annuity_denominator_pos: "0 < r \<Longrightarrow> 0 < k \<Longrightarrow> 0 < (1 + r) ^ k - (1::real)"
  by (simp add: one_less_power)

lemma monthly_payment_no_loan:
  "n \<le> 0 \<or> price \<le> down \<Longrightarrow> monthly_payment price down n a = Some 0"
  by (auto simp: monthly_payment_def Let_def)

lemma monthly_payment_zero_rate:
  "0 < n \<Longrightarrow> down < price \<Longrightarrow> monthly_payment price down n (Some 0) = Some ((price - down) / of_int n)"
  by (simp add: monthly_payment_def Let_def)

lemma monthly_payment_annuity:
  "0 < n \<Longrightarrow> down < price \<Longrightarrow> a \<noteq> 0 \<Longrightarrow>
   monthly_payment price down n (Some a) =
     py_div ((price - down) * (a / 12 * (1 + a / 12) ^ nat n)) ((1 + a / 12) ^ nat n - 1)"
  by (simp add: monthly_payment_def Let_def)

lemma cotiza_monthly_negative_rate:
  "\<not> (\<forall>a. monthly_payment 1000 0 2 (Some a) = Some (cotiza_monthly 1000 0 (Some 2) (Some a)))"
proof
  assume "\<forall>a. monthly_payment 1000 0 2 (Some a) = Some (cotiza_monthly 1000 0 (Some 2) (Some a))"
  then have "monthly_payment 1000 0 2 (Some (-12/100)) = Some (cotiza_monthly 1000 0 (Some 2) (Some (-12/100)))" ..
  then show False
    by (simp add: monthly_payment_def cotiza_monthly_def py_div_def power_divide)
qed

lemma power_minus_one_le: "0 \<le> r \<Longrightarrow> (1 + r) ^ k - 1 \<le> of_nat k * r * (1 + r) ^ k" for r :: real
proof (induction k)
  case 0
  then show ?case by simp
next
  case (Suc k)
  have q: "1 \<le> (1 + r) ^ k" using Suc.prems by simp
  have q': "1 \<le> (1 + r) ^ Suc k" using one_le_power [of "1 + r" "Suc k"] Suc.prems by simp
  have rq: "r \<le> r * (1 + r) ^ Suc k" using mult_left_mono [OF q' Suc.prems] by simp
  have "(1 + r) ^ Suc k - 1 = (1 + r) * ((1 + r) ^ k - 1) + r" by (simp add: algebra_simps)
  also have "\<dots> \<le> (1 + r) * (of_nat k * r * (1 + r) ^ k) + r * (1 + r) ^ Suc k"
    using Suc rq by (intro add_mono mult_left_mono) auto
  also have "\<dots> = of_nat (Suc k) * r * (1 + r) ^ Suc k" by (simp add: algebra_simps)
  finally show ?case .
qed

lemma adjust_term_eq:
  "adjust_term t = (if t \<le> 42 then 36 else if t \<le> 54 then 48 else if t \<le> 66 then 60 else 72)"
  by (simp add: adjust_term_def ALLOWED_TERMS_def) arith

lemma monthly_payment_nonneg_rate_Some:
  "0 \<le> a \<Longrightarrow> monthly_payment price down n (Some a) \<noteq> None"
  by (auto simp: monthly_payment_def Let_def py_div_def real_power_eq_1_iff)

section \<open>Properties\<close>

text \<open>C23: The monthly payment is exactly the constant instalment that amortizes the loan:
  with the principal \<open>price - down_payment\<close> accruing the monthly rate \<open>rate / 12\<close> and
  one instalment paid each month, nothing is owed after \<open>term\<close> months (zero rate
  included).\<close>

theorem monthly_payment_amortizes:
  assumes m: "monthly_payment price down n (Some a) = Some m"
    and n: "0 < n" and p: "down < price"
  shows "balance (price - down) (a / 12) m (nat n) = 0"
proof (cases "a = 0")
  case True
  with m n p have "m = (price - down) / of_int n"
    by (simp add: monthly_payment_zero_rate)
  with True n show ?thesis
    by (simp add: balance_zero_rate)
next
  case False
  let ?r = "a / 12" and ?q = "(1 + a / 12) ^ nat n"
  from m n p False have d: "?q - 1 \<noteq> 0"
    and mv: "m = (price - down) * (?r * ?q) / (?q - 1)"
    by (simp_all add: monthly_payment_annuity py_div_eq_Some)
  have "balance (price - down) ?r m (nat n) = (price - down) * ?q - m * (?q - 1) / ?r"
    using False by (simp add: balance_closed)
  also have "\<dots> = 0"
    using d False by (simp add: mv field_simps)
  finally show ?thesis .
qed

theorem monthly_payment_amortizes_witness:
  "monthly_payment 1000 0 2 (Some 12) = Some (4000 / 3) \<and> balance 1000 1 (4000 / 3) 2 = 0"
proof -
  have m: "monthly_payment 1000 0 2 (Some 12) = Some (4000 / 3)"
    by (simp add: monthly_payment_def py_div_def)
  have "balance (1000 - 0) (12 / 12) (4000 / 3) (nat 2) = 0"
    using monthly_payment_amortizes [OF m] by simp
  with m show ?thesis by simp
qed

text \<open>C24: For every non-negative rate, the monthly payment that \<open>cotiza_car\<close> computes
  inline equals \<open>monthly_payment\<close> on the same price, down payment, term and rate.\<close>

theorem cotiza_monthly_eq_monthly_payment:
  "0 \<le> a \<Longrightarrow> monthly_payment price down n (Some a) = Some (cotiza_monthly price down (Some n) (Some a))"
  by (auto simp: monthly_payment_def cotiza_monthly_def Let_def py_div_def real_power_eq_1_iff)

theorem cotiza_monthly_eq_monthly_payment_witness:
  "monthly_payment 1000 0 2 (Some 12) = Some (cotiza_monthly 1000 0 (Some 2) (Some 12))"
  using cotiza_monthly_eq_monthly_payment [of 12 1000 0 2] by simp

text \<open>At a non-negative rate the monthly payment is never below the straight-line
  share \<open>principal / term\<close> of the principal: the interest is never negative.\<close>

theorem monthly_payment_ge_straight_line:
  assumes m: "monthly_payment price down n (Some a) = Some m" and a: "0 \<le> a"
  shows "max (price - down) 0 / of_int n \<le> m"
proof (cases "n \<le> 0 \<or> price \<le> down")
  case True
  with m have "m = 0" by (simp add: monthly_payment_no_loan)
  with True show ?thesis by (auto simp: divide_nonneg_nonpos)
next
  case np: False
  show ?thesis
  proof (cases "a = 0")
    case True
    with m np show ?thesis by (simp add: monthly_payment_zero_rate)
  next
    case False
    let ?r = "a / 12" and ?N = "nat n"
    let ?q = "(1 + ?r) ^ ?N"
    have r: "0 < ?r" and N: "0 < ?N" using False np a by auto
    have d: "0 < ?q - 1" using annuity_denominator_pos [OF r N] .
    from m np False have mv: "m = (price - down) * (?r * ?q) / (?q - 1)"
      by (simp add: monthly_payment_annuity py_div_eq_Some)
    have "?q - 1 \<le> of_nat ?N * ?r * ?q" using power_minus_one_le [of ?r ?N] r by simp
    then have "(price - down) * (?q - 1) \<le> (price - down) * (of_nat ?N * ?r * ?q)"
      using np by (intro mult_left_mono) auto
    then have "(price - down) / of_nat ?N \<le> (price - down) * (?r * ?q) / (?q - 1)"
      using d N by (simp add: field_simps)
    then show ?thesis using np mv by simp
  qed
qed

theorem monthly_payment_ge_straight_line_witness:
  "\<exists>m. monthly_payment 250000 50000 48 (Some (1 / 10)) = Some m \<and>
       \<bar>m - 5072.52\<bar> < 0.01 \<and> 200000 / 48 \<le> m"
proof -
  define m where "m = the (monthly_payment 250000 50000 48 (Some (1 / 10)))"
  have eq: "monthly_payment 250000 50000 48 (Some (1 / 10)) = Some m"
    by (simp add: m_def monthly_payment_def py_div_def power_divide)
  have "\<bar>m - 5072.52\<bar> < 0.01"
    using eq by (simp add: monthly_payment_def py_div_def power_divide)
  moreover have "max (250000 - 50000) 0 / of_int 48 \<le> m"
    using monthly_payment_ge_straight_line [OF eq] by simp
  ultimately show ?thesis using eq by auto
qed

text \<open>C27: \<open>_parse_term\<close> snaps a requested term to the nearest allowed term: the result
  is one of 36, 48, 60, 72, no allowed term is nearer, and among equally near ones it
  is the lower (42 becomes 36), because \<open>min\<close> keeps the first of the ascending list.\<close>

theorem adjust_term_nearest:
  "adjust_term t \<in> set ALLOWED_TERMS \<and>
   (\<forall>x \<in> set ALLOWED_TERMS. \<bar>adjust_term t - t\<bar> < \<bar>x - t\<bar> \<or>
                            (\<bar>adjust_term t - t\<bar> = \<bar>x - t\<bar> \<and> adjust_term t \<le> x))"
  by (simp add: adjust_term_eq ALLOWED_TERMS_def) arith

theorem adjust_term_nearest_witness:
  "adjust_term 42 \<in> {36, 48, 60, 72} \<and> \<bar>adjust_term 42 - 42\<bar> \<le> 6 \<and> adjust_term 42 \<le> 48"
  using adjust_term_nearest [of 42] by (auto simp: ALLOWED_TERMS_def)

end
