(* ===== verification/Text.thy ===== *)
theory Text
  imports Prelude
begin

text \<open>
  The Text Normalizer: \<open>norm_txt\<close> of \<open>src/app/nlp/normalize.py\<close>
  (\<open>unidecode\<close>, \<open>strip\<close>, \<open>lower\<close>, then \<open>re.sub(r"\s+", " ", ...)\<close>), over the
  Latin-1 alphabet of \<open>Prelude\<close>. The character classes of Python's \<open>str\<close> methods
  and of \<open>re\<close> are defined here for the whole alphabet, so that the regular
  expressions of \<open>Regex\<close> and the catalog of \<open>Catalog\<close> share them.
  \<open>unidecode\<close> is the Unidecode package: its table for U+0080 to U+00FF is written
  out below (the C1 controls map to nothing, the letters with diacritics to their
  base letters, the symbols to ASCII spellings).
\<close>

section \<open>Definitions\<close>

subsection \<open>Character classes\<close>

definition is_ascii :: "char \<Rightarrow> bool" where
  "is_ascii c \<longleftrightarrow> of_char c < (128::nat)"

text \<open>\<open>str.isspace\<close> and the \<open>\s\<close> class of \<open>re\<close> on Latin-1.\<close>

definition py_isspace :: "char \<Rightarrow> bool" where
  "py_isspace c \<longleftrightarrow> (let n = (of_char c :: nat) in
     (9 \<le> n \<and> n \<le> 13) \<or> (28 \<le> n \<and> n \<le> 32) \<or> n = 133 \<or> n = 160)"

definition is_upper_char :: "char \<Rightarrow> bool" where
  "is_upper_char c \<longleftrightarrow> (let n = (of_char c :: nat) in
     (65 \<le> n \<and> n \<le> 90) \<or> (192 \<le> n \<and> n \<le> 222 \<and> n \<noteq> 215))"

text \<open>\<open>str.lower\<close> on one character: A-Z and the Latin-1 capitals.\<close>

definition py_lower_char :: "char \<Rightarrow> char" where
  "py_lower_char c = (if is_upper_char c then char_of (of_char c + (32::nat)) else c)"

definition py_lower :: "string \<Rightarrow> string" where
  "py_lower s = map py_lower_char s"

text \<open>\<open>str.isdigit\<close> restricted to what \<open>\d\<close> matches on Latin-1: 0-9.\<close>

definition is_digit :: "char \<Rightarrow> bool" where
  "is_digit c \<longleftrightarrow> (let n = (of_char c :: nat) in 48 \<le> n \<and> n \<le> 57)"

text \<open>The \<open>\w\<close> class: \<open>str.isalnum\<close> on Latin-1, and the underscore.\<close>

definition is_word_char :: "char \<Rightarrow> bool" where
  "is_word_char c \<longleftrightarrow> (let n = (of_char c :: nat) in
     (48 \<le> n \<and> n \<le> 57) \<or> (65 \<le> n \<and> n \<le> 90) \<or> (97 \<le> n \<and> n \<le> 122) \<or> n = 95 \<or>
     n \<in> {170, 178, 179, 181, 185, 186, 188, 189, 190} \<or>
     (192 \<le> n \<and> n \<le> 255 \<and> n \<noteq> 215 \<and> n \<noteq> 247))"

subsection \<open>Unidecode\<close>

definition unidecode_high :: "string list" where
  "unidecode_high =
     replicate 32 [] @
     [[CHR '' ''], [CHR ''!''], ''C/'', ''PS'', ''$?'', ''Y='', [CHR ''|''], ''SS'',
      [CHR 0x22], ''(c)'', [CHR ''a''], ''<<'', [CHR ''!''], [], ''(r)'', [CHR ''-''],
      ''deg'', ''+-'', [CHR ''2''], [CHR ''3''], [CHR 0x27], [CHR ''u''], [CHR ''P''], [CHR ''*''],
      [CHR '',''], [CHR ''1''], [CHR ''o''], ''>>'', '' 1/4'', '' 1/2'', '' 3/4'', [CHR ''?''],
      [CHR ''A''], [CHR ''A''], [CHR ''A''], [CHR ''A''], [CHR ''A''], [CHR ''A''], ''AE'', [CHR ''C''],
      [CHR ''E''], [CHR ''E''], [CHR ''E''], [CHR ''E''], [CHR ''I''], [CHR ''I''], [CHR ''I''], [CHR ''I''],
      [CHR ''D''], [CHR ''N''], [CHR ''O''], [CHR ''O''], [CHR ''O''], [CHR ''O''], [CHR ''O''], [CHR ''x''],
      [CHR ''O''], [CHR ''U''], [CHR ''U''], [CHR ''U''], [CHR ''U''], [CHR ''Y''], ''Th'', ''ss'',
      [CHR ''a''], [CHR ''a''], [CHR ''a''], [CHR ''a''], [CHR ''a''], [CHR ''a''], ''ae'', [CHR ''c''],
      [CHR ''e''], [CHR ''e''], [CHR ''e''], [CHR ''e''], [CHR ''i''], [CHR ''i''], [CHR ''i''], [CHR ''i''],
      [CHR ''d''], [CHR ''n''], [CHR ''o''], [CHR ''o''], [CHR ''o''], [CHR ''o''], [CHR ''o''], [CHR ''/''],
      [CHR ''o''], [CHR ''u''], [CHR ''u''], [CHR ''u''], [CHR ''u''], [CHR ''y''], ''th'', [CHR ''y'']]"

definition unidecode_char :: "char \<Rightarrow> string" where
  "unidecode_char c = (if is_ascii c then [c] else unidecode_high ! (of_char c - 128))"

definition unidecode :: "string \<Rightarrow> string" where
  "unidecode s = concat (map unidecode_char s)"

subsection \<open>strip and whitespace runs\<close>

definition py_strip :: "string \<Rightarrow> string" where
  "py_strip s = rev (dropWhile py_isspace (rev (dropWhile py_isspace s)))"

text \<open>
  \<open>re.sub(r"\s+", " ", s)\<close>: every maximal run of whitespace becomes one space. The
  scan carries whether it is inside a run already replaced.
\<close>

fun collapse_run :: "bool \<Rightarrow> string \<Rightarrow> string" where
  "collapse_run in_run [] = []"
| "collapse_run in_run (c # cs) =
     (if py_isspace c
      then (if in_run then collapse_run True cs else CHR '' '' # collapse_run True cs)
      else c # collapse_run False cs)"

definition collapse_ws :: "string \<Rightarrow> string" where
  "collapse_ws s = collapse_run False s"

text \<open>\<open>str.split()\<close> with no separator: the maximal runs of non-whitespace.\<close>

function py_split :: "string \<Rightarrow> string list" where
  "py_split [] = []"
| "py_split (c # cs) =
     (if py_isspace c then py_split cs
      else takeWhile (\<lambda>x. \<not> py_isspace x) (c # cs) # py_split (dropWhile (\<lambda>x. \<not> py_isspace x) cs))"
  by pat_completeness auto
termination
  by (relation "measure length") (auto simp: le_imp_less_Suc length_dropWhile_le)

subsection \<open>norm_txt\<close>

definition norm_txt :: "string \<Rightarrow> string" where
  "norm_txt s = collapse_ws (py_lower (py_strip (unidecode s)))"

text \<open>\<open>normalize_text\<close> is an alias of \<open>norm_txt\<close>.\<close>

definition normalize_text :: "string \<Rightarrow> string" where
  "normalize_text s = norm_txt s"

text \<open>
  The normal form \<open>norm_txt\<close> produces: ASCII, no capital, no whitespace but single
  spaces between non-blank characters.
\<close>

definition is_normalized :: "string \<Rightarrow> bool" where
  "is_normalized t \<longleftrightarrow>
     (\<forall>c \<in> set t. is_ascii c \<and> \<not> is_upper_char c \<and> (py_isspace c \<longrightarrow> c = CHR '' '')) \<and>
     \<not> has_sub ''  '' t \<and> (t \<noteq> [] \<longrightarrow> hd t \<noteq> CHR '' '' \<and> last t \<noteq> CHR '' '')"

section \<open>Lemmas\<close>

lemma of_char_lt_256: "of_char c < (256::nat)"
  by (metis of_char_mod_256 mod_less_divisor zero_less_numeral)


lemma space_char_iff: "c = CHR '' '' \<longleftrightarrow> (of_char c :: nat) = 32"
proof -
  have "(of_char (CHR '' '') :: nat) = 32" by simp
  then show ?thesis by (metis of_char_eq_iff)
qed

lemma py_isspace_space [simp]: "py_isspace (CHR '' '')"
  by (simp add: py_isspace_def)

lemma unidecode_high_ascii: "\<forall>w \<in> set unidecode_high. \<forall>c \<in> set w. is_ascii c"
  by (simp add: unidecode_high_def is_ascii_def)

lemma length_unidecode_high: "length unidecode_high = 128"
  by (simp add: unidecode_high_def)

lemma unidecode_char_ascii: "c' \<in> set (unidecode_char c) \<Longrightarrow> is_ascii c'"
proof (cases "is_ascii c")
  case False
  then have "of_char c - 128 < length unidecode_high"
    using of_char_lt_256 [of c] unfolding is_ascii_def length_unidecode_high by linarith
  moreover assume "c' \<in> set (unidecode_char c)"
  ultimately show ?thesis using False unidecode_high_ascii
    by (auto simp: unidecode_char_def dest: nth_mem)
qed (simp add: unidecode_char_def)

lemma unidecode_ascii: "c \<in> set (unidecode s) \<Longrightarrow> is_ascii c"
  by (auto simp: unidecode_def dest: unidecode_char_ascii)

lemma unidecode_id: "\<forall>c \<in> set s. is_ascii c \<Longrightarrow> unidecode s = s"
  by (induction s) (simp_all add: unidecode_def unidecode_char_def)

lemma py_lower_char_not_upper: "\<not> is_upper_char (py_lower_char c)"
  using of_char_lt_256 [of c]
  by (auto simp: py_lower_char_def is_upper_char_def Let_def)

lemma py_lower_char_ascii: "is_ascii c \<Longrightarrow> is_ascii (py_lower_char c)"
  by (auto simp: py_lower_char_def is_upper_char_def is_ascii_def Let_def)

lemma py_lower_char_space: "py_isspace (py_lower_char c) \<longleftrightarrow> py_isspace c"
  using of_char_lt_256 [of c]
  by (auto simp: py_lower_char_def is_upper_char_def py_isspace_def Let_def)

lemma py_lower_char_id: "\<not> is_upper_char c \<Longrightarrow> py_lower_char c = c"
  by (simp add: py_lower_char_def)

lemma py_lower_char_eq_space: "py_lower_char c = CHR '' '' \<longleftrightarrow> c = CHR '' ''"
  using of_char_lt_256 [of c]
  by (auto simp: py_lower_char_def is_upper_char_def Let_def space_char_iff)

lemma py_lower_char_space_eq: "py_isspace c \<Longrightarrow> py_lower_char c = c"
  by (auto simp: py_lower_char_def is_upper_char_def py_isspace_def Let_def)

lemma py_strip_hd: "py_strip s \<noteq> [] \<Longrightarrow> \<not> py_isspace (hd (py_strip s))"
proof -
  assume ne: "py_strip s \<noteq> []"
  let ?ys = "dropWhile py_isspace s"
  have "?ys \<noteq> []"
  proof
    assume "?ys = []"
    with ne show False by (simp add: py_strip_def)
  qed
  then obtain y ys' where ys: "?ys = y # ys'" by (cases ?ys) auto
  have "\<not> py_isspace (hd ?ys)" using \<open>?ys \<noteq> []\<close> by (rule hd_dropWhile)
  with ys have y: "\<not> py_isspace y" by simp
  have "dropWhile py_isspace (rev ?ys) = dropWhile py_isspace (rev ys') @ [y] \<or>
        dropWhile py_isspace (rev ?ys) = [y]"
    using y by (simp add: ys dropWhile_append)
  then show ?thesis using y by (auto simp: py_strip_def)
qed

lemma py_strip_last: "py_strip s \<noteq> [] \<Longrightarrow> \<not> py_isspace (last (py_strip s))"
  using hd_dropWhile [of py_isspace "rev (dropWhile py_isspace s)"]
  by (auto simp: py_strip_def last_rev)

lemma set_py_strip: "set (py_strip s) \<subseteq> set s"
proof
  fix x
  assume "x \<in> set (py_strip s)"
  then have "x \<in> set (dropWhile py_isspace (rev (dropWhile py_isspace s)))"
    by (simp add: py_strip_def)
  then have "x \<in> set (rev (dropWhile py_isspace s))" by (rule set_dropWhileD)
  then have "x \<in> set (dropWhile py_isspace s)" by simp
  then show "x \<in> set s" by (rule set_dropWhileD)
qed

lemma py_strip_id:
  "s = [] \<or> (\<not> py_isspace (hd s) \<and> \<not> py_isspace (last s)) \<Longrightarrow> py_strip s = s"
proof (cases s rule: rev_cases)
  case (snoc ys y)
  moreover assume "s = [] \<or> (\<not> py_isspace (hd s) \<and> \<not> py_isspace (last s))"
  ultimately have h: "\<not> py_isspace (hd s)" and l: "\<not> py_isspace y" by auto
  from h have "dropWhile py_isspace s = s" by (cases s) auto
  with snoc l show ?thesis by (simp add: py_strip_def)
qed (simp add: py_strip_def)

lemma collapse_run_set:
  "c \<in> set (collapse_run b s) \<Longrightarrow> c = CHR '' '' \<or> (c \<in> set s \<and> \<not> py_isspace c)"
  by (induction b s rule: collapse_run.induct) (auto split: if_splits)

lemma collapse_run_no_double:
  "(b \<longrightarrow> \<not> prefix '' '' (collapse_run b s)) \<and> \<not> sublist ''  '' (collapse_run b s)"
proof (induction b s rule: collapse_run.induct)
  case (1 b)
  then show ?case by simp
next
  case (2 b c cs)
  have ns: "\<not> py_isspace c \<Longrightarrow> c \<noteq> CHR '' ''" by auto
  show ?case using 2 ns by (auto simp: sublist_Cons_right)
qed

lemma collapse_run_hd:
  "s \<noteq> [] \<Longrightarrow> \<not> py_isspace (hd s) \<Longrightarrow> collapse_run b s \<noteq> [] \<and> hd (collapse_run b s) = hd s"
  by (cases s) auto

lemma collapse_run_last:
  "s \<noteq> [] \<Longrightarrow> \<not> py_isspace (last s) \<Longrightarrow> collapse_run b s \<noteq> [] \<and> last (collapse_run b s) = last s"
proof (induction s arbitrary: b)
  case Nil
  then show ?case by simp
next
  case (Cons c cs)
  show ?case
  proof (cases "cs = []")
    case True
    with Cons.prems show ?thesis by simp
  next
    case False
    with Cons.prems have "\<not> py_isspace (last cs)" by simp
    with False Cons.IH have "collapse_run b' cs \<noteq> [] \<and> last (collapse_run b' cs) = last cs" for b'
      by blast
    with False show ?thesis by simp
  qed
qed

lemma collapse_run_id:
  "(\<forall>c \<in> set s. py_isspace c \<longrightarrow> c = CHR '' '') \<Longrightarrow> \<not> sublist ''  '' s \<Longrightarrow>
   (b \<longrightarrow> \<not> prefix '' '' s) \<Longrightarrow> collapse_run b s = s"
proof (induction b s rule: collapse_run.induct)
  case (1 b)
  then show ?case by simp
next
  case (2 b c cs)
  from "2.prems"(2) have nd: "\<not> sublist ''  '' cs" by (auto simp: sublist_Cons_right)
  show ?case
  proof (cases "py_isspace c")
    case True
    with "2.prems"(1) have "c = CHR '' ''" by simp
    moreover with "2.prems"(2) have "\<not> prefix '' '' cs" by (auto simp: sublist_Cons_right)
    ultimately show ?thesis using "2.prems" "2.IH" True nd by auto
  next
  case False
    then show ?thesis using "2.prems" "2.IH"(3) nd by auto
  qed
qed

lemma norm_txt_normalized: "is_normalized (norm_txt s)"
proof -
  let ?w = "py_lower (py_strip (unidecode s))"
  have ascii: "\<forall>c \<in> set ?w. is_ascii c"
    using set_py_strip by (auto simp: py_lower_def intro!: py_lower_char_ascii dest!: unidecode_ascii)
  have hd_w: "?w \<noteq> [] \<Longrightarrow> \<not> py_isspace (hd ?w)"
    using py_strip_hd by (auto simp: py_lower_def hd_map py_lower_char_space)
  have last_w: "?w \<noteq> [] \<Longrightarrow> \<not> py_isspace (last ?w)"
    using py_strip_last by (auto simp: py_lower_def last_map py_lower_char_space)
  have nu: "\<forall>c \<in> set ?w. \<not> is_upper_char c"
    by (auto simp: py_lower_def py_lower_char_not_upper)
  have sp: "\<not> is_upper_char (CHR '' '') \<and> is_ascii (CHR '' '')"
    by (simp add: is_upper_char_def is_ascii_def)
  have chars: "\<forall>c \<in> set (norm_txt s). is_ascii c \<and> \<not> is_upper_char c \<and> (py_isspace c \<longrightarrow> c = CHR '' '')"
    using ascii nu sp by (auto simp: norm_txt_def collapse_ws_def dest!: collapse_run_set)
  have nd: "\<not> has_sub ''  '' (norm_txt s)"
    using collapse_run_no_double by (simp add: norm_txt_def collapse_ws_def has_sub_sublist)
  have ends: "norm_txt s \<noteq> [] \<Longrightarrow> hd (norm_txt s) \<noteq> CHR '' '' \<and> last (norm_txt s) \<noteq> CHR '' ''"
  proof -
    assume ne: "norm_txt s \<noteq> []"
    then have "?w \<noteq> []" by (auto simp: norm_txt_def collapse_ws_def)
    with hd_w last_w collapse_run_hd [of ?w False] collapse_run_last [of ?w False]
    show ?thesis by (auto simp: norm_txt_def collapse_ws_def)
  qed
  show ?thesis using chars nd ends by (simp add: is_normalized_def)
qed

lemma norm_txt_fixpoint: "is_normalized t \<Longrightarrow> norm_txt t = t"
proof -
  assume n: "is_normalized t"
  then have ascii: "\<forall>c \<in> set t. is_ascii c" and nu: "\<forall>c \<in> set t. \<not> is_upper_char c"
    and sp: "\<forall>c \<in> set t. py_isspace c \<longrightarrow> c = CHR '' ''"
    and nd: "\<not> sublist ''  '' t"
    and ends: "t \<noteq> [] \<Longrightarrow> hd t \<noteq> CHR '' '' \<and> last t \<noteq> CHR '' ''"
    by (auto simp: is_normalized_def has_sub_sublist)
  have "t = [] \<or> (\<not> py_isspace (hd t) \<and> \<not> py_isspace (last t))"
    using ends sp by (cases "t = []") auto
  then have st: "py_strip t = t" by (rule py_strip_id)
  have lo: "py_lower t = t"
    using nu by (simp add: py_lower_def py_lower_char_id map_idI)
  have "collapse_run False t = t"
    using sp nd by (rule collapse_run_id) simp
  then show ?thesis
    using ascii by (simp add: norm_txt_def collapse_ws_def unidecode_id st lo)
qed

section \<open>Properties\<close>

text \<open>C28: \<open>norm_txt\<close> is idempotent: normalizing a normalized text changes nothing.\<close>

theorem norm_txt_idempotent: "norm_txt (norm_txt s) = norm_txt s"
  using norm_txt_normalized by (rule norm_txt_fixpoint)

text \<open>The texts \<open>norm_txt\<close> leaves unchanged are exactly the normal forms: ASCII,
  without capitals, whose only whitespace is single spaces between other characters.\<close>

theorem norm_txt_fixpoint_iff: "norm_txt t = t \<longleftrightarrow> is_normalized t"
  by (metis norm_txt_fixpoint norm_txt_normalized)

theorem norm_txt_fixpoint_iff_witness:
  "norm_txt (CHR '' '' # ''M'' @ CHR 0xE1 # ''s  BARATO'') = ''mas barato'' \<and>
   is_normalized ''mas barato'' \<and> norm_txt ''mas barato'' = ''mas barato''"
proof -
  have n: "is_normalized ''mas barato''"
    by code_simp
  have "norm_txt (CHR '' '' # ''M'' @ CHR 0xE1 # ''s  BARATO'') = ''mas barato''"
    by code_simp
  with n norm_txt_fixpoint_iff [of "''mas barato''"] show ?thesis by simp
qed

end
