(* ===== verification/Catalog.thy ===== *)
theory Catalog
  imports Text
begin

text \<open>
  The Catalog Query Engine of \<open>src/app/nlp/tools.py\<close>: the catalog rows with their
  normalized columns (\<open>_normalize_columns\<close>), the alias tables of
  \<open>src/app/nlp/aliases.py\<close>, brand and model inference (\<open>_guess_brand\<close>,
  \<open>_guess_model\<close>, \<open>fuzzy_best\<close>), the filtering and ranking of
  \<open>_filtered_df_for_search\<close>, and \<open>search_cars\<close> / \<open>search_cars_count\<close>.
  The catalog is the DataFrame after loading, a list of rows in file order; loading the
  CSV is not modelled. The string scorers of RapidFuzz are a parameter (\<open>scorers\<close>):
  every lemma here holds for any scorer functions, so no property rests on how
  RapidFuzz computes a similarity.
\<close>

section \<open>Definitions\<close>

subsection \<open>Rows and filters\<close>

text \<open>A catalog row. \<open>car_id\<close> is \<open>str(id)\<close>, the form in which the sources compare
  ids; \<open>version\<close> is \<open>""\<close> when the CSV has no version column.\<close>

record car =
  car_id :: string
  brand :: string
  model :: string
  version :: string
  year :: int
  km :: int
  price :: real
  location :: string

definition brand_n :: "car \<Rightarrow> string" where
  "brand_n c = norm_txt (brand c)"

definition model_n :: "car \<Rightarrow> string" where
  "model_n c = norm_txt (model c)"

definition version_n :: "car \<Rightarrow> string" where
  "version_n c = norm_txt (version c)"

text \<open>The filters dictionary of \<open>route_message\<close>: one optional field per key it uses.\<close>

record filters =
  f_raw_text :: "string option"
  f_brand :: "string option"
  f_model :: "string option"
  f_version :: "string option"
  f_year_min :: "int option"
  f_year_max :: "int option"
  f_price_min :: "real option"
  f_price_max :: "real option"
  f_km_max :: "int option"

definition no_filters :: filters where
  "no_filters = \<lparr>f_raw_text = None, f_brand = None, f_model = None, f_version = None,
     f_year_min = None, f_year_max = None, f_price_min = None, f_price_max = None, f_km_max = None\<rparr>"

text \<open>\<open>filters.get(k) or ""\<close>, and \<open>norm_txt(None)\<close>, which is \<open>norm_txt("")\<close>.\<close>

definition opt_str :: "string option \<Rightarrow> string" where
  "opt_str s = (case s of None \<Rightarrow> [] | Some x \<Rightarrow> x)"

subsection \<open>Alias tables\<close>

definition BRAND_ALIAS :: "(string \<times> string) list" where
  "BRAND_ALIAS =
     [(''vw'', ''volkswagen''), (''vokswagen'', ''volkswagen''), (''mercedes'', ''mercedes benz''),
      (''mercedes-benz'', ''mercedes benz''), (''mercedesbenz'', ''mercedes benz''),
      (''chevy'', ''chevrolet''), (''bmv'', ''bmw''), (''nisan'', ''nissan''), (''nizan'', ''nissan''),
      (''nisaan'', ''nissan''), (''nizzan'', ''nissan''), (''niisan'', ''nissan''),
      (''nisssan'', ''nissan''), (''toyoya'', ''toyota''), (''hunday'', ''hyundai'')]"

definition MODEL_ALIAS :: "(string \<times> string) list" where
  "MODEL_ALIAS =
     [(''kix'', ''kicks''), (''kick'', ''kicks''), (''xtrail'', ''x-trail''), (''extrail'', ''x-trail''),
      (''estrail'', ''x-trail''), (''x trail'', ''x-trail''), (''sentar'', ''sentra''),
      (''sentrea'', ''sentra''), (''verzza'', ''versa''), (''verssa'', ''versa''),
      (''corola'', ''corolla''), (''forte'', ''forte''), (''clasea'', ''clase a'')]"

definition VERSION_ALIAS :: "(string \<times> string) list" where
  "VERSION_ALIAS =
     [(''sense'', ''sense''), (''advance'', ''advance''), (''exclusive'', ''exclusive''),
      (''lt'', ''lt''), (''ls'', ''ls''), (''sr'', ''sr''), (''le'', ''le''), (''xe'', ''xe''),
      (''xl'', ''xl'')]"

definition STOPWORDS :: "string list" where
  "STOPWORDS =
     [''busco'', ''buscar'', ''un'', ''una'', ''por'', ''de'', ''mas'', ''m'' @ CHR 0xE1 # ''s'',
      ''menos'', ''hasta'', ''desde'', ''quiero'', ''necesito'', ''auto'', ''carro'', ''coche'',
      ''barato'', ''semineuvo'', ''seminuevo'']"

text \<open>\<open>ALIAS.get(tok, tok)\<close>.\<close>

definition alias_get :: "(string \<times> string) list \<Rightarrow> string \<Rightarrow> string" where
  "alias_get tbl tok = (case map_of tbl tok of None \<Rightarrow> tok | Some a \<Rightarrow> a)"

subsection \<open>Fuzzy matching\<close>

text \<open>The RapidFuzz scorers the sources call, as an interface.\<close>

record scorers =
  wratio :: "string \<Rightarrow> string \<Rightarrow> real"
  token_set_ratio :: "string \<Rightarrow> string \<Rightarrow> real"
  partial_ratio :: "string \<Rightarrow> string \<Rightarrow> real"
  lev_similarity :: "string \<Rightarrow> string \<Rightarrow> real"

text \<open>
  \<open>process.extractOne(q, choices, scorer, score_cutoff)\<close>: the first choice of highest
  score among those scoring at least the cutoff (a later choice replaces the best only
  with a strictly higher score).
\<close>

definition extract_step ::
  "(string \<Rightarrow> string \<Rightarrow> real) \<Rightarrow> string \<Rightarrow> real \<Rightarrow> string \<Rightarrow> string option \<Rightarrow> string option" where
  "extract_step scorer q cutoff c best =
     (if cutoff \<le> scorer q c \<and> (case best of None \<Rightarrow> True | Some b \<Rightarrow> scorer q b < scorer q c)
      then Some c else best)"

definition extract_one :: "(string \<Rightarrow> string \<Rightarrow> real) \<Rightarrow> string \<Rightarrow> string list \<Rightarrow> real \<Rightarrow> string option" where
  "extract_one scorer q choices cutoff = fold (extract_step scorer q cutoff) choices None"

definition fuzzy_best :: "scorers \<Rightarrow> string \<Rightarrow> string list \<Rightarrow> real \<Rightarrow> string option" where
  "fuzzy_best sc q choices cutoff =
     (if q = [] then None else extract_one (token_set_ratio sc) q choices cutoff)"

text \<open>The last resort of \<open>_guess_brand\<close> and \<open>_guess_model\<close>: token by token, the best
  partial match, kept if its Levenshtein similarity reaches the threshold.\<close>

fun lev_pass :: "scorers \<Rightarrow> real \<Rightarrow> string list \<Rightarrow> string list \<Rightarrow> string option" where
  "lev_pass sc th [] cands = None"
| "lev_pass sc th (tok # toks) cands =
     (case extract_one (partial_ratio sc) tok cands 0 of
        Some cand \<Rightarrow> if th \<le> lev_similarity sc tok cand then Some cand else lev_pass sc th toks cands
      | None \<Rightarrow> lev_pass sc th toks cands)"

definition guess_tokens :: "string \<Rightarrow> string list" where
  "guess_tokens t_full = filter (\<lambda>tok. 3 \<le> length tok \<and> tok \<notin> set STOPWORDS) (py_split t_full)"

definition guess_brand :: "scorers \<Rightarrow> string \<Rightarrow> string list \<Rightarrow> string option" where
  "guess_brand sc raw_text brands =
     (let t_full = norm_txt raw_text; tokens = guess_tokens t_full
      in case find (\<lambda>tok. alias_get BRAND_ALIAS tok \<in> set brands) tokens of
           Some tok \<Rightarrow> Some (alias_get BRAND_ALIAS tok)
         | None \<Rightarrow>
           (case extract_one (wratio sc) t_full brands 90 of
              Some b \<Rightarrow> Some b
            | None \<Rightarrow>
              (case extract_one (token_set_ratio sc) t_full brands 88 of
                 Some b \<Rightarrow> Some b
               | None \<Rightarrow> lev_pass sc (80 / 100) tokens brands)))"

definition guess_model :: "scorers \<Rightarrow> string \<Rightarrow> string list \<Rightarrow> string option" where
  "guess_model sc raw_text candidate_models =
     (let t_full = norm_txt raw_text; tokens = guess_tokens t_full
      in case find (\<lambda>tok. alias_get MODEL_ALIAS tok \<in> set candidate_models) tokens of
           Some tok \<Rightarrow> Some (alias_get MODEL_ALIAS tok)
         | None \<Rightarrow>
           (case extract_one (wratio sc) t_full candidate_models 88 of
              Some m \<Rightarrow> Some m
            | None \<Rightarrow>
              (case extract_one (token_set_ratio sc) t_full candidate_models 86 of
                 Some m \<Rightarrow> Some m
               | None \<Rightarrow> lev_pass sc (78 / 100) tokens candidate_models)))"

subsection \<open>The locks of \<open>_filtered_df_for_search\<close>\<close>

text \<open>\<open>if lock:\<close> on a string: the empty string counts as no lock.\<close>

definition if_truthy :: "string option \<Rightarrow> string option" where
  "if_truthy x = (case x of Some v \<Rightarrow> if v = [] then None else Some v | None \<Rightarrow> None)"

text \<open>Version inferred from the free text: the first token of \<open>VERSION_ALIAS\<close> whose
  alias has a match in the catalog's versions.\<close>

fun version_from_tokens :: "scorers \<Rightarrow> string list \<Rightarrow> string list \<Rightarrow> string option" where
  "version_from_tokens sc [] cands = None"
| "version_from_tokens sc (tok # toks) cands =
     (case map_of VERSION_ALIAS tok of
        None \<Rightarrow> version_from_tokens sc toks cands
      | Some vq \<Rightarrow> (case if_truthy (fuzzy_best sc vq cands 80) of
                     Some v \<Rightarrow> Some v
                   | None \<Rightarrow> version_from_tokens sc toks cands))"

definition resolve_version :: "scorers \<Rightarrow> string \<Rightarrow> string \<Rightarrow> string list \<Rightarrow> string option" where
  "resolve_version sc version_q raw_text candidate_versions =
     (if version_q \<noteq> [] then if_truthy (fuzzy_best sc (alias_get VERSION_ALIAS version_q) candidate_versions 85)
      else if raw_text \<noteq> [] then version_from_tokens sc (py_split raw_text) candidate_versions
      else None)"

definition resolve_brand :: "scorers \<Rightarrow> string \<Rightarrow> string \<Rightarrow> string list \<Rightarrow> string option" where
  "resolve_brand sc brand_q raw_text brands =
     (if brand_q = [] \<and> raw_text \<noteq> [] then if_truthy (guess_brand sc raw_text brands)
      else if brand_q \<noteq> [] then if_truthy (fuzzy_best sc brand_q brands 86)
      else None)"

definition resolve_model :: "scorers \<Rightarrow> string \<Rightarrow> string \<Rightarrow> string list \<Rightarrow> string option" where
  "resolve_model sc model_q raw_text candidate_models =
     (if model_q = [] \<and> raw_text \<noteq> [] then if_truthy (guess_model sc raw_text candidate_models)
      else if model_q \<noteq> [] then if_truthy (fuzzy_best sc (norm_txt model_q) candidate_models 85)
      else None)"

text \<open>\<open>df[df[col] == v]\<close> for a lock that may be absent.\<close>

definition lock_filter :: "(car \<Rightarrow> string) \<Rightarrow> string option \<Rightarrow> car list \<Rightarrow> car list" where
  "lock_filter col lk cs = (case lk of None \<Rightarrow> cs | Some v \<Rightarrow> filter (\<lambda>c. col c = v) cs)"

subsection \<open>Numeric filters and ranking\<close>

definition numeric_filter :: "filters \<Rightarrow> car list \<Rightarrow> car list" where
  "numeric_filter f cs =
     (let cs1 = (case f_price_min f of None \<Rightarrow> cs | Some p \<Rightarrow> filter (\<lambda>c. p \<le> price c) cs);
          cs2 = (case f_price_max f of None \<Rightarrow> cs1 | Some p \<Rightarrow> filter (\<lambda>c. price c \<le> p) cs1);
          cs3 = (case f_year_min f of None \<Rightarrow> cs2 | Some y \<Rightarrow> filter (\<lambda>c. y \<le> year c) cs2)
      in case f_km_max f of None \<Rightarrow> cs3 | Some k \<Rightarrow> filter (\<lambda>c. km c \<le> k) cs3)"

text \<open>
  \<open>sort_values\<close> over several columns is stable, as \<open>sort_key\<close> is. With a minimum
  year: nearest year first, then fewer km, then lower price; without: fewer km, then
  newer, then lower price.
\<close>

definition rank_key_year :: "int \<Rightarrow> car \<Rightarrow> int \<times> int \<times> real" where
  "rank_key_year y c = (\<bar>year c - y\<bar>, km c, price c)"

definition rank_key_km :: "car \<Rightarrow> int \<times> int \<times> real" where
  "rank_key_km c = (km c, - year c, price c)"

definition rank :: "int option \<Rightarrow> car list \<Rightarrow> car list" where
  "rank year_min cs =
     (case year_min of Some y \<Rightarrow> sort_key (rank_key_year y) cs | None \<Rightarrow> sort_key rank_key_km cs)"

text \<open>What the numeric filters keep, as one predicate.\<close>

definition numeric_ok :: "filters \<Rightarrow> car \<Rightarrow> bool" where
  "numeric_ok f c \<longleftrightarrow>
     (case f_price_min f of None \<Rightarrow> True | Some p \<Rightarrow> p \<le> price c) \<and>
     (case f_price_max f of None \<Rightarrow> True | Some p \<Rightarrow> price c \<le> p) \<and>
     (case f_year_min f of None \<Rightarrow> True | Some y \<Rightarrow> y \<le> year c) \<and>
     (case f_km_max f of None \<Rightarrow> True | Some k \<Rightarrow> km c \<le> k)"

subsection \<open>The search\<close>

text \<open>The three locks of \<open>_filtered_df_for_search\<close>, each from the inputs the code
  gives it: the query strings are the normalized filter values, the vocabularies the
  distinct normalized columns; the model candidates are the models left after the version
  and brand filters when a brand is locked.\<close>

definition version_lock_of :: "scorers \<Rightarrow> car list \<Rightarrow> filters \<Rightarrow> string option" where
  "version_lock_of sc cat f =
     resolve_version sc (norm_txt (opt_str (f_version f))) (norm_txt (opt_str (f_raw_text f)))
       (unique (map version_n cat))"

definition brand_lock_of :: "scorers \<Rightarrow> car list \<Rightarrow> filters \<Rightarrow> string option" where
  "brand_lock_of sc cat f =
     resolve_brand sc (norm_txt (opt_str (f_brand f))) (norm_txt (opt_str (f_raw_text f)))
       (unique (map brand_n cat))"

definition model_candidates :: "scorers \<Rightarrow> car list \<Rightarrow> filters \<Rightarrow> string list" where
  "model_candidates sc cat f =
     (if brand_lock_of sc cat f = None then unique (map model_n cat)
      else unique (map model_n (lock_filter brand_n (brand_lock_of sc cat f)
                                  (lock_filter version_n (version_lock_of sc cat f) cat))))"

definition model_lock_of :: "scorers \<Rightarrow> car list \<Rightarrow> filters \<Rightarrow> string option" where
  "model_lock_of sc cat f =
     resolve_model sc (norm_txt (opt_str (f_model f))) (norm_txt (opt_str (f_raw_text f)))
       (model_candidates sc cat f)"

definition filtered_df :: "scorers \<Rightarrow> car list \<Rightarrow> filters \<Rightarrow> car list" where
  "filtered_df sc cat f =
     (if cat = [] then [] else
      let df1 = lock_filter version_n (version_lock_of sc cat f) cat;
          df2 = lock_filter brand_n (brand_lock_of sc cat f) df1;
          df3 = lock_filter model_n (model_lock_of sc cat f) df2;
          df4 = (if df3 = [] then df3 else lock_filter brand_n (brand_lock_of sc cat f) df3);
          df5 = numeric_filter f df4
      in if df5 = [] then [] else rank (f_year_min f) df5)"

text \<open>The specification the search meets: the cars that satisfy every lock and every
  numeric filter, in catalog order, ranked.\<close>

definition lock_ok :: "string option \<Rightarrow> (car \<Rightarrow> string) \<Rightarrow> car \<Rightarrow> bool" where
  "lock_ok lk col c \<longleftrightarrow> (case lk of None \<Rightarrow> True | Some v \<Rightarrow> col c = v)"

definition search_spec :: "scorers \<Rightarrow> car list \<Rightarrow> filters \<Rightarrow> car list" where
  "search_spec sc cat f =
     rank (f_year_min f)
       (filter (\<lambda>c. lock_ok (version_lock_of sc cat f) version_n c \<and>
                    lock_ok (brand_lock_of sc cat f) brand_n c \<and>
                    lock_ok (model_lock_of sc cat f) model_n c \<and> numeric_ok f c) cat)"

definition search_cars :: "scorers \<Rightarrow> car list \<Rightarrow> filters \<Rightarrow> nat \<Rightarrow> nat \<Rightarrow> car list" where
  "search_cars sc cat f limit offset = take limit (drop offset (filtered_df sc cat f))"

definition search_cars_count :: "scorers \<Rightarrow> car list \<Rightarrow> filters \<Rightarrow> nat" where
  "search_cars_count sc cat f = length (filtered_df sc cat f)"

subsection \<open>Fixtures\<close>

text \<open>A scorer that only recognises identical strings, and the three cars of the test
  suite's catalog stub (\<open>src/tests/conftest.py\<close>), to evaluate the theorems on.\<close>

definition exact_scorers :: scorers where
  "exact_scorers =
     \<lparr>wratio = (\<lambda>q c. if q = c then 100 else 0), token_set_ratio = (\<lambda>q c. if q = c then 100 else 0),
      partial_ratio = (\<lambda>q c. if q = c then 100 else 0), lev_similarity = (\<lambda>q c. if q = c then 1 else 0)\<rparr>"

definition demo_catalog :: "car list" where
  "demo_catalog =
     [\<lparr>car_id = ''322722'', brand = ''Nissan'', model = ''Versa'', version = ''Sense'', year = 2020,
       km = 45837, price = 265999, location = ''Online''\<rparr>,
      \<lparr>car_id = ''320505'', brand = ''Nissan'', model = ''Sentra'', version = [], year = 2019,
       km = 18383, price = 268999, location = ''Online''\<rparr>,
      \<lparr>car_id = ''316168'', brand = ''Suzuki'', model = ''Swift'', version = [], year = 2023,
       km = 18410, price = 298999, location = ''Online''\<rparr>]"

section \<open>Lemmas\<close>

lemma fold_extract_step_in:
  "fold (extract_step s q thr) cs b = Some c \<Longrightarrow> b = Some c \<or> (c \<in> set cs \<and> thr \<le> s q c)"
  by (induction cs arbitrary: b) (fastforce simp: extract_step_def split: if_splits)+

lemma extract_one_in: "extract_one s q cs thr = Some c \<Longrightarrow> c \<in> set cs \<and> thr \<le> s q c"
  using fold_extract_step_in [of s q thr cs None c] by (simp add: extract_one_def)

lemma fuzzy_best_in: "fuzzy_best sc q cs thr = Some c \<Longrightarrow> c \<in> set cs"
  by (auto simp: fuzzy_best_def dest: extract_one_in split: if_splits)

lemma lev_pass_in: "lev_pass sc th toks cs = Some c \<Longrightarrow> c \<in> set cs"
  by (induction sc th toks cs rule: lev_pass.induct) (auto dest: extract_one_in split: option.splits if_splits)

lemma if_truthy_Some: "if_truthy x = Some v \<longleftrightarrow> x = Some v \<and> v \<noteq> []"
  by (auto simp: if_truthy_def split: option.splits)

lemma guess_brand_in: "guess_brand sc raw brands = Some b \<Longrightarrow> b \<in> set brands"
  by (auto simp: guess_brand_def Let_def dest!: extract_one_in lev_pass_in find_Some_iff [THEN iffD1]
      split: option.splits)

lemma guess_model_in: "guess_model sc raw ms = Some m \<Longrightarrow> m \<in> set ms"
  by (auto simp: guess_model_def Let_def dest!: extract_one_in lev_pass_in find_Some_iff [THEN iffD1]
      split: option.splits)

lemma version_from_tokens_in: "version_from_tokens sc toks cs = Some v \<Longrightarrow> v \<in> set cs \<and> v \<noteq> []"
  by (induction sc toks cs rule: version_from_tokens.induct)
     (auto simp: if_truthy_Some dest: fuzzy_best_in split: option.splits)

lemma resolve_version_in: "resolve_version sc vq raw cs = Some v \<Longrightarrow> v \<in> set cs \<and> v \<noteq> []"
  by (auto simp: resolve_version_def if_truthy_Some dest: fuzzy_best_in version_from_tokens_in split: if_splits)

lemma resolve_brand_in: "resolve_brand sc bq raw bs = Some b \<Longrightarrow> b \<in> set bs \<and> b \<noteq> []"
  by (auto simp: resolve_brand_def if_truthy_Some dest: fuzzy_best_in guess_brand_in split: if_splits)

lemma resolve_model_in: "resolve_model sc mq raw ms = Some m \<Longrightarrow> m \<in> set ms \<and> m \<noteq> []"
  by (auto simp: resolve_model_def if_truthy_Some dest: fuzzy_best_in guess_model_in split: if_splits)

lemma numeric_filter_eq: "numeric_filter f cs = filter (numeric_ok f) cs"
  by (auto simp: numeric_filter_def numeric_ok_def Let_def filter_filter conj_ac
      split: option.splits intro!: filter_cong)

lemma lock_filter_sub: "set (lock_filter col lk cs) \<subseteq> set cs"
  by (auto simp: lock_filter_def split: option.splits)

lemma lock_filter_Some: "c \<in> set (lock_filter col (Some v) cs) \<Longrightarrow> col c = v"
  by (simp add: lock_filter_def)

lemma set_rank [simp]: "set (rank y cs) = set cs"
  by (simp add: rank_def split: option.splits)

lemma mset_rank [simp]: "mset (rank y cs) = mset cs"
  by (simp add: rank_def split: option.splits)

lemma lock_filter_eq: "lock_filter col lk cs = filter (\<lambda>c. lock_ok lk col c) cs"
  by (simp add: lock_filter_def lock_ok_def split: option.splits)

lemma rank_Nil [simp]: "rank y [] = []"
  by (simp add: rank_def split: option.splits)

lemma if_Nil_filter: "(if xs = [] then xs else filter Q xs) = filter Q xs"
  by simp

lemma if_Nil_rank: "(if xs = [] then [] else rank y xs) = rank y xs"
  by simp

lemma filtered_df_eq_spec: "filtered_df sc cat f = search_spec sc cat f"
proof (cases "cat = []")
  case True
  then show ?thesis by (simp add: filtered_df_def search_spec_def)
next
  case False
  then have "filtered_df sc cat f =
      rank (f_year_min f) (filter (numeric_ok f) (filter (\<lambda>c. lock_ok (brand_lock_of sc cat f) brand_n c)
        (filter (\<lambda>c. lock_ok (model_lock_of sc cat f) model_n c)
          (filter (\<lambda>c. lock_ok (brand_lock_of sc cat f) brand_n c)
            (filter (\<lambda>c. lock_ok (version_lock_of sc cat f) version_n c) cat)))))"
    by (simp only: filtered_df_def Let_def lock_filter_eq numeric_filter_eq if_Nil_filter if_Nil_rank if_False)
  then show ?thesis
    by (simp add: search_spec_def filter_filter conj_ac)
qed

lemma search_spec_mem:
  "c \<in> set (search_spec sc cat f) \<longleftrightarrow>
     c \<in> set cat \<and> lock_ok (version_lock_of sc cat f) version_n c \<and>
     lock_ok (brand_lock_of sc cat f) brand_n c \<and> lock_ok (model_lock_of sc cat f) model_n c \<and>
     numeric_ok f c"
  by (auto simp: search_spec_def)

lemma sorted_rank:
  "sorted (map (case f_year_min f of Some y \<Rightarrow> rank_key_year y | None \<Rightarrow> rank_key_km) (rank (f_year_min f) cs))"
  by (simp add: rank_def split: option.splits)

lemma model_candidates_scoped:
  "brand_lock_of sc cat f = Some b \<Longrightarrow> m \<in> set (model_candidates sc cat f) \<Longrightarrow>
   \<exists>c \<in> set cat. brand_n c = b \<and> model_n c = m"
  by (auto simp: model_candidates_def lock_filter_def split: option.splits)

lemma search_cars_append:
  "search_cars sc cat f l1 off @ search_cars sc cat f l2 (off + l1) = search_cars sc cat f (l1 + l2) off"
  by (simp add: search_cars_def take_add add.commute)

lemma length_search_cars_eq:
  "length (search_cars sc cat f l off) = min l (search_cars_count sc cat f - off)"
  by (simp add: search_cars_def search_cars_count_def)

lemma guess_tokens_alias_keys:
  "\<forall>(k, v) \<in> set BRAND_ALIAS. k \<noteq> ''vw'' \<longrightarrow> guess_tokens (norm_txt k) = [k] \<and> map_of BRAND_ALIAS k = Some v"
  by code_simp

section \<open>Properties\<close>

text \<open>C1: \<open>_filtered_df_for_search\<close> returns exactly the catalog rows that satisfy the
  version, brand and model locks it resolves and every numeric filter (price bounds
  inclusive, minimum year, maximum km), in catalog order, then ranked.\<close>

theorem filtered_df_refines_spec: "filtered_df sc cat f = search_spec sc cat f"
  by (rule filtered_df_eq_spec)

text \<open>C4: Every car \<open>search_cars\<close> returns, on any page, is a catalog row that satisfies
  the numeric filters and the version, brand and model locks.\<close>

theorem search_cars_sound:
  assumes "c \<in> set (search_cars sc cat f limit offset)"
  shows "c \<in> set cat \<and> numeric_ok f c \<and> lock_ok (version_lock_of sc cat f) version_n c \<and>
         lock_ok (brand_lock_of sc cat f) brand_n c \<and> lock_ok (model_lock_of sc cat f) model_n c"
proof -
  from assms have "c \<in> set (search_spec sc cat f)"
    by (auto simp: search_cars_def filtered_df_eq_spec dest: in_set_takeD in_set_dropD)
  then show ?thesis by (simp add: search_spec_mem)
qed

theorem search_cars_sound_witness:
  "search_cars exact_scorers demo_catalog (no_filters\<lparr>f_price_max := Some 270000\<rparr>) 5 0 =
     [demo_catalog ! 1, demo_catalog ! 0] \<and>
   numeric_ok (no_filters\<lparr>f_price_max := Some 270000\<rparr>) (demo_catalog ! 1)"
proof -
  have eq: "search_cars exact_scorers demo_catalog (no_filters\<lparr>f_price_max := Some 270000\<rparr>) 5 0 =
     [demo_catalog ! 1, demo_catalog ! 0]"
    by code_simp
  have "demo_catalog ! 1 \<in> set (search_cars exact_scorers demo_catalog (no_filters\<lparr>f_price_max := Some 270000\<rparr>) 5 0)"
    unfolding eq by simp
  from search_cars_sound [OF this] eq show ?thesis by simp
qed

text \<open>C25: A lock is never invented: a resolved version, brand or model is a non-empty value
  of the catalog's normalized column, whatever the scorers return.\<close>

theorem locks_in_vocabulary:
  "(version_lock_of sc cat f = Some v \<longrightarrow> v \<in> version_n ` set cat \<and> v \<noteq> []) \<and>
   (brand_lock_of sc cat f = Some b \<longrightarrow> b \<in> brand_n ` set cat \<and> b \<noteq> []) \<and>
   (model_lock_of sc cat f = Some m \<longrightarrow> m \<in> model_n ` set cat \<and> m \<noteq> [])"
proof -
  have "set (model_candidates sc cat f) \<subseteq> model_n ` set cat"
    by (auto simp: model_candidates_def lock_filter_def split: option.splits)
  then show ?thesis
    by (auto simp: version_lock_of_def brand_lock_of_def model_lock_of_def
        dest!: resolve_version_in resolve_brand_in resolve_model_in)
qed

theorem locks_in_vocabulary_witness:
  "brand_lock_of exact_scorers demo_catalog (no_filters\<lparr>f_raw_text := Some ''busco nisan versa''\<rparr>) = Some ''nissan'' \<and>
   ''nissan'' \<in> brand_n ` set demo_catalog"
proof -
  have eq: "brand_lock_of exact_scorers demo_catalog (no_filters\<lparr>f_raw_text := Some ''busco nisan versa''\<rparr>) = Some ''nissan''"
    by code_simp
  from locks_in_vocabulary [of exact_scorers demo_catalog "no_filters\<lparr>f_raw_text := Some ''busco nisan versa''\<rparr>"] eq
  show ?thesis by simp
qed

text \<open>C13: Hierarchical scoping: under a brand lock, the model lock is a model that some
  catalog car of that brand has; a model of another brand is never chosen.\<close>

theorem model_lock_scoped:
  assumes "brand_lock_of sc cat f = Some b" and "model_lock_of sc cat f = Some m"
  shows "\<exists>c \<in> set cat. brand_n c = b \<and> model_n c = m"
proof -
  from assms(2) have "m \<in> set (model_candidates sc cat f)"
    by (auto simp: model_lock_of_def dest: resolve_model_in)
  with assms(1) show ?thesis by (rule model_candidates_scoped)
qed

theorem model_lock_scoped_witness:
  "brand_lock_of exact_scorers demo_catalog (no_filters\<lparr>f_raw_text := Some ''busco nisan versa''\<rparr>) = Some ''nissan'' \<and>
   model_lock_of exact_scorers demo_catalog (no_filters\<lparr>f_raw_text := Some ''busco nisan versa''\<rparr>) = Some ''versa'' \<and>
   (\<exists>c \<in> set demo_catalog. brand_n c = ''nissan'' \<and> model_n c = ''versa'')"
proof -
  have b: "brand_lock_of exact_scorers demo_catalog (no_filters\<lparr>f_raw_text := Some ''busco nisan versa''\<rparr>) = Some ''nissan''"
    by code_simp
  have m: "model_lock_of exact_scorers demo_catalog (no_filters\<lparr>f_raw_text := Some ''busco nisan versa''\<rparr>) = Some ''versa''"
    by code_simp
  from b m model_lock_scoped [OF b m] show ?thesis by simp
qed

text \<open>Pagination is consistent: the page at offset \<open>o\<close> of size \<open>l1\<close> followed by the
  page at offset \<open>o + l1\<close> of size \<open>l2\<close> is the page at \<open>o\<close> of size \<open>l1 + l2\<close>.\<close>

theorem search_cars_window:
  "search_cars sc cat f l1 off @ search_cars sc cat f l2 (off + l1) = search_cars sc cat f (l1 + l2) off"
  by (rule search_cars_append)

text \<open>A page holds \<open>min limit (count - offset)\<close> cars: an offset past the total
  gives an empty page, and the limit is clamped to what remains.\<close>

theorem length_search_cars:
  "length (search_cars sc cat f limit offset) = min limit (search_cars_count sc cat f - offset)"
  by (rule length_search_cars_eq)

text \<open>C26: Alias before scoring: for every entry \<open>k \<mapsto> v\<close> of \<open>BRAND_ALIAS\<close> but
  \<open>vw\<close> (shorter than the three characters a token needs), the input \<open>k\<close> resolves
  to \<open>v\<close> whenever \<open>v\<close> is a catalog brand, whatever the scorers.\<close>

theorem guess_brand_alias_precedence:
  "\<forall>(k, v) \<in> set BRAND_ALIAS. k \<noteq> ''vw'' \<longrightarrow> v \<in> set brands \<longrightarrow> guess_brand sc k brands = Some v"
proof (intro ballI impI, clarify)
  fix k v
  assume kv: "(k, v) \<in> set BRAND_ALIAS" and "k \<noteq> ''vw''" and vb: "v \<in> set brands"
  with guess_tokens_alias_keys have "guess_tokens (norm_txt k) = [k]" and "map_of BRAND_ALIAS k = Some v"
    by auto
  with vb show "guess_brand sc k brands = Some v"
    by (simp add: guess_brand_def alias_get_def)
qed

theorem guess_brand_alias_precedence_witness:
  "guess_brand exact_scorers ''nisan'' [''toyota'', ''nissan''] = Some ''nissan''"
proof -
  have "(''nisan'', ''nissan'') \<in> set BRAND_ALIAS" by (simp add: BRAND_ALIAS_def)
  then show ?thesis
    using guess_brand_alias_precedence [of "[''toyota'', ''nissan'']" exact_scorers] by fastforce
qed

end
