(* ===== verification/Regex.thy ===== *)
theory Regex
  imports Text "HOL-Library.While_Combinator"
begin

text \<open>
  Python's \<open>re\<close> module, as far as the patterns of \<open>src/app/nlp/intent.py\<close> and
  \<open>src/app/nlp/normalize.py\<close> use it. A pattern is a value of \<open>rx\<close>; \<open>mt r w i g\<close>
  lists every way \<open>r\<close> can match the text \<open>w\<close> from position \<open>i\<close> (with the group
  spans \<open>g\<close> so far), in the order in which the backtracking engine \<open>sre\<close> tries
  them: alternatives left to right, repetitions greedy. The first element is the match
  Python reports. \<open>re.match\<close>, \<open>re.search\<close>, \<open>re.fullmatch\<close> and
  \<open>re.findall\<close> are built on it; \<open>re.sub\<close> is a \<open>while_option\<close> loop each round of
  which moves the scan position forward, and \<open>re.split\<close> on a character class a \<open>function\<close> with a measure.
  Repetitions whose body matches the empty string stop, as \<open>sre\<close> does; the
  patterns of the sources have no such body.
\<close>

section \<open>Definitions\<close>

text \<open>The spans of the groups matched so far, the latest first (a group matched again
  inside a repetition reports its last span, as in Python).\<close>

type_synonym caps = "(nat \<times> nat \<times> nat) list"

datatype rx =
    Cls "char \<Rightarrow> bool"
  | Eps
  | Seq rx rx
  | Alt rx rx
  | Star rx
  | Grp nat rx
  | Bol
  | Eol
  | WordB

text \<open>\<open>\b\<close>: one side of position \<open>i\<close> is a word character and the other is not.\<close>

definition at_boundary :: "string \<Rightarrow> nat \<Rightarrow> bool" where
  "at_boundary w i \<longleftrightarrow>
     (0 < i \<and> i \<le> length w \<and> is_word_char (w ! (i - 1))) \<noteq> (i < length w \<and> is_word_char (w ! i))"

function mt :: "rx \<Rightarrow> string \<Rightarrow> nat \<Rightarrow> caps \<Rightarrow> (nat \<times> caps) list" where
  "mt (Cls p) w i g = (if i < length w \<and> p (w ! i) then [(Suc i, g)] else [])"
| "mt Eps w i g = [(i, g)]"
| "mt (Seq r1 r2) w i g =
     concat (map (\<lambda>(j, g'). if i \<le> j then mt r2 w j g' else []) (mt r1 w i g))"
| "mt (Alt r1 r2) w i g = mt r1 w i g @ mt r2 w i g"
| "mt (Star r) w i g =
     concat (map (\<lambda>(j, g'). if i < j \<and> j \<le> length w then mt (Star r) w j g' else []) (mt r w i g))
     @ [(i, g)]"
| "mt (Grp n r) w i g = map (\<lambda>(j, g'). (j, (n, i, j) # g')) (mt r w i g)"
| "mt Bol w i g = (if i = 0 then [(i, g)] else [])"
| "mt Eol w i g =
     (if i = length w \<or> (Suc i = length w \<and> w ! i = CHR 0x0A) then [(i, g)] else [])"
| "mt WordB w i g = (if at_boundary w i then [(i, g)] else [])"
  by pat_completeness auto
termination
  by (relation "measures [\<lambda>(r, w, i, g). length w - i, \<lambda>(r, w, i, g). size r]") auto

subsection \<open>The module's functions\<close>

text \<open>\<open>pattern.match(w)\<close>: the first match anchored at the start.\<close>

definition re_match :: "rx \<Rightarrow> string \<Rightarrow> (nat \<times> caps) option" where
  "re_match r w = (case mt r w 0 [] of [] \<Rightarrow> None | m # _ \<Rightarrow> Some m)"

text \<open>\<open>pattern.search(w, pos)\<close>: the first match at the leftmost position from
  \<open>pos\<close> on, as (start, end, groups).\<close>

definition re_search_from :: "rx \<Rightarrow> string \<Rightarrow> nat \<Rightarrow> (nat \<times> nat \<times> caps) option" where
  "re_search_from r w pos =
     (case find (\<lambda>i. mt r w i [] \<noteq> []) [pos..<Suc (length w)] of
        None \<Rightarrow> None
      | Some i \<Rightarrow> (case mt r w i [] of [] \<Rightarrow> None | (j, g) # _ \<Rightarrow> Some (i, j, g)))"

definition re_search :: "rx \<Rightarrow> string \<Rightarrow> (nat \<times> nat \<times> caps) option" where
  "re_search r w = re_search_from r w 0"

text \<open>\<open>m.group(n)\<close> (\<open>None\<close> for a group that did not take part).\<close>

definition group :: "string \<Rightarrow> caps \<Rightarrow> nat \<Rightarrow> string option" where
  "group w g n = map_option (\<lambda>(a, b). take (b - a) (drop a w)) (map_of g n)"

text \<open>
  \<open>pattern.findall(w)\<close> for a pattern with one group: the group of every
  non-overlapping match, left to right (\<open>''\<close> for a group that did not take part);
  after an empty match the scan moves on by one character.
\<close>

function findall1 :: "rx \<Rightarrow> string \<Rightarrow> nat \<Rightarrow> string list" where
  "findall1 r w pos =
     (if length w < pos then []
      else case re_search_from r w pos of
        None \<Rightarrow> []
      | Some (i, j, g) \<Rightarrow>
          (case group w g 1 of None \<Rightarrow> [] | Some s \<Rightarrow> s) #
          (if pos \<le> i \<and> i \<le> j then findall1 r w (if j = i then Suc j else j) else []))"
  by pat_completeness auto
termination
  by (relation "measure (\<lambda>(r, w, pos). Suc (length w) - pos)") auto

subsection \<open>Pattern building blocks\<close>

definition fail_rx :: rx where
  "fail_rx = Cls (\<lambda>_. False)"

text \<open>A literal character, and the same under \<open>re.IGNORECASE\<close>.\<close>

definition chr_rx :: "char \<Rightarrow> rx" where
  "chr_rx c = Cls (\<lambda>x. x = c)"

definition chr_i :: "char \<Rightarrow> rx" where
  "chr_i c = Cls (\<lambda>x. py_lower_char x = py_lower_char c)"

definition lit :: "string \<Rightarrow> rx" where
  "lit s = foldr (\<lambda>c r. Seq (chr_rx c) r) s Eps"

definition lit_i :: "string \<Rightarrow> rx" where
  "lit_i s = foldr (\<lambda>c r. Seq (chr_i c) r) s Eps"

text \<open>A character set \<open>[...]\<close>, and the same under \<open>re.IGNORECASE\<close>.\<close>

definition one_of :: "string \<Rightarrow> rx" where
  "one_of cs = Cls (\<lambda>x. x \<in> set cs)"

definition one_of_i :: "string \<Rightarrow> rx" where
  "one_of_i cs = Cls (\<lambda>x. py_lower_char x \<in> py_lower_char ` set cs)"

definition alts :: "rx list \<Rightarrow> rx" where
  "alts rs = foldr Alt rs fail_rx"

definition seqs :: "rx list \<Rightarrow> rx" where
  "seqs rs = foldr Seq rs Eps"

definition opt :: "rx \<Rightarrow> rx" where
  "opt r = Alt r Eps"

definition plus :: "rx \<Rightarrow> rx" where
  "plus r = Seq r (Star r)"

text \<open>\<open>r{m,n}\<close>, greedy: \<open>m\<close> copies, then up to \<open>n - m\<close> more, most first.\<close>

fun upto_rx :: "nat \<Rightarrow> rx \<Rightarrow> rx" where
  "upto_rx 0 r = Eps"
| "upto_rx (Suc k) r = Alt (Seq r (upto_rx k r)) Eps"

definition rep :: "nat \<Rightarrow> nat \<Rightarrow> rx \<Rightarrow> rx" where
  "rep m n r = seqs (replicate m r @ [upto_rx (n - m) r])"

definition sp :: rx where
  "sp = Cls py_isspace"

definition dg :: rx where
  "dg = Cls is_digit"

subsection \<open>Substitution and splitting\<close>

text \<open>\<open>pattern.fullmatch(w)\<close>: the first way the pattern matches that ends at the end.\<close>

definition re_fullmatch :: "rx \<Rightarrow> string \<Rightarrow> (nat \<times> caps) option" where
  "re_fullmatch r w = find (\<lambda>(j, g). j = length w) (mt r w 0 [])"

text \<open>
  \<open>pattern.sub(repl, w)\<close>: a loop over the matches, left to right and not
  overlapping; the state is the scan position and the output so far. Each match is
  replaced by \<open>repl\<close> of its groups; an empty match is replaced too and the character
  after it is copied, so that the scan always moves on (as in Python 3.7 and later).
  The loop is a \<open>while_option\<close>; every round that continues moves the scan position
  forward within the text (\<open>re_sub_step_decreases\<close>), so the loop stops and the
  fallback \<open>None\<close> branch of \<open>re_sub\<close> is not reached.
\<close>

definition re_sub_cont :: "rx \<Rightarrow> string \<Rightarrow> nat \<times> string \<Rightarrow> bool" where
  "re_sub_cont r w = (\<lambda>(pos, out). pos \<le> length w \<and> re_search_from r w pos \<noteq> None)"

definition re_sub_step :: "rx \<Rightarrow> (caps \<Rightarrow> string) \<Rightarrow> string \<Rightarrow> nat \<times> string \<Rightarrow> nat \<times> string" where
  "re_sub_step r repl w =
     (\<lambda>(pos, out). case re_search_from r w pos of
        None \<Rightarrow> (pos, out)
      | Some (i, j, g) \<Rightarrow>
          if j = i then (Suc i, out @ take (i - pos) (drop pos w) @ repl g @ take 1 (drop i w))
          else (j, out @ take (i - pos) (drop pos w) @ repl g))"

definition re_sub :: "rx \<Rightarrow> (caps \<Rightarrow> string) \<Rightarrow> string \<Rightarrow> string" where
  "re_sub r repl w =
     (case while_option (re_sub_cont r w) (re_sub_step r repl w) (0, []) of
        Some (pos, out) \<Rightarrow> out @ drop pos w
      | None \<Rightarrow> w)"

text \<open>\<open>re.split("[...]+", w)\<close> for a character class: the text between maximal runs of
  separator characters, with an empty string before a leading and after a trailing run.\<close>

function split_runs :: "(char \<Rightarrow> bool) \<Rightarrow> string \<Rightarrow> string \<Rightarrow> string list" where
  "split_runs p cur [] = [rev cur]"
| "split_runs p cur (c # cs) =
     (if p c then rev cur # split_runs p [] (dropWhile p cs) else split_runs p (c # cur) cs)"
  by pat_completeness auto
termination
  by (relation "measure (\<lambda>(p, cur, s). length s)") (auto simp: le_imp_less_Suc length_dropWhile_le)

definition re_split_class :: "(char \<Rightarrow> bool) \<Rightarrow> string \<Rightarrow> string list" where
  "re_split_class p w = split_runs p [] w"

subsection \<open>Abstractions used in the proofs\<close>

text \<open>The characters a pattern can consume, and those group \<open>n\<close> of it can capture;
  \<open>caps_ok\<close> says that recorded spans only hold such characters.\<close>

fun rx_chars :: "rx \<Rightarrow> char \<Rightarrow> bool" where
  "rx_chars (Cls p) c = p c"
| "rx_chars (Seq r1 r2) c = (rx_chars r1 c \<or> rx_chars r2 c)"
| "rx_chars (Alt r1 r2) c = (rx_chars r1 c \<or> rx_chars r2 c)"
| "rx_chars (Star r) c = rx_chars r c"
| "rx_chars (Grp n r) c = rx_chars r c"
| "rx_chars _ c = False"

fun grp_chars :: "rx \<Rightarrow> nat \<Rightarrow> char \<Rightarrow> bool" where
  "grp_chars (Seq r1 r2) n c = (grp_chars r1 n c \<or> grp_chars r2 n c)"
| "grp_chars (Alt r1 r2) n c = (grp_chars r1 n c \<or> grp_chars r2 n c)"
| "grp_chars (Star r) n c = grp_chars r n c"
| "grp_chars (Grp m r) n c = ((m = n \<and> rx_chars r c) \<or> grp_chars r n c)"
| "grp_chars _ n c = False"

definition caps_ok :: "string \<Rightarrow> (nat \<Rightarrow> char \<Rightarrow> bool) \<Rightarrow> caps \<Rightarrow> bool" where
  "caps_ok w P ext \<longleftrightarrow>
     (\<forall>n a b k. (n, a, b) \<in> set ext \<longrightarrow> a \<le> k \<longrightarrow> k < b \<longrightarrow> k < length w \<and> P n (w ! k))"

section \<open>Lemmas\<close>

lemma caps_ok_mono: "caps_ok w P ext \<Longrightarrow> (\<And>n c. P n c \<Longrightarrow> Q n c) \<Longrightarrow> caps_ok w Q ext"
  unfolding caps_ok_def by blast

lemma caps_ok_append [simp]: "caps_ok w P (xs @ ys) \<longleftrightarrow> caps_ok w P xs \<and> caps_ok w P ys"
  unfolding caps_ok_def by auto

lemma mt_Star_mem:
  "(j, g') \<in> set (mt (Star r) w i g) \<longleftrightarrow>
     (j, g') = (i, g) \<or>
     (\<exists>j1 g1. (j1, g1) \<in> set (mt r w i g) \<and> i < j1 \<and> j1 \<le> length w \<and> (j, g') \<in> set (mt (Star r) w j1 g1))"
  by (subst mt.simps(5)) (auto simp del: mt.simps(5))

lemma mt_Seq_mem:
  "(j, g') \<in> set (mt (Seq r1 r2) w i g) \<longleftrightarrow>
     (\<exists>j1 g1. (j1, g1) \<in> set (mt r1 w i g) \<and> i \<le> j1 \<and> (j, g') \<in> set (mt r2 w j1 g1))"
  by (auto split: if_splits)

lemma mt_le: "(j, g') \<in> set (mt r w i g) \<Longrightarrow> i \<le> j"
proof (induction r w i g arbitrary: j g' rule: mt.induct)
  case (3 r1 r2 w i g)
  then obtain j1 g1 where m1: "(j1, g1) \<in> set (mt r1 w i g)" and le: "i \<le> j1"
    and m2: "(j, g') \<in> set (mt r2 w j1 g1)" unfolding mt_Seq_mem by blast
  have "j1 \<le> j" using "3.IH"(2) [OF m1 refl] le m2 by blast
  with le show ?case by simp
next
  case (5 r w i g)
  show ?case
  proof (cases "(j, g') = (i, g)")
    case False
    with "5.prems" obtain j1 g1 where m1: "(j1, g1) \<in> set (mt r w i g)" and lt: "i < j1" "j1 \<le> length w"
      and m2: "(j, g') \<in> set (mt (Star r) w j1 g1)" using mt_Star_mem [THEN iffD1] by blast
    have "j1 \<le> j" using "5.IH"(2) [OF m1 refl] lt m2 by blast
    with lt show ?thesis by simp
  qed simp
qed (auto split: if_splits)

lemma mt_chars:
  "(j, g') \<in> set (mt r w i g) \<Longrightarrow> i \<le> k \<Longrightarrow> k < j \<Longrightarrow> k < length w \<and> rx_chars r (w ! k)"
proof (induction r w i g arbitrary: j g' k rule: mt.induct)
  case (1 p w i g)
  then show ?case by (cases "k = i") (auto split: if_splits)
next
  case (3 r1 r2 w i g)
  then obtain j1 g1 where m1: "(j1, g1) \<in> set (mt r1 w i g)" and le: "i \<le> j1"
    and m2: "(j, g') \<in> set (mt r2 w j1 g1)" unfolding mt_Seq_mem by blast
  show ?case
  proof (cases "k < j1")
    case True
    then show ?thesis using "3.IH"(1) [OF m1 "3.prems"(2)] by simp
  next
    case False
    then show ?thesis using "3.IH"(2) [OF m1 refl le m2 _ "3.prems"(3)] by simp
  qed
next
  case (5 r w i g)
  show ?case
  proof (cases "(j, g') = (i, g)")
    case True
    then show ?thesis using "5.prems"(2,3) by simp
  next
    case False
    with "5.prems"(1) obtain j1 g1 where m1: "(j1, g1) \<in> set (mt r w i g)" and lt: "i < j1" "j1 \<le> length w"
      and m2: "(j, g') \<in> set (mt (Star r) w j1 g1)" using mt_Star_mem [THEN iffD1] by blast
    show ?thesis
    proof (cases "k < j1")
      case True
      then show ?thesis using "5.IH"(1) [OF m1 "5.prems"(2)] by simp
    next
      case False
      then show ?thesis using "5.IH"(2) [OF m1 refl _ m2 _ "5.prems"(3)] lt by simp
    qed
  qed
qed (auto split: if_splits)

lemma mt_caps:
  "(j, g') \<in> set (mt r w i g) \<Longrightarrow> \<exists>ext. g' = ext @ g \<and> caps_ok w (grp_chars r) ext"
proof (induction r w i g arbitrary: j g' rule: mt.induct)
  case (3 r1 r2 w i g)
  then obtain j1 g1 where m1: "(j1, g1) \<in> set (mt r1 w i g)" and le: "i \<le> j1"
    and m2: "(j, g') \<in> set (mt r2 w j1 g1)" unfolding mt_Seq_mem by blast
  obtain e1 where e1: "g1 = e1 @ g" "caps_ok w (grp_chars r1) e1" using "3.IH"(1) [OF m1] by blast
  obtain e2 where e2: "g' = e2 @ g1" "caps_ok w (grp_chars r2) e2" using "3.IH"(2) [OF m1 refl le m2] by blast
  have "caps_ok w (grp_chars (Seq r1 r2)) e1" by (rule caps_ok_mono [OF e1(2)]) simp
  moreover have "caps_ok w (grp_chars (Seq r1 r2)) e2" by (rule caps_ok_mono [OF e2(2)]) simp
  ultimately show ?case using e1(1) e2(1) by (intro exI [of _ "e2 @ e1"]) (simp del: grp_chars.simps)
next
  case (5 r w i g)
  show ?case
  proof (cases "(j, g') = (i, g)")
    case True
    then show ?thesis by (auto simp: caps_ok_def)
  next
    case False
    with "5.prems" obtain j1 g1 where m1: "(j1, g1) \<in> set (mt r w i g)" and lt: "i < j1" "j1 \<le> length w"
      and m2: "(j, g') \<in> set (mt (Star r) w j1 g1)" using mt_Star_mem [THEN iffD1] by blast
    obtain e1 where e1: "g1 = e1 @ g" "caps_ok w (grp_chars r) e1" using "5.IH"(1) [OF m1] by blast
    obtain e2 where e2: "g' = e2 @ g1" "caps_ok w (grp_chars (Star r)) e2"
      using "5.IH"(2) [OF m1 refl _ m2] lt by blast
    have sg: "grp_chars (Star r) = grp_chars r" by (intro ext) simp
    show ?thesis using e1 e2 sg by (intro exI [of _ "e2 @ e1"]) simp
  qed
next
  case (6 n r w i g)
  then obtain g1 where m: "(j, g1) \<in> set (mt r w i g)" and g': "g' = (n, i, j) # g1" by auto
  obtain e where e: "g1 = e @ g" "caps_ok w (grp_chars r) e" using "6.IH" [OF m] by blast
  have "caps_ok w (grp_chars (Grp n r)) [(n, i, j)]"
    using mt_chars [OF m] by (auto simp: caps_ok_def)
  moreover have "caps_ok w (grp_chars (Grp n r)) e" using e(2) by (auto intro: caps_ok_mono)
  ultimately show ?case using e g' by (intro exI [of _ "(n, i, j) # e"]) (simp add: caps_ok_def)
next
  case (4 r1 r2 w i g)
  from "4.prems" have "(j, g') \<in> set (mt r1 w i g) \<or> (j, g') \<in> set (mt r2 w i g)" by simp
  then show ?case
  proof
    assume m: "(j, g') \<in> set (mt r1 w i g)"
    obtain e where e: "g' = e @ g" "caps_ok w (grp_chars r1) e" using "4.IH"(1) [OF m] by blast
    have "caps_ok w (grp_chars (Alt r1 r2)) e" by (rule caps_ok_mono [OF e(2)]) simp
    with e(1) show ?thesis by blast
  next
    assume m: "(j, g') \<in> set (mt r2 w i g)"
    obtain e where e: "g' = e @ g" "caps_ok w (grp_chars r2) e" using "4.IH"(2) [OF m] by blast
    have "caps_ok w (grp_chars (Alt r1 r2)) e" by (rule caps_ok_mono [OF e(2)]) simp
    with e(1) show ?thesis by blast
  qed
qed (auto simp: caps_ok_def split: if_splits)

lemma find_Some_mem: "find P xs = Some x \<Longrightarrow> x \<in> set xs \<and> P x"
  by (induction xs) (auto split: if_splits)

lemma re_search_from_Some:
  "re_search_from r w pos = Some (i, j, g) \<Longrightarrow> pos \<le> i \<and> i \<le> length w \<and> (j, g) \<in> set (mt r w i [])"
  by (auto simp: re_search_from_def split: option.splits list.splits dest!: find_Some_mem)

lemma re_search_from_le: "re_search_from r w pos = Some (i, j, g) \<Longrightarrow> pos \<le> i \<and> i \<le> j"
  using re_search_from_Some mt_le by blast

lemma re_sub_step_decreases:
  assumes "re_sub_cont r w s"
  shows "(re_sub_step r repl w s, s) \<in> measure (\<lambda>(pos, out). Suc (length w) - pos)"
proof (cases s)
  case (Pair pos out)
  with assms obtain i j g where m: "re_search_from r w pos = Some (i, j, g)" and le: "pos \<le> length w"
    by (auto simp: re_sub_cont_def)
  then have "pos \<le> i" "i \<le> j" using re_search_from_le by blast+
  with m le Pair show ?thesis by (auto simp: re_sub_step_def)
qed

lemma group_chars_in:
  "re_search_from r w pos = Some (i, j, g) \<Longrightarrow> group w g n = Some s \<Longrightarrow> c \<in> set s \<Longrightarrow> grp_chars r n c"
proof -
  assume m: "re_search_from r w pos = Some (i, j, g)" and gr: "group w g n = Some s" and c: "c \<in> set s"
  obtain ext where "g = ext @ []" and ok: "caps_ok w (grp_chars r) ext"
    using mt_caps re_search_from_Some [OF m] by blast
  then have ok': "caps_ok w (grp_chars r) g" by simp
  from gr obtain a b where ab: "map_of g n = Some (a, b)" and s: "s = take (b - a) (drop a w)"
    by (auto simp: group_def)
  from c s obtain t where t: "t < length s" "s ! t = c" by (auto simp: in_set_conv_nth)
  with s have "c = w ! (a + t)" "a \<le> a + t" "a + t < b" by auto
  moreover have "(n, a, b) \<in> set g" using ab by (rule map_of_SomeD)
  ultimately show ?thesis using ok' unfolding caps_ok_def by blast
qed

lemma set_group: "group w g n = Some s \<Longrightarrow> set s \<subseteq> set w"
  by (auto simp: group_def dest: in_set_takeD in_set_dropD)

lemma set_re_sub: "(\<And>g. set (repl g) \<subseteq> set w) \<Longrightarrow> set (re_sub r repl w) \<subseteq> set w"
proof -
  assume rp: "\<And>g. set (repl g) \<subseteq> set w"
  let ?P = "\<lambda>(pos :: nat, out). set out \<subseteq> set w"
  have step: "?P (re_sub_step r repl w s)" if "?P s" for s
    using that rp by (cases s) (auto simp: re_sub_step_def split: option.splits dest: in_set_takeD in_set_dropD)
  show ?thesis
  proof (cases "while_option (re_sub_cont r w) (re_sub_step r repl w) (0, [])")
    case (Some s)
    have "?P s" by (rule while_option_rule [OF _ Some]) (use step in auto)
    with Some show ?thesis by (cases s) (auto simp: re_sub_def dest: in_set_dropD)
  qed (simp add: re_sub_def)
qed

section \<open>Properties\<close>

end
