(* ===== verification/Intent.thy ===== *)
theory Intent
  imports Regex Catalog Finance
begin

text \<open>
  The Intent Classifier and the text parsers of \<open>src/app/nlp/intent.py\<close>: the compiled
  patterns of the module as values of \<open>rx\<close> (\<open>Regex\<close>), the money, term, price-bound and
  removal parsers, the synonym lookup of \<open>normalize_intent\<close>, and \<open>_detect_intent\<close>
  with its helpers. Flags are written into the patterns: under \<open>re.IGNORECASE\<close> a
  letter is \<open>chr_i\<close> / \<open>lit_i\<close>. Text is Latin-1, so the one character of a pattern
  beyond it, the ellipsis U+2026 in \<open>[!.\<dots>]\<close>, matches no character of the model.
\<close>

section \<open>Definitions\<close>

subsection \<open>Character classes used by the patterns\<close>

text \<open>\<open>.\<close>: every character but the newline.\<close>

definition any_rx :: rx where
  "any_rx = Cls (\<lambda>c. c \<noteq> CHR 0x0A)"

text \<open>\<open>[\d\s\.,]\<close>: a digit, a blank, a dot or a comma.\<close>

definition numch :: rx where
  "numch = Cls (\<lambda>c. is_digit c \<or> py_isspace c \<or> c = CHR ''.'' \<or> c = CHR '','')"

text \<open>\<open>NUM = (?:\d[\d\s.,]*)\<close>\<close>

definition NUM :: rx where
  "NUM = Seq dg (Star numch)"

text \<open>\<open>[\d\s\.,]+(?:k|mil)?\<close> under \<open>re.I\<close>, the amount of the price patterns.\<close>

definition amount_rx :: rx where
  "amount_rx = Seq (plus numch) (opt (alts [chr_i (CHR ''k''), lit_i ''mil'']))"

definition dollar :: rx where
  "dollar = opt (chr_rx (CHR ''$''))"

subsection \<open>The compiled patterns\<close>

definition GREET_RE :: rx where
  "GREET_RE = seqs [Bol, Star sp,
     Grp 1 (alts [Seq (lit_i ''hol'') (plus (chr_i (CHR ''a''))), lit_i ''buenas'', lit_i ''hey'',
                  lit_i ''hi'', lit_i ''menu'', lit_i ''ayuda'', lit_i ''start'']), WordB]"

definition YES_RE_RAW :: rx where
  "YES_RE_RAW = seqs [Bol, Star sp,
     Grp 1 (alts [Seq (chr_i (CHR ''s'')) (one_of_i [CHR ''i'', CHR 0xED]), lit_i ''si'', lit_i ''claro'',
                  lit_i ''vale'', Seq (lit_i ''ok'') (opt (Grp 2 (lit_i ''ay''))), lit_i ''de acuerdo'',
                  lit_i ''correcto'', lit_i ''adelante'', lit_i ''por favor'']),
     Star sp, Star (one_of ''!.''), Star sp, Eol]"

definition NO_RE_RAW :: rx where
  "NO_RE_RAW = seqs [Bol, Star sp,
     Grp 1 (alts [lit_i ''no'', lit_i ''luego'',
                  seqs [lit_i ''despu'', one_of_i [CHR ''e'', CHR 0xE9], chr_i (CHR ''s'')], lit_i ''gracias'']),
     Star sp, Star (one_of ''!.''), Star sp, Eol]"

definition CONTACT_RE :: rx where
  "CONTACT_RE = seqs [Bol, Star sp,
     Grp 1 (alts [Seq (lit_i ''contact'') (Grp 2 (alts [lit_i ''o'', lit_i ''arme''])), lit_i ''asesor'',
                  seqs [lit_i ''ll'', one_of_i [CHR ''a'', CHR 0xE1], lit_i ''mame''], lit_i ''llamada'']),
     WordB, Grp 3 (Star any_rx), Eol]"

definition EMAIL_RE :: rx where
  "EMAIL_RE =
     (let wdd = Cls (\<lambda>c. is_word_char c \<or> c = CHR ''.'' \<or> c = CHR ''-'')
      in seqs [plus wdd, chr_rx (CHR ''@''), plus wdd, chr_rx (CHR ''.''), plus (Cls is_word_char)])"

definition PHONE_RE :: rx where
  "PHONE_RE = Seq (opt (chr_rx (CHR ''+''))) (rep 7 15 dg)"

definition SEARCH_TRIGGERS :: "string list" where
  "SEARCH_TRIGGERS =
     [''busca'', ''buscar'', ''encuentra'', ''quiero'', ''necesito'', ''mu'' @ CHR 0xE9 # ''strame'',
      ''muestrame'', ''nissan'', ''toyota'', ''chevrolet'', ''honda'', ''mazda'', ''kia'', ''volkswagen'',
      ''ford'', ''bmw'', ''sentra'', ''versa'', ''corolla'', ''civic'', ''jetta'', ''swift'', ''tracker'',
      ''2019'', ''2020'', ''2021'', ''2022'', ''2023'', ''2024'', ''2025'']"

definition COTIZA_RE :: rx where
  "COTIZA_RE = seqs [alts [Bol, sp], lit_i ''cotiza'', plus sp, Grp 1 (rep 1 9 dg), plus sp,
     opt (alts [lit_i ''con'', seqs [lit_i ''con'', plus sp, lit_i ''un'', plus sp, lit_i ''enganche'',
                                     plus sp, lit_i ''de'']]),
     Star sp,
     Grp 2 (alts [seqs [dollar, Star sp, NUM, Star sp, lit_i ''mil''],
                  seqs [dollar, Star sp, NUM, Star sp, chr_i (CHR ''k'')],
                  seqs [dollar, Star sp, NUM]])]"

definition RANGO_PRECIOS_RE :: rx where
  "RANGO_PRECIOS_RE = seqs [opt (alts [lit_i ''entre'', lit_i ''de'']), Star sp, dollar, Star sp,
     Grp 1 amount_rx, Star sp, alts [chr_i (CHR ''a''), chr_i (CHR ''y''), chr_rx (CHR ''-'')],
     Star sp, dollar, Star sp, Grp 2 amount_rx]"

definition PAGINATE_RE :: rx where
  "PAGINATE_RE =
     (let mas = seqs [chr_i (CHR ''m''), one_of_i [CHR ''a'', CHR 0xE1], chr_i (CHR ''s'')]
      in seqs [WordB, lit_i ''ver'', plus sp,
               alts [seqs [Grp 1 (plus dg), Star sp, mas], Seq mas (opt (Seq (plus sp) (Grp 2 (plus dg))))],
               WordB])"

definition QUITAR_RE :: rx where
  "QUITAR_RE = seqs [WordB, lit_i ''quita'', opt (chr_i (CHR ''r'')), plus sp,
     Grp 1 (alts [lit_i ''marca'', lit_i ''modelo'',
                  seqs [chr_i (CHR ''a''), one_of_i [CHR ''n'', CHR 0xF1], chr_i (CHR ''o'')],
                  lit_i ''year'', lit_i ''precio'', lit_i ''max'', lit_i ''min'', lit_i ''km'',
                  lit_i ''kilometraje'']), WordB]"

definition PLAZO_RE :: rx where
  "PLAZO_RE = seqs [alts [chr_i (CHR ''a''), lit_i ''en''], Star sp, Grp 1 (rep 2 3 dg), Star sp,
     alts [lit_i ''mes'', lit_i ''meses'']]"

definition MIN_RE :: rx where
  "MIN_RE = seqs [alts [lit_i (''m'' @ CHR 0xE1 # ''s de''), lit_i ''mas de'', lit_i ''mayor a'',
                        lit_i ''arriba de'', lit_i ''desde''],
     Star sp, Grp 1 (seqs [dollar, Star sp, amount_rx])]"

definition MAX_RE :: rx where
  "MAX_RE = seqs [alts [lit_i ''menos de'', lit_i ''menor a'', lit_i ''por debajo de'', lit_i ''hasta''],
     Star sp, Grp 1 (seqs [dollar, Star sp, amount_rx])]"

text \<open>The inline patterns of \<open>_looks_like_search\<close>, \<open>_detect_intent\<close> and \<open>route_message\<close>.\<close>

definition YEAR_RE :: rx where
  "YEAR_RE = Seq (Grp 1 (alts [lit ''19'', lit ''20''])) (rep 2 2 dg)"

definition HELP_RE :: rx where
  "HELP_RE = Grp 1 (alts [lit ''ayuda'', lit ''help'', lit (''qu'' @ CHR 0xE9 # '' puedes''), lit ''que puedes'',
                         lit ''como me ayudas''])"

definition FINANCE_RE :: rx where
  "FINANCE_RE = Grp 1 (alts [lit ''mensualidad'', lit ''mensualidades'', lit ''enganche'', lit ''plazo'',
                            lit ''financia'', lit ''financiamiento''])"

definition KB_RE :: rx where
  "KB_RE = Grp 1 (alts [lit ''garanti'', lit ''devoluc'', lit ''proceso'', lit ''entrega'', lit ''tiempo'',
                       lit ''politica''])"

definition NEW_SEARCH_RE :: rx where
  "NEW_SEARCH_RE = seqs [WordB, Grp 1 (alts [lit ''busco'', lit ''buscar'', lit ''quiero'', lit ''necesito'',
     lit ''recomienda'', seqs [lit ''mu'', one_of [CHR ''e'', CHR 0xE9], lit ''strame'']]), WordB]"

definition VERSION_RE :: rx where
  "VERSION_RE = seqs [WordB, Grp 1 (alts (map lit [''sense'', ''advance'', ''exclusive'', ''active'', ''trend'',
     ''highline'', ''comfortline'', ''xlt'', ''xl'', ''limited'', ''lt'', ''ls'', ''xle'', ''xse'', ''sport'',
     ''platinum'', ''sr'', ''sv'', ''sl''])), WordB]"

definition TASA_NOTE_RE :: rx where
  "TASA_NOTE_RE = seqs [Grp 1 (alts [lit_i ''tasa'', seqs [lit_i ''inter'', one_of_i [CHR ''e'', CHR 0xE9],
     chr_i (CHR ''s'')]]), Star sp, dg]"

definition FIN_PRICE_RE :: rx where
  "FIN_PRICE_RE = Grp 1 (seqs [dollar, Star sp, dg, plus (Cls (\<lambda>c. is_digit c \<or> c = CHR '','' \<or> c = CHR ''.''))])"

definition FIN_DOWN_RE :: rx where
  "FIN_DOWN_RE =
     (let cls = Cls (\<lambda>c. c = CHR ''$'' \<or> is_digit c \<or> c = CHR ''.'' \<or> c = CHR '','')
      in seqs [alts [seqs [lit_i ''enganche'', Star sp, lit_i ''de''], lit_i ''con''], Star sp,
               Grp 1 (alts [Seq (plus cls) (chr_i (CHR ''k'')), plus cls,
                            seqs [plus dg, Star sp, lit_i ''mil'']])])"

text \<open>\<open>rf"\b{re.escape(w)}\b"\<close> for a synonym \<open>w\<close>.\<close>

definition word_rx :: "string \<Rightarrow> rx" where
  "word_rx w = seqs [WordB, lit w, WordB]"

subsection \<open>Numbers\<close>

text \<open>
  \<open>float(s)\<close> on a string: surrounding blanks are ignored, then an optional sign, a
  decimal mantissa (digits with at most one dot, at least one digit) and an optional
  exponent. The spellings \<open>inf\<close>, \<open>nan\<close> and digit groups with \<open>_\<close> are not modelled
  (they are \<open>None\<close> here); the strings \<open>route_message\<close> passes to \<open>float\<close> hold digits and
  dots only. Floats are exact reals: overflow to \<open>inf\<close> is not modelled.
\<close>

definition digits_nat :: "string \<Rightarrow> nat" where
  "digits_nat s = foldl (\<lambda>a c. 10 * a + (of_char c - 48)) 0 s"

definition is_digits :: "string \<Rightarrow> bool" where
  "is_digits s \<longleftrightarrow> s \<noteq> [] \<and> list_all is_digit s"

definition parse_mantissa :: "string \<Rightarrow> real option" where
  "parse_mantissa s =
     (let a = takeWhile (\<lambda>c. c \<noteq> CHR ''.'') s; rest = dropWhile (\<lambda>c. c \<noteq> CHR ''.'') s
      in if rest = [] then (if is_digits a then Some (real (digits_nat a)) else None)
         else let b = tl rest
              in if (a \<noteq> [] \<or> b \<noteq> []) \<and> list_all is_digit a \<and> list_all is_digit b
                 then Some (real (digits_nat a) + real (digits_nat b) / 10 ^ length b) else None)"

definition parse_signed :: "string \<Rightarrow> int option" where
  "parse_signed s =
     (case s of
        c # ds \<Rightarrow> if c = CHR ''-'' then (if is_digits ds then Some (- int (digits_nat ds)) else None)
                 else if c = CHR ''+'' then (if is_digits ds then Some (int (digits_nat ds)) else None)
                 else if is_digits s then Some (int (digits_nat s)) else None
      | [] \<Rightarrow> None)"

definition parse_unsigned_float :: "string \<Rightarrow> real option" where
  "parse_unsigned_float s =
     (let m = takeWhile (\<lambda>c. c \<noteq> CHR ''e'' \<and> c \<noteq> CHR ''E'') s;
          ex = dropWhile (\<lambda>c. c \<noteq> CHR ''e'' \<and> c \<noteq> CHR ''E'') s
      in if ex = [] then parse_mantissa m
         else case (parse_mantissa m, parse_signed (tl ex)) of
                (Some v, Some e) \<Rightarrow> Some (if 0 \<le> e then v * 10 ^ nat e else v / 10 ^ nat (- e))
              | _ \<Rightarrow> None)"

definition py_float :: "string \<Rightarrow> real option" where
  "py_float s =
     (let t = py_strip s
      in case t of
           c # r \<Rightarrow> if c = CHR ''-'' then map_option uminus (parse_unsigned_float r)
                    else if c = CHR ''+'' then parse_unsigned_float r
                    else parse_unsigned_float t
         | [] \<Rightarrow> None)"

text \<open>\<open>s.replace(c, "")\<close> for a single character \<open>c\<close>, and \<open>s.endswith(w)\<close>.\<close>

definition py_remove :: "char \<Rightarrow> string \<Rightarrow> string" where
  "py_remove c s = filter (\<lambda>x. x \<noteq> c) s"

definition ends_with :: "string \<Rightarrow> string \<Rightarrow> bool" where
  "ends_with s w \<longleftrightarrow> starts_with (rev w) (rev s)"

text \<open>\<open>parse_numeric\<close> of \<open>src/app/nlp/normalize.py\<close> (the argument is never \<open>None\<close> here).\<close>

definition parse_numeric :: "string \<Rightarrow> real option" where
  "parse_numeric s = py_float (py_strip (py_remove (CHR ''$'') (py_remove (CHR '','') s)))"

text \<open>\<open>_parse_money\<close>: a suffix \<open>k\<close> or \<open>mil\<close> multiplies by 1000; what does not parse is 0.\<close>

definition parse_money :: "string \<Rightarrow> real" where
  "parse_money s =
     (let t = py_strip (py_remove (CHR '' '') (py_remove (CHR ''$'') (py_remove (CHR '','') (norm_txt s))))
      in if ends_with t ''k'' then
           (let base = py_strip (butlast t)
            in case py_float base of Some v \<Rightarrow> v * 1000
               | None \<Rightarrow> (case parse_numeric base of Some v \<Rightarrow> v * 1000 | None \<Rightarrow> 0))
         else if ends_with t ''mil'' then
           (let base = py_strip (take (length t - 3) t)
            in case py_float base of Some v \<Rightarrow> v * 1000
               | None \<Rightarrow> (case parse_numeric base of Some v \<Rightarrow> v * 1000 | None \<Rightarrow> 0))
         else (case parse_numeric t of Some v \<Rightarrow> v | None \<Rightarrow> 0))"

text \<open>\<open>_parse_term\<close>: the term of \<open>a|en <2-3 digits> mes(es)\<close>, snapped to an allowed
  term; the default when there is none. \<open>int()\<close> of the group cannot fail.\<close>

definition parse_term :: "string \<Rightarrow> int \<Rightarrow> int" where
  "parse_term text dflt =
     (case re_search PLAZO_RE text of
        None \<Rightarrow> dflt
      | Some (_, _, g) \<Rightarrow>
          (case group text g 1 of
             None \<Rightarrow> dflt
           | Some d \<Rightarrow> adjust_term (int (digits_nat d))))"

text \<open>\<open>_extract_price_bounds\<close>.\<close>

definition extract_price_bounds :: "string \<Rightarrow> real option \<times> real option" where
  "extract_price_bounds raw =
     (let bound = (\<lambda>r. case re_search r raw of
                          None \<Rightarrow> None
                        | Some (_, _, g) \<Rightarrow> Some (parse_money (opt_str (group raw g 1))))
      in (bound MIN_RE, bound MAX_RE))"

subsection \<open>Removal directives\<close>

text \<open>The filter keys a \<open>quita\<close> token names (the tokens are lowercased first).\<close>

definition keys_of_token :: "string \<Rightarrow> string list" where
  "keys_of_token tok =
     (let t = py_lower tok
      in if t = ''marca'' then [''brand'']
         else if t = ''modelo'' then [''model'']
         else if t \<in> {''a'' @ CHR 0xF1 # ''o'', ''ano'', ''year''} then [''year_min'', ''year_max'']
         else if t \<in> {''precio'', ''max'', ''min''} then [''price_min'', ''price_max'']
         else if t \<in> {''km'', ''kilometraje''} then [''km_max'']
         else [])"

text \<open>\<open>filters.pop(k, None)\<close> for the keys of the filters record.\<close>

definition pop_key :: "string \<Rightarrow> filters \<Rightarrow> filters" where
  "pop_key k f =
     (if k = ''raw_text'' then f\<lparr>f_raw_text := None\<rparr>
      else if k = ''brand'' then f\<lparr>f_brand := None\<rparr>
      else if k = ''model'' then f\<lparr>f_model := None\<rparr>
      else if k = ''version'' then f\<lparr>f_version := None\<rparr>
      else if k = ''year_min'' then f\<lparr>f_year_min := None\<rparr>
      else if k = ''year_max'' then f\<lparr>f_year_max := None\<rparr>
      else if k = ''price_min'' then f\<lparr>f_price_min := None\<rparr>
      else if k = ''price_max'' then f\<lparr>f_price_max := None\<rparr>
      else if k = ''km_max'' then f\<lparr>f_km_max := None\<rparr>
      else f)"

text \<open>\<open>_apply_remove_filters\<close>: every key named by a \<open>quita\<close> directive of the message is
  removed from the filters given (the set \<open>to_remove\<close> becomes a list: popping is
  idempotent and the pops commute).\<close>

definition apply_remove_filters :: "filters \<Rightarrow> string \<Rightarrow> filters" where
  "apply_remove_filters f raw =
     (let m = findall1 QUITAR_RE raw 0
      in if m = [] then f else fold pop_key (concat (map keys_of_token m)) f)"

subsection \<open>Synonyms\<close>

text \<open>
  \<open>SYNONYMS\<close>: each key with its set of words, in source order. A missing comma in the
  source joins \<open>"con poco uso" "kilometraje"\<close> into one word.
\<close>

definition SYNONYMS :: "(string \<times> string list) list" where
  "SYNONYMS =
     [(''carroceria'', [''camioneta'', ''suv'', ''sedan'', ''sed'' @ CHR 0xE1 # ''n'', ''hatchback'', ''hb'', ''pickup'',
                       ''jeep'', ''coupe'', ''coup'' @ [CHR 0xE9]]),
      (''precio'', [''barato'', ''barata'', ''baratos'', ''baratas'', ''economico'', ''econ'' @ CHR 0xF3 # ''mico'',
                   ''economica'', ''econ'' @ CHR 0xF3 # ''mica'', ''accesible'']),
      (''forma_pago'', [''mensualidad'', ''mensualidades'', ''credito'', ''cr'' @ CHR 0xE9 # ''dito'', ''financiamiento'']),
      (''anio'', [''nuevo'', ''nueva'', ''nuevos'', ''nuevas'', ''ultimo'', CHR 0xFA # ''ltimo'', ''modelo'', ''modelos'',
                 ''reciente'', CHR 0xFA # ''ltimo modelo'', ''ultimo modelo'']),
      (''km'', [''usado'', ''usada'', ''usados'', ''usadas'', ''pocos km'', ''con poco usokilometraje'', ''km''])]"

text \<open>
  \<open>normalize_intent\<close>: for each key, the first of its words found as a whole word in the
  normalized text. The words of a key are a Python \<open>set\<close>, iterated in an order fixed by
  the string hashes of the process (\<open>PYTHONHASHSEED\<close>); \<open>ord\<close> is that order, a
  permutation of the words.
\<close>

definition normalize_intent :: "(string list \<Rightarrow> string list) \<Rightarrow> string \<Rightarrow> (string \<times> string) list" where
  "normalize_intent ord text =
     (let t = norm_txt text
      in List.map_filter
           (\<lambda>(key, words). map_option (\<lambda>w. (key, w)) (find (\<lambda>w. re_search (word_rx w) t \<noteq> None) (ord words)))
           SYNONYMS)"

definition KM_USED :: "string list" where
  "KM_USED = [''usado'', ''usada'', ''usados'', ''usadas'', ''pocos km'', ''poco km'', ''con poco uso'']"

subsection \<open>Intent detection\<close>

definition PROP_VALOR_KWS :: "string list" where
  "PROP_VALOR_KWS =
     [''propuesta de valor'', ''propuesta valor'', ''valor de kavak'', ''por que kavak'', ''porque kavak'',
      ''por que elegir kavak'', ''por que comprar en kavak'', ''por que comprar con kavak'']"

text \<open>\<open>_match_prop_valor_kavak\<close>: strip, lowercase, then transliterate, and look for a
  trigger phrase.\<close>

definition match_prop_valor_kavak :: "string \<Rightarrow> bool" where
  "match_prop_valor_kavak text \<longleftrightarrow>
     (let norm = unidecode (py_lower (py_strip text)) in list_ex (\<lambda>kw. has_sub kw norm) PROP_VALOR_KWS)"

definition looks_like_search :: "string \<Rightarrow> bool" where
  "looks_like_search t0 \<longleftrightarrow>
     (let t = norm_txt t0
      in list_ex (\<lambda>tok. has_sub tok t) SEARCH_TRIGGERS \<or> re_search YEAR_RE t \<noteq> None \<or>
         re_search RANGO_PRECIOS_RE t \<noteq> None \<or> re_search MIN_RE t \<noteq> None \<or> re_search MAX_RE t \<noteq> None)"

datatype intent = Greet | Help | FinanceIntent | KBIntent | SearchIntent

text \<open>\<open>_detect_intent\<close>: the first rule that fires, in the order of the code.\<close>

definition detect_intent :: "string \<Rightarrow> intent" where
  "detect_intent text =
     (let t = norm_txt text
      in if re_match GREET_RE text \<noteq> None then Greet
         else if re_search HELP_RE t \<noteq> None then Help
         else if re_search FINANCE_RE t \<noteq> None then FinanceIntent
         else if re_search KB_RE t \<noteq> None then KBIntent
         else if looks_like_search t then SearchIntent
         else Help)"

section \<open>Lemmas\<close>

subsection \<open>Numbers\<close>

lemma is_digit_char_ne:
  "is_digit c \<Longrightarrow> \<not> py_isspace c \<and> c \<noteq> CHR ''.'' \<and> c \<noteq> CHR ''e'' \<and> c \<noteq> CHR ''E'' \<and> c \<noteq> CHR ''-'' \<and>
     c \<noteq> CHR ''+'' \<and> c \<noteq> CHR ''k'' \<and> c \<noteq> CHR ''l''"
  by (auto simp: is_digit_def py_isspace_def Let_def)

lemma parse_mantissa_digits: "is_digits s \<Longrightarrow> parse_mantissa s = Some (real (digits_nat s))"
proof -
  assume d: "is_digits s"
  then have "\<forall>c \<in> set s. c \<noteq> CHR ''.''" using is_digit_char_ne by (auto simp: is_digits_def list_all_iff)
  then have t: "takeWhile (\<lambda>c. c \<noteq> CHR ''.'') s = s" and r: "dropWhile (\<lambda>c. c \<noteq> CHR ''.'') s = []"
    by (simp_all add: takeWhile_eq_all_conv dropWhile_eq_Nil_conv)
  show ?thesis unfolding parse_mantissa_def Let_def t r using d by simp
qed

text \<open>\<open>float\<close> reads a string of digits as its decimal value, and a dot between two
  digit strings as a decimal point.\<close>

lemma parse_unsigned_float_digits: "is_digits s \<Longrightarrow> parse_unsigned_float s = Some (real (digits_nat s))"
proof -
  assume d: "is_digits s"
  then have "\<forall>x \<in> set s. x \<noteq> CHR ''e'' \<and> x \<noteq> CHR ''E''"
    using is_digit_char_ne by (auto simp: is_digits_def list_all_iff)
  then have t: "takeWhile (\<lambda>c. c \<noteq> CHR ''e'' \<and> c \<noteq> CHR ''E'') s = s"
      and r: "dropWhile (\<lambda>c. c \<noteq> CHR ''e'' \<and> c \<noteq> CHR ''E'') s = []"
    by (simp_all add: takeWhile_eq_all_conv dropWhile_eq_Nil_conv)
  show ?thesis unfolding parse_unsigned_float_def Let_def t r using d by (simp add: parse_mantissa_digits)
qed

lemma py_float_digits: "is_digits s \<Longrightarrow> py_float s = Some (real (digits_nat s))"
proof -
  assume d: "is_digits s"
  then obtain c r where s: "s = c # r" by (cases s) (auto simp: is_digits_def)
  have all: "\<forall>x \<in> set s. is_digit x" using d by (simp add: is_digits_def list_all_iff)
  then have "py_strip s = s" using is_digit_char_ne s by (intro py_strip_id) auto
  moreover have "c \<noteq> CHR ''-''" "c \<noteq> CHR ''+''" using all s is_digit_char_ne by auto
  ultimately show ?thesis using d s by (simp add: py_float_def parse_unsigned_float_digits)
qed

lemma py_float_decimal:
  assumes a: "is_digits a" and b: "list_all is_digit b"
  shows "py_float (a @ CHR ''.'' # b) = Some (real (digits_nat a) + real (digits_nat b) / 10 ^ length b)"
proof -
  let ?s = "a @ CHR ''.'' # b"
  have da: "\<forall>x \<in> set a. is_digit x" and db: "\<forall>x \<in> set b. is_digit x"
    using a b by (simp_all add: is_digits_def list_all_iff)
  obtain c r where ac: "a = c # r" using a by (cases a) (auto simp: is_digits_def)
  have ne: "\<forall>x \<in> set ?s. \<not> py_isspace x \<and> x \<noteq> CHR ''e'' \<and> x \<noteq> CHR ''E''"
    using da db is_digit_char_ne by (auto simp: py_isspace_def)
  have "py_strip ?s = ?s"
    using ne by (intro py_strip_id) (auto simp: ac)
  moreover have "takeWhile (\<lambda>c. c \<noteq> CHR ''e'' \<and> c \<noteq> CHR ''E'') ?s = ?s"
      "dropWhile (\<lambda>c. c \<noteq> CHR ''e'' \<and> c \<noteq> CHR ''E'') ?s = []"
    using ne by (simp_all add: takeWhile_eq_all_conv dropWhile_eq_Nil_conv)
  moreover have "takeWhile (\<lambda>c. c \<noteq> CHR ''.'') ?s = a" "dropWhile (\<lambda>c. c \<noteq> CHR ''.'') ?s = CHR ''.'' # b"
    using da is_digit_char_ne by (simp_all add: takeWhile_append2 dropWhile_append2 takeWhile_eq_all_conv
       dropWhile_eq_Nil_conv)
  moreover have "c \<noteq> CHR ''-''" "c \<noteq> CHR ''+''" using da ac is_digit_char_ne by auto
  ultimately show ?thesis using a b ac
    by (simp add: py_float_def parse_unsigned_float_def parse_mantissa_def Let_def is_digits_def)
qed

lemma ends_with_last: "ends_with s w \<Longrightarrow> w \<noteq> [] \<Longrightarrow> last s = last w"
  by (auto simp: ends_with_def starts_with_prefix prefix_def)
     (metis append_is_Nil_conv last_appendR rev_append rev_rev_ident)

text \<open>\<open>_parse_money\<close> of a text that normalizes to plain digits is their value.\<close>

lemma parse_money_digits: "is_digits (norm_txt s) \<Longrightarrow> parse_money s = real (digits_nat (norm_txt s))"
proof -
  assume d: "is_digits (norm_txt s)"
  let ?t = "norm_txt s"
  have all: "\<forall>x \<in> set ?t. is_digit x" using d by (simp add: is_digits_def list_all_iff)
  then have rm: "py_remove c ?t = ?t" if "\<not> is_digit c" for c
    using that by (auto simp: py_remove_def filter_id_conv)
  have nd: "\<not> is_digit (CHR '' '')" "\<not> is_digit (CHR ''$'')" "\<not> is_digit (CHR '','')" "\<not> is_digit (CHR ''k'')"
     "\<not> is_digit (CHR ''l'')" by (simp_all add: is_digit_def)
  have st: "py_strip ?t = ?t" using all d is_digit_char_ne
    by (intro py_strip_id) (auto simp: is_digits_def)
  have "?t \<noteq> []" using d by (simp add: is_digits_def)
  then have "is_digit (last ?t)" using all by simp
  then have "\<not> ends_with ?t ''k''" "\<not> ends_with ?t ''mil''"
    using nd ends_with_last by fastforce+
  then show ?thesis using d
    by (simp add: parse_money_def rm nd st parse_numeric_def py_float_digits)
qed

lemma py_remove_id: "c \<notin> set s \<Longrightarrow> py_remove c s = s"
  by (auto simp: py_remove_def filter_id_conv)

lemma py_remove_Cons: "py_remove c (x # xs) = (if x = c then py_remove c xs else x # py_remove c xs)"
  by (simp add: py_remove_def)

subsection \<open>Removal directives\<close>

lemma pop_key_fields:
  "f_brand (pop_key k f) = (if k = ''brand'' then None else f_brand f)"
  "f_model (pop_key k f) = (if k = ''model'' then None else f_model f)"
  "f_year_min (pop_key k f) = (if k = ''year_min'' then None else f_year_min f)"
  "f_price_min (pop_key k f) = (if k = ''price_min'' then None else f_price_min f)"
  "f_price_max (pop_key k f) = (if k = ''price_max'' then None else f_price_max f)"
  "f_km_max (pop_key k f) = (if k = ''km_max'' then None else f_km_max f)"
  unfolding pop_key_def by simp_all

text \<open>Popping keys one after the other clears a field exactly when its key is among them.\<close>

lemma fold_pop_key_field:
  assumes "\<And>k f. g (pop_key k f) = (if k = key then None else g f)"
  shows "g (fold pop_key ks f) = (if key \<in> set ks then None else g f)"
  by (induction ks arbitrary: f) (simp_all add: assms)

lemma apply_remove_filters_fold:
  "apply_remove_filters f raw = fold pop_key (concat (map keys_of_token (findall1 QUITAR_RE raw 0))) f"
  by (simp add: apply_remove_filters_def Let_def)

section \<open>Properties\<close>

end
