(* ===== verification/Router.thy ===== *)
theory Router
  imports Intent
begin

text \<open>
  The Filter State Store and the turn handler: \<open>route_message\<close> of
  \<open>src/app/nlp/intent.py\<close> with the module-level dictionaries it reads and writes
  (\<open>LAST_FILTERS\<close>, \<open>LAST_OFFSET\<close>, \<open>LAST_LIMIT\<close>, \<open>LAST_PAGE\<close>, \<open>LAST_CTX\<close>, each keyed by
  channel), \<open>cotiza_car\<close> of \<open>src/app/nlp/tools.py\<close>, and \<open>retrieve_cars\<close> of
  \<open>src/app/router.py\<close>. One call of \<open>route_message\<close> is one step of the state record
  \<open>bot\<close>; the reply is a value of \<open>reply\<close> that keeps what the text shows (which cars,
  numbered how, which quote) and drops the wording. The catalog, the scorers and the
  iteration order of the synonym sets are the parameters of a run.
  \<open>retrieve_cars\<close> writes into the dictionary it is given; in the pagination branch that
  dictionary is the one stored in \<open>LAST_FILTERS\<close>, so the write is stored as well: the
  model returns the written dictionary and the caller stores it exactly where the
  code's aliasing does.
\<close>

section \<open>Definitions\<close>

subsection \<open>State\<close>

text \<open>\<open>LAST_CTX[channel]\<close>: the only context the code stores is a quote.\<close>

record quote_ctx =
  ctx_kind :: string
  ctx_car_id :: string
  ctx_down :: int
  ctx_term :: int

text \<open>The module-level dictionaries; \<open>LAST_TOTAL\<close> is never written and is left out.\<close>

record bot =
  last_filters :: "string \<rightharpoonup> filters"
  last_offset :: "string \<rightharpoonup> nat"
  last_limit :: "string \<rightharpoonup> nat"
  last_page :: "string \<rightharpoonup> (nat \<rightharpoonup> string)"
  last_ctx :: "string \<rightharpoonup> quote_ctx"

definition bot0 :: bot where
  "bot0 = \<lparr>last_filters = Map.empty, last_offset = Map.empty, last_limit = Map.empty,
           last_page = Map.empty, last_ctx = Map.empty\<rparr>"

text \<open>\<open>if not d\<close> on a filters dictionary: no key is present.\<close>

definition filters_empty :: "filters \<Rightarrow> bool" where
  "filters_empty f \<longleftrightarrow> f = no_filters"

subsection \<open>Quotation by id: \<open>cotiza_car\<close>\<close>

datatype quote =
    NoCar string
  | Quotation string car real int real real

definition cotiza_car :: "car list \<Rightarrow> string \<Rightarrow> real \<Rightarrow> int option \<Rightarrow> real option \<Rightarrow> quote" where
  "cotiza_car cat cid down_payment term annual_rate =
     (case find (\<lambda>c. car_id c = cid) cat of
        None \<Rightarrow> NoCar cid
      | Some c \<Rightarrow>
          Quotation cid c down_payment (case term of None \<Rightarrow> DEFAULT_TERM | Some t \<Rightarrow> t)
            (case annual_rate of None \<Rightarrow> KAVAK_ANNUAL_RATE | Some a \<Rightarrow> a)
            (cotiza_monthly (price c) down_payment term annual_rate))"

subsection \<open>Rendering a page: \<open>retrieve_cars\<close>\<close>

text \<open>What the reply of \<open>retrieve_cars\<close> shows: the filters its chips are made of, the
  total, and on a page the cards with the number printed on each and the count left.\<close>

datatype listing =
    ZeroResults filters
  | OutOfRange filters nat
  | EmptyPage filters nat
  | Page filters nat "(nat \<times> car) list" nat

text \<open>The echo of \<open>retrieve_cars\<close>: when the filter is falsy and every car on the page has
  the same value, that value is written into the dictionary.\<close>

definition echo :: "(car \<Rightarrow> string) \<Rightarrow> car list \<Rightarrow> string option \<Rightarrow> string option" where
  "echo col cars cur =
     (if cars \<noteq> [] \<and> opt_str cur = [] then (case remdups (map col cars) of [v] \<Rightarrow> Some v | _ \<Rightarrow> cur)
      else cur)"

definition echo_version :: "car list \<Rightarrow> string option \<Rightarrow> string option" where
  "echo_version cars cur =
     (if cars \<noteq> [] \<and> opt_str cur = []
      then (case filter (\<lambda>v. v \<noteq> []) (remdups (map (\<lambda>c. py_lower (py_strip (version c))) cars)) of
              [v] \<Rightarrow> Some v | _ \<Rightarrow> cur)
      else cur)"

definition retrieve_cars :: "scorers \<Rightarrow> car list \<Rightarrow> filters \<Rightarrow> nat \<Rightarrow> nat \<Rightarrow> listing \<times> filters" where
  "retrieve_cars sc cat f offset limit =
     (let total_count = search_cars_count sc cat f
      in if total_count = 0 then (ZeroResults f, f)
         else if total_count \<le> offset then (OutOfRange f total_count, f)
         else
           let cars = search_cars sc cat f limit offset;
               f' = f\<lparr>f_brand := echo brand cars (f_brand f), f_model := echo model cars (f_model f),
                      f_version := echo_version cars (f_version f)\<rparr>
           in if cars = [] then (EmptyPage f' total_count, f')
              else let shown_total = min (offset + length cars) total_count
                   in (Page f' total_count (zip [1..<Suc (length cars)] cars) (total_count - shown_total), f'))"

subsection \<open>Replies\<close>

datatype reply =
    PropuestaValor
  | Welcome
  | DetailsAfterQuote int int
  | AskWhichDetails
  | AdjustSearch
  | ContactNeedData
  | ContactDone string string string "string option"
  | CarNotIdentified
  | QuoteReply quote bool
  | NoPreviousSearch
  | NoMoreResults
  | FinanceNeedData
  | FinancePlanReply real real "(int \<times> real) list"
  | KBReply string
  | Listing listing
  | Raised string

subsection \<open>String helpers of the handlers\<close>

text \<open>\<open>m.group(0)\<close> of a search, or \<open>""\<close> when there is no match.\<close>

definition span_of :: "string \<Rightarrow> (nat \<times> nat \<times> caps) option \<Rightarrow> string" where
  "span_of w m = (case m of None \<Rightarrow> [] | Some (i, j, _) \<Rightarrow> take (j - i) (drop i w))"

text \<open>\<open>s.replace(old, "")\<close>: left to right, non-overlapping.\<close>

function replace_all :: "string \<Rightarrow> string \<Rightarrow> string" where
  "replace_all old [] = []"
| "replace_all old (c # s) =
     (if old \<noteq> [] \<and> starts_with old (c # s) then replace_all old (drop (length old) (c # s))
      else c # replace_all old s)"
  by pat_completeness auto
termination
  by (relation "measure (\<lambda>(old, s). length s)") auto

text \<open>\<open>s.strip(chars)\<close>.\<close>

definition strip_chars :: "string \<Rightarrow> string \<Rightarrow> string" where
  "strip_chars cs s = rev (dropWhile (\<lambda>c. c \<in> set cs) (rev (dropWhile (\<lambda>c. c \<in> set cs) s)))"

text \<open>\<open>x or y\<close> on optional strings.\<close>

definition py_or :: "string option \<Rightarrow> string option \<Rightarrow> string option" where
  "py_or x y = (if opt_str x \<noteq> [] then x else y)"

text \<open>\<open>for idx, it in enumerate(cars, start=base): page_map[idx] = str(it["id"])\<close>\<close>

definition extend_page :: "(nat \<rightharpoonup> string) \<Rightarrow> nat \<Rightarrow> car list \<Rightarrow> (nat \<rightharpoonup> string)" where
  "extend_page pm base cars = fold (\<lambda>(idx, c) m. m(idx \<mapsto> car_id c)) (zip [base..<base + length cars] cars) pm"

text \<open>A value that is not \<open>None\<close> overrides the old one.\<close>

definition override :: "'a option \<Rightarrow> 'a option \<Rightarrow> 'a option" where
  "override new old = (case new of None \<Rightarrow> old | Some v \<Rightarrow> Some v)"

text \<open>\<open>merged = base.copy(); merged.update({k: v for k, v in filters.items() if v is not None})\<close>\<close>

definition merge_filters :: "filters \<Rightarrow> filters \<Rightarrow> filters" where
  "merge_filters base f =
     \<lparr>f_raw_text = override (f_raw_text f) (f_raw_text base),
      f_brand = override (f_brand f) (f_brand base),
      f_model = override (f_model f) (f_model base),
      f_version = override (f_version f) (f_version base),
      f_year_min = override (f_year_min f) (f_year_min base),
      f_year_max = override (f_year_max f) (f_year_max base),
      f_price_min = override (f_price_min f) (f_price_min base),
      f_price_max = override (f_price_max f) (f_price_max base),
      f_km_max = override (f_km_max f) (f_km_max base)\<rparr>"

subsection \<open>The branches of \<open>route_message\<close>\<close>

text \<open>Contact: the tail after the keyword, an e-mail and a phone found in it, and the
  name that is left once they are cut out.\<close>

definition contact_turn :: "bot \<Rightarrow> string \<Rightarrow> string \<Rightarrow> caps \<Rightarrow> reply" where
  "contact_turn st ch raw g =
     (let tail = py_strip (opt_str (group raw g 3));
          email = span_of tail (re_search EMAIL_RE tail);
          phone = span_of tail (re_search PHONE_RE tail);
          name = fold (\<lambda>tok nm. if tok \<noteq> [] then py_strip (strip_chars '',; '' (replace_all tok nm)) else nm)
                   [email, phone] tail
      in if email = [] \<and> phone = [] then ContactNeedData
         else ContactDone name email phone
                (case last_ctx st ch of Some ctx \<Rightarrow> if ctx_car_id ctx \<noteq> [] then Some (ctx_car_id ctx) else None
                 | None \<Rightarrow> None))"

text \<open>Quote: a token of at most three digits is a card number looked up in \<open>LAST_PAGE\<close>,
  a longer one an id. The context is stored whatever \<open>cotiza_car\<close> finds.\<close>

definition quote_turn :: "car list \<Rightarrow> bot \<Rightarrow> string \<Rightarrow> string \<Rightarrow> caps \<Rightarrow> reply \<times> bot" where
  "quote_turn cat st ch raw g =
     (let car_token = opt_str (group raw g 1);
          down_payment = parse_money (opt_str (group raw g 2));
          term = parse_term raw DEFAULT_TERM;
          cid = (if is_digits car_token \<and> length car_token \<le> 3
                 then (case last_page st ch of None \<Rightarrow> None | Some pm \<Rightarrow> pm (digits_nat car_token))
                 else Some car_token)
      in case cid of
           None \<Rightarrow> (CarNotIdentified, st)
         | Some c \<Rightarrow>
             if c = [] then (CarNotIdentified, st)
             else (QuoteReply (cotiza_car cat c down_payment (Some term) None) (re_search TASA_NOTE_RE raw \<noteq> None),
                   st\<lparr>last_ctx := (last_ctx st)(ch \<mapsto>
                        \<lparr>ctx_kind = ''quote'', ctx_car_id = c, ctx_down = py_int down_payment, ctx_term = term\<rparr>)\<rparr>))"

text \<open>The page a pagination turn shows (lines 383-395): the cards are added to the page
  map from \<open>new_offset + 1\<close> on, the cursor moves, and the filters \<open>retrieve_cars\<close> writes
  into are the stored ones.\<close>

definition next_page :: "scorers \<Rightarrow> car list \<Rightarrow> bot \<Rightarrow> string \<Rightarrow> filters \<Rightarrow> nat \<Rightarrow> nat \<Rightarrow> reply \<times> bot" where
  "next_page sc cat st ch base_filters new_offset step =
     (let page_cars = search_cars sc cat base_filters step new_offset;
          page_map = extend_page (get_default (last_page st) ch Map.empty) (new_offset + 1) page_cars;
          r = retrieve_cars sc cat base_filters new_offset step
      in (Listing (fst r),
          st\<lparr>last_page := (last_page st)(ch \<mapsto> page_map),
             last_offset := (last_offset st)(ch \<mapsto> new_offset),
             last_limit := (last_limit st)(ch \<mapsto> step),
             last_filters := (last_filters st)(ch \<mapsto> snd r)\<rparr>))"

text \<open>Pagination: the next page after the one last shown, of the size asked for (or the
  last size), clamped to what is left.\<close>

definition paginate_turn :: "scorers \<Rightarrow> car list \<Rightarrow> bot \<Rightarrow> string \<Rightarrow> string \<Rightarrow> caps \<Rightarrow> reply \<times> bot" where
  "paginate_turn sc cat st ch raw g =
     (let how_many = py_or (group raw g 1) (group raw g 2);
          step = (if opt_str how_many \<noteq> [] then digits_nat (opt_str how_many)
                  else get_default (last_limit st) ch 5)
      in case last_filters st ch of
           None \<Rightarrow> (NoPreviousSearch, st)
         | Some base_filters \<Rightarrow>
             if filters_empty base_filters then (NoPreviousSearch, st)
             else
               let prev_offset = get_default (last_offset st) ch 0;
                   prev_limit = get_default (last_limit st) ch 5;
                   new_offset = prev_offset + prev_limit;
                   total = search_cars_count sc cat base_filters
               in if total \<le> new_offset then (NoMoreResults, st)
                  else next_page sc cat st ch base_filters new_offset (min (max step 1) (total - new_offset)))"

text \<open>Finance: the first number of the message is the price, the amount after
  \<open>enganche de\<close> or \<open>con\<close> the down payment.\<close>

definition finance_turn :: "string \<Rightarrow> reply" where
  "finance_turn raw =
     (let price = (case re_search FIN_PRICE_RE raw of None \<Rightarrow> None
                   | Some m \<Rightarrow> parse_numeric (span_of raw (Some m)));
          down = (case re_search FIN_DOWN_RE raw of None \<Rightarrow> None
                  | Some (_, _, g) \<Rightarrow> Some (parse_money (opt_str (group raw g 1))))
      in case (price, down) of
           (Some p, Some d) \<Rightarrow>
             (case finance_plan p d None None of
                Some plan \<Rightarrow> FinancePlanReply p d plan
              | None \<Rightarrow> Raised ''ZeroDivisionError'')
         | _ \<Rightarrow> FinanceNeedData)"

text \<open>The word lists of the search branch.\<close>

definition BRAND_WORDS :: "string list" where
  "BRAND_WORDS = [''nissan'', ''toyota'', ''volkswagen'', ''ford'', ''chevrolet'', ''kia'', ''honda'', ''bmw'',
                  ''mercedes benz'', ''mazda'', ''renault'', ''hyundai'']"

definition VERSION_WORDS :: "string list" where
  "VERSION_WORDS = [''sense'', ''advance'', ''exclusive'', ''lt'', ''ls'', ''sr'', ''le'', ''xe'', ''xl'']"

definition VERSION_TOKENS :: "string list" where
  "VERSION_TOKENS = [''sense'', ''advance'', ''exclusive'', ''active'', ''trend'', ''highline'', ''comfortline'',
                     ''xlt'', ''xl'', ''limited'', ''lt'', ''ls'', ''xle'', ''xse'', ''sport'', ''platinum'', ''sr'',
                     ''sv'', ''sl'']"

definition MODEL_TOKENS :: "string list" where
  "MODEL_TOKENS = [''versa'', ''sentra'', ''march'', ''kicks'', ''altima'', ''note'', ''x-trail'', ''xtrail'',
                   ''x trail'', ''pathfinder'', ''murano'']"

text \<open>The reset rule: a new-search word, a year, a brand word or a version word discards
  the stored filters.\<close>

definition is_reset :: "string \<Rightarrow> bool" where
  "is_reset t \<longleftrightarrow>
     re_search NEW_SEARCH_RE t \<noteq> None \<or> re_search YEAR_RE t \<noteq> None \<or>
     list_ex (\<lambda>mk. has_sub mk t) BRAND_WORDS \<or> re_search VERSION_RE t \<noteq> None"

text \<open>The filters this message states, before the merge: km from the synonyms, the
  first year, a price range or the price bounds, a brand word, a version word, a model
  word when a version token is present, then the removal directives of the message.\<close>

definition message_filters :: "(string list \<Rightarrow> string list) \<Rightarrow> string \<Rightarrow> filters" where
  "message_filters ord raw =
     (let t = norm_txt raw;
          f0 = no_filters\<lparr>f_raw_text := Some raw\<rparr>;
          f1 = (if map_of (normalize_intent ord raw) ''km'' \<in> Some ` set KM_USED \<and> f_km_max f0 = None
                then f0\<lparr>f_km_max := Some 100000\<rparr> else f0);
          f2 = (case re_search YEAR_RE t of None \<Rightarrow> f1
                | Some m \<Rightarrow> f1\<lparr>f_year_min := Some (int (digits_nat (span_of t (Some m))))\<rparr>);
          f3 = (case re_search RANGO_PRECIOS_RE raw of
                  Some (_, _, g) \<Rightarrow>
                    (let v1 = parse_money (opt_str (group raw g 1)); v2 = parse_money (opt_str (group raw g 2));
                         lo = min v1 v2; hi = max v1 v2;
                         fa = (if 0 < lo then f2\<lparr>f_price_min := Some lo\<rparr> else f2)
                     in if 0 < hi then fa\<lparr>f_price_max := Some hi\<rparr> else fa)
                | None \<Rightarrow>
                    (let (pmin, pmax) = extract_price_bounds raw;
                         fa = (case pmin of Some p \<Rightarrow> if p \<noteq> 0 then f2\<lparr>f_price_min := Some p\<rparr> else f2 | None \<Rightarrow> f2)
                     in case pmax of Some p \<Rightarrow> if p \<noteq> 0 then fa\<lparr>f_price_max := Some p\<rparr> else fa | None \<Rightarrow> fa));
          f4 = (case find (\<lambda>mk. has_sub mk t) BRAND_WORDS of None \<Rightarrow> f3 | Some mk \<Rightarrow> f3\<lparr>f_brand := Some mk\<rparr>);
          f5 = (case find (\<lambda>v. has_sub (CHR '' '' # v @ '' '') (CHR '' '' # t @ '' '')) VERSION_WORDS of
                  None \<Rightarrow> f4 | Some v \<Rightarrow> f4\<lparr>f_version := Some v\<rparr>);
          f6 = (if list_ex (\<lambda>tok. has_sub tok t) VERSION_TOKENS \<and> f_model f5 = None
                then (case find (\<lambda>mtok. has_sub mtok t) MODEL_TOKENS of None \<Rightarrow> f5 | Some mtok \<Rightarrow> f5\<lparr>f_model := Some mtok\<rparr>)
                else f5)
      in apply_remove_filters f6 raw)"

text \<open>A new search or a refinement: the stored filters (none after a reset) with this
  message's filters merged over them; stored with the free text cleared, offset 0, page
  size 5, and the first page numbered from 1.\<close>

definition search_turn :: "scorers \<Rightarrow> car list \<Rightarrow> (string list \<Rightarrow> string list) \<Rightarrow> bot \<Rightarrow> string \<Rightarrow> string \<Rightarrow> reply \<times> bot" where
  "search_turn sc cat ord st ch raw =
     (let t = norm_txt raw;
          base_filters = (if is_reset t then no_filters
                          else case last_filters st ch of None \<Rightarrow> no_filters | Some f \<Rightarrow> f);
          filters = merge_filters base_filters (message_filters ord raw);
          to_save = filters\<lparr>f_raw_text := Some []\<rparr>;
          first_page = search_cars sc cat filters 5 0
      in (Listing (fst (retrieve_cars sc cat filters 0 5)),
          st\<lparr>last_filters := (last_filters st)(ch \<mapsto> to_save),
             last_offset := (last_offset st)(ch \<mapsto> 0),
             last_limit := (last_limit st)(ch \<mapsto> 5),
             last_page := (last_page st)(ch \<mapsto> extend_page Map.empty 1 first_page)\<rparr>))"

subsection \<open>\<open>route_message\<close>\<close>

text \<open>
  One turn: the value-proposition phrases, the greeting, yes, no, contact, quote and
  pagination patterns in this order, then \<open>_detect_intent\<close>. The second
  \<open>PAGINATE_RE.search(raw)\<close> of the code (lines 426-458) is reached only when the first
  one, on the same text, found nothing, so its block never runs and is left out.
\<close>

definition route_message ::
  "scorers \<Rightarrow> car list \<Rightarrow> (string list \<Rightarrow> string list) \<Rightarrow> bot \<Rightarrow> string \<Rightarrow> string \<Rightarrow> reply \<times> bot" where
  "route_message sc cat ord st ch raw =
     (if match_prop_valor_kavak raw then (PropuestaValor, st)
      else if re_match GREET_RE raw \<noteq> None then (Welcome, st)
      else if re_match YES_RE_RAW raw \<noteq> None then
        (case last_ctx st ch of
           Some ctx \<Rightarrow> if ctx_kind ctx = ''quote'' then (DetailsAfterQuote (ctx_down ctx) (ctx_term ctx), st)
                      else (AskWhichDetails, st)
         | None \<Rightarrow> (AskWhichDetails, st))
      else if re_match NO_RE_RAW raw \<noteq> None then (AdjustSearch, st)
      else case re_match CONTACT_RE raw of
        Some (_, g) \<Rightarrow> (contact_turn st ch raw g, st)
      | None \<Rightarrow>
      (case re_search COTIZA_RE raw of
         Some (_, _, g) \<Rightarrow> quote_turn cat st ch raw g
       | None \<Rightarrow>
       (case re_search PAGINATE_RE raw of
          Some (_, _, g) \<Rightarrow> paginate_turn sc cat st ch raw g
        | None \<Rightarrow>
          (case detect_intent raw of
             Greet \<Rightarrow> (Welcome, st)
           | Help \<Rightarrow> (Welcome, st)
           | FinanceIntent \<Rightarrow> (finance_turn raw, st)
           | KBIntent \<Rightarrow> (KBReply raw, st)
           | SearchIntent \<Rightarrow> search_turn sc cat ord st ch raw))))"

subsection \<open>Runs and the properties of a state\<close>

text \<open>The states a process reaches: the empty dictionaries of the module, then any
  sequence of turns on any channels.\<close>

inductive reachable :: "scorers \<Rightarrow> car list \<Rightarrow> (string list \<Rightarrow> string list) \<Rightarrow> bot \<Rightarrow> bool"
  for sc cat ord where
  init: "reachable sc cat ord bot0"
| step: "reachable sc cat ord st \<Longrightarrow> reachable sc cat ord (snd (route_message sc cat ord st ch raw))"

text \<open>Two states agree on every channel but \<open>ch\<close>.\<close>

definition same_except :: "string \<Rightarrow> bot \<Rightarrow> bot \<Rightarrow> bool" where
  "same_except ch st st' \<longleftrightarrow>
     (\<forall>c. c \<noteq> ch \<longrightarrow> last_filters st' c = last_filters st c \<and> last_offset st' c = last_offset st c \<and>
          last_limit st' c = last_limit st c \<and> last_page st' c = last_page st c \<and> last_ctx st' c = last_ctx st c)"

text \<open>
  The invariant of the stored state: stored filters have the free text cleared; filters,
  offset and page size are stored together; a page size is at least 1; a context is a
  quote; a page map is stored with its cursor and its numbers lie in \<open>1..offset + size\<close>.
\<close>

definition bot_inv :: "bot \<Rightarrow> bool" where
  "bot_inv st \<longleftrightarrow>
     (\<forall>ch f. last_filters st ch = Some f \<longrightarrow> f_raw_text f = Some []) \<and>
     (\<forall>ch. (last_filters st ch = None) = (last_offset st ch = None) \<and>
           (last_filters st ch = None) = (last_limit st ch = None)) \<and>
     (\<forall>ch l. last_limit st ch = Some l \<longrightarrow> 1 \<le> l) \<and>
     (\<forall>ch ctx. last_ctx st ch = Some ctx \<longrightarrow> ctx_kind ctx = ''quote'') \<and>
     (\<forall>ch pm. last_page st ch = Some pm \<longrightarrow>
        (\<exists>ofs lmt. last_offset st ch = Some ofs \<and> last_limit st ch = Some lmt \<and> dom pm \<subseteq> {1..ofs + lmt}))"

subsection \<open>Fixtures\<close>

text \<open>A channel that has shown one card of an unfiltered search over the test catalog:
  the Sentra, numbered 1.\<close>

definition paged_state :: bot where
  "paged_state = bot0\<lparr>last_filters := [''c'' \<mapsto> no_filters\<lparr>f_raw_text := Some []\<rparr>],
                      last_offset := [''c'' \<mapsto> 0], last_limit := [''c'' \<mapsto> 1],
                      last_page := [''c'' \<mapsto> [1 \<mapsto> ''320505'']]\<rparr>"

section \<open>Lemmas\<close>

subsection \<open>Channels are independent\<close>

lemma same_except_refl [simp]: "same_except ch st st"
  by (simp add: same_except_def)

lemma quote_turn_frame: "same_except ch st (snd (quote_turn cat st ch raw g))"
  by (auto simp: same_except_def quote_turn_def Let_def split: option.splits)

lemma paginate_turn_frame: "same_except ch st (snd (paginate_turn sc cat st ch raw g))"
  by (auto simp: same_except_def paginate_turn_def next_page_def Let_def split: option.splits)

lemma search_turn_frame: "same_except ch st (snd (search_turn sc cat ord st ch raw))"
  by (auto simp: same_except_def search_turn_def Let_def)

lemma route_message_frame: "same_except ch st (snd (route_message sc cat ord st ch raw))"
  by (auto simp: route_message_def quote_turn_frame paginate_turn_frame search_turn_frame
      split: option.splits intent.splits prod.splits)

subsection \<open>Page maps and pages\<close>

lemma dom_fold_upd: "dom (fold (\<lambda>(idx, c) m. m(idx \<mapsto> g c)) xs pm) = dom pm \<union> fst ` set xs"
  by (induction xs arbitrary: pm) auto

lemma dom_extend_page: "dom (extend_page pm b cars) = dom pm \<union> {b..<b + length cars}"
  by (simp add: extend_page_def dom_fold_upd set_map [symmetric] del: set_map)

lemma fold_upd_outside:
  "\<forall>p \<in> set xs. fst p \<noteq> x \<Longrightarrow> fold (\<lambda>(idx, c) m. m(idx \<mapsto> g c)) xs pm x = pm x"
  by (induction xs arbitrary: pm) auto

lemma fold_upd_distinct:
  "distinct (map fst xs) \<Longrightarrow> (x, c) \<in> set xs \<Longrightarrow> fold (\<lambda>(idx, c) m. m(idx \<mapsto> g c)) xs pm x = Some (g c)"
proof (induction xs arbitrary: pm)
  case (Cons p xs)
  obtain a b where p: "p = (a, b)" by (cases p)
  have eq: "fold (\<lambda>(idx, c) m. m(idx \<mapsto> g c)) (p # xs) pm = fold (\<lambda>(idx, c) m. m(idx \<mapsto> g c)) xs (pm(a \<mapsto> g b))"
    by (simp add: p)
  show ?case
  proof (cases "(x, c) \<in> set xs")
    case True
    from Cons.prems have d: "distinct (map fst xs)" by simp
    show ?thesis unfolding eq by (rule Cons.IH [OF d True])
  next
    case False
    with Cons.prems p have "a = x" "b = c" "\<forall>q \<in> set xs. fst q \<noteq> x" by force+
    then show ?thesis unfolding eq by (simp add: fold_upd_outside)
  qed
qed simp

lemma extend_page_new:
  "k < length cars \<Longrightarrow> extend_page pm b cars (b + k) = Some (car_id (cars ! k))"
  unfolding extend_page_def
  by (rule fold_upd_distinct) (auto simp: in_set_zip intro!: exI [of _ k])

lemma extend_page_old: "i < b \<Longrightarrow> extend_page pm b cars i = pm i"
  unfolding extend_page_def by (rule fold_upd_outside) (auto dest: set_zip_leftD)

lemma length_search_cars_le: "length (search_cars sc cat f lmt ofs) \<le> lmt"
  by (simp add: search_cars_def)

lemma less_Suc_length_search_cars: "x < Suc (length (search_cars sc cat f lmt ofs)) \<Longrightarrow> x \<le> lmt"
  by (simp add: search_cars_def)

lemma retrieve_cars_raw_text: "f_raw_text (snd (retrieve_cars sc cat f n s)) = f_raw_text f"
  by (simp add: retrieve_cars_def Let_def)

lemma retrieve_cars_Page:
  "retrieve_cars sc cat f ofs lmt = (Page f' tot cards rest, e) \<Longrightarrow>
   cards = zip [1..<Suc (length (search_cars sc cat f lmt ofs))] (search_cars sc cat f lmt ofs) \<and>
   tot = search_cars_count sc cat f \<and> ofs < tot"
  by (auto simp: retrieve_cars_def Let_def split: if_splits)

subsection \<open>The invariant\<close>

lemma bot_inv_bot0: "bot_inv bot0"
  by (simp add: bot_inv_def bot0_def)

lemma bot_inv_cursor:
  "bot_inv st \<Longrightarrow> last_filters st ch \<noteq> None \<Longrightarrow> last_offset st ch \<noteq> None \<and> last_limit st ch \<noteq> None"
  unfolding bot_inv_def by metis

lemma quote_turn_inv: "bot_inv st \<Longrightarrow> bot_inv (snd (quote_turn cat st ch raw g))"
  by (auto simp: bot_inv_def quote_turn_def Let_def split: option.splits)

lemma search_turn_inv: "bot_inv st \<Longrightarrow> bot_inv (snd (search_turn sc cat ord st ch raw))"
  by (auto simp: bot_inv_def search_turn_def Let_def dom_extend_page dest: less_Suc_length_search_cars)

lemma next_page_inv:
  assumes "bot_inv st" "last_offset st ch = Some ofs" "last_limit st ch = Some lmt" "1 \<le> s"
    "last_filters st ch = Some bf"
  shows "bot_inv (snd (next_page sc cat st ch bf (ofs + lmt) s))"
proof -
  have "dom (get_default (last_page st) ch Map.empty) \<subseteq> {1..ofs + lmt}"
  proof (cases "last_page st ch")
    case (Some pm)
    with assms show ?thesis unfolding bot_inv_def by fastforce
  qed simp
  moreover have "f_raw_text bf = Some []" using assms by (simp add: bot_inv_def)
  ultimately show ?thesis
    using assms length_search_cars_le [of sc cat bf s "ofs + lmt"]
    by (auto simp: bot_inv_def next_page_def Let_def dom_extend_page retrieve_cars_raw_text)
qed

lemma paginate_turn_inv:
  assumes "bot_inv st" shows "bot_inv (snd (paginate_turn sc cat st ch raw g))"
proof (cases "last_filters st ch")
  case None
  then show ?thesis using assms by (simp add: paginate_turn_def)
next
  case (Some bf)
  from bot_inv_cursor [OF assms] Some obtain ofs lmt
    where o: "last_offset st ch = Some ofs" and l: "last_limit st ch = Some lmt"
    by blast
  show ?thesis
    using Some o l assms by (simp add: paginate_turn_def Let_def next_page_inv)
qed

lemma route_message_inv: "bot_inv st \<Longrightarrow> bot_inv (snd (route_message sc cat ord st ch raw))"
  unfolding route_message_def
  by (auto simp: quote_turn_inv paginate_turn_inv search_turn_inv split: option.splits intent.splits prod.splits)

lemma reachable_bot_inv: "reachable sc cat ord st \<Longrightarrow> bot_inv st"
  by (induction rule: reachable.induct) (auto intro: bot_inv_bot0 route_message_inv)

subsection \<open>Display indices, quotes and resets\<close>

lemma extend_page_empty:
  "extend_page Map.empty b cars = map_of (zip [b..<b + length cars] (map car_id cars))"
proof
  fix x
  show "extend_page Map.empty b cars x = map_of (zip [b..<b + length cars] (map car_id cars)) x"
  proof (cases "b \<le> x \<and> x < b + length cars")
    case True
    then obtain k where k: "x = b + k" "k < length cars" by (metis add_less_cancel_left le_Suc_ex)
    then have "map_of (zip [b..<b + length cars] (map car_id cars)) ([b..<b + length cars] ! k) = Some (map car_id cars ! k)"
      by (intro map_of_zip_nth) auto
    with k show ?thesis by (simp add: extend_page_new)
  next
    case False
    then have "extend_page Map.empty b cars x = None"
      unfolding extend_page_def by (subst fold_upd_outside) (auto dest: set_zip_leftD)
    moreover have "map_of (zip [b..<b + length cars] (map car_id cars)) x = None"
      using False by (auto simp: map_of_eq_None_iff dest: set_zip_leftD)
    ultimately show ?thesis by metis
  qed
qed

lemma map_of_numbered:
  "map_of (map2 (\<lambda>i c. (i, car_id c)) [Suc 0..<Suc (length cars)] cars) = extend_page Map.empty (Suc 0) cars"
  by (simp add: extend_page_empty zip_map2 del: upt_Suc)

lemma retrieve_cars_page_cards:
  "0 < lmt \<Longrightarrow> ofs < search_cars_count sc cat f \<Longrightarrow>
   \<exists>f' rest. fst (retrieve_cars sc cat f ofs lmt) =
     Page f' (search_cars_count sc cat f)
       (zip [1..<Suc (length (search_cars sc cat f lmt ofs))] (search_cars sc cat f lmt ofs)) rest"
  by (auto simp: retrieve_cars_def Let_def length_search_cars_eq simp flip: length_0_conv)

lemma retrieve_cars_cards:
  "(case fst (retrieve_cars sc cat f ofs lmt) of Page _ _ cards _ \<Rightarrow> cards | _ \<Rightarrow> []) =
   zip [1..<Suc (length (search_cars sc cat f lmt ofs))] (search_cars sc cat f lmt ofs)"
  by (auto simp: retrieve_cars_def Let_def search_cars_def search_cars_count_def)

lemma paginate_turn_cases:
  "paginate_turn sc cat st ch raw g = (NoPreviousSearch, st) \<or> paginate_turn sc cat st ch raw g = (NoMoreResults, st) \<or>
   (\<exists>bf s. paginate_turn sc cat st ch raw g =
       next_page sc cat st ch bf (get_default (last_offset st) ch 0 + get_default (last_limit st) ch 5) s \<and>
     last_filters st ch = Some bf \<and> 1 \<le> s \<and>
     get_default (last_offset st) ch 0 + get_default (last_limit st) ch 5 < search_cars_count sc cat bf)"
proof (cases "last_filters st ch")
  case None
  then show ?thesis by (simp add: paginate_turn_def)
next
  case (Some bf)
  define new where "new = get_default (last_offset st) ch 0 + get_default (last_limit st) ch 5"
  define k where "k = (if opt_str (py_or (group raw g 1) (group raw g 2)) \<noteq> []
                       then digits_nat (opt_str (py_or (group raw g 1) (group raw g 2)))
                       else get_default (last_limit st) ch 5)"
  have eq: "paginate_turn sc cat st ch raw g =
      (if filters_empty bf then (NoPreviousSearch, st)
       else if search_cars_count sc cat bf \<le> new then (NoMoreResults, st)
       else next_page sc cat st ch bf new (min (max k 1) (search_cars_count sc cat bf - new)))"
    unfolding paginate_turn_def Let_def Some new_def k_def by simp
  show ?thesis
  proof (cases "filters_empty bf \<or> search_cars_count sc cat bf \<le> new")
    case True
    then show ?thesis unfolding eq by auto
  next
    case False
    then have pos: "1 \<le> min (max k 1) (search_cars_count sc cat bf - new)" by arith
    have "paginate_turn sc cat st ch raw g =
          next_page sc cat st ch bf new (min (max k 1) (search_cars_count sc cat bf - new))"
      using False unfolding eq by simp
    with False Some pos show ?thesis
      unfolding new_def [symmetric] by (intro disjI2 exI [of _ bf] exI [of _ "min (max k 1) (search_cars_count sc cat bf - new)"]) simp
  qed
qed

lemma next_page_Page:
  assumes "new < search_cars_count sc cat bf" "1 \<le> s"
  shows "\<exists>f' rest. fst (next_page sc cat st ch bf new s) =
           Listing (Page f' (search_cars_count sc cat bf)
             (zip [1..<Suc (length (search_cars sc cat bf s new))] (search_cars sc cat bf s new)) rest)"
  using retrieve_cars_page_cards [of s new sc cat bf] assms by (auto simp: next_page_def Let_def)

lemma merge_no_filters [simp]: "merge_filters no_filters f = f"
  by (cases f) (simp add: merge_filters_def no_filters_def override_def split: option.splits)

lemma parse_term_allowed: "parse_term text DEFAULT_TERM \<in> set ALLOWED_TERMS"
  by (auto simp: parse_term_def adjust_term_eq DEFAULT_TERM_def ALLOWED_TERMS_def split: option.splits)

lemma cotiza_car_cases:
  "cotiza_car cat cid d (Some t) None = NoCar cid \<and> cid \<notin> car_id ` set cat \<or>
   (\<exists>c. c \<in> set cat \<and> car_id c = cid \<and>
        cotiza_car cat cid d (Some t) None = Quotation cid c d t KAVAK_ANNUAL_RATE (cotiza_monthly (price c) d (Some t) None))"
  by (auto simp: cotiza_car_def find_None_iff dest: find_Some_iff [THEN iffD1] split: option.splits)

text \<open>The fields of the filters a message yields: each one depends only on the
  patterns that set it and on the removal directives of the message.\<close>

lemma message_filters_fields:
  fixes ord raw
  defines "K \<equiv> concat (map keys_of_token (findall1 QUITAR_RE raw 0))"
  defines "t \<equiv> norm_txt raw"
  defines "f0 \<equiv> no_filters\<lparr>f_raw_text := Some raw\<rparr>"
  defines "f1 \<equiv> (if map_of (normalize_intent ord raw) ''km'' \<in> Some ` set KM_USED \<and> f_km_max f0 = None
                then f0\<lparr>f_km_max := Some 100000\<rparr> else f0)"
  defines "f2 \<equiv> (case re_search YEAR_RE t of None \<Rightarrow> f1
                | Some m \<Rightarrow> f1\<lparr>f_year_min := Some (int (digits_nat (span_of t (Some m))))\<rparr>)"
  defines "f3 \<equiv> (case re_search RANGO_PRECIOS_RE raw of
                  Some (_, _, g) \<Rightarrow>
                    (let v1 = parse_money (opt_str (group raw g 1)); v2 = parse_money (opt_str (group raw g 2));
                         lo = min v1 v2; hi = max v1 v2;
                         fa = (if 0 < lo then f2\<lparr>f_price_min := Some lo\<rparr> else f2)
                     in if 0 < hi then fa\<lparr>f_price_max := Some hi\<rparr> else fa)
                | None \<Rightarrow>
                    (let (pmin, pmax) = extract_price_bounds raw;
                         fa = (case pmin of Some p \<Rightarrow> if p \<noteq> 0 then f2\<lparr>f_price_min := Some p\<rparr> else f2 | None \<Rightarrow> f2)
                     in case pmax of Some p \<Rightarrow> if p \<noteq> 0 then fa\<lparr>f_price_max := Some p\<rparr> else fa | None \<Rightarrow> fa))"
  defines "f4 \<equiv> (case find (\<lambda>mk. has_sub mk t) BRAND_WORDS of None \<Rightarrow> f3 | Some mk \<Rightarrow> f3\<lparr>f_brand := Some mk\<rparr>)"
  defines "f5 \<equiv> (case find (\<lambda>v. has_sub (CHR '' '' # v @ '' '') (CHR '' '' # t @ '' '')) VERSION_WORDS of
                  None \<Rightarrow> f4 | Some v \<Rightarrow> f4\<lparr>f_version := Some v\<rparr>)"
  defines "f6 \<equiv> (if list_ex (\<lambda>tok. has_sub tok t) VERSION_TOKENS \<and> f_model f5 = None
                then (case find (\<lambda>mtok. has_sub mtok t) MODEL_TOKENS of None \<Rightarrow> f5 | Some mtok \<Rightarrow> f5\<lparr>f_model := Some mtok\<rparr>)
                else f5)"
  shows message_filters_year_min: "f_year_min (message_filters ord raw) =
           (if ''year_min'' \<in> set K then None
            else map_option (\<lambda>m. int (digits_nat (span_of t (Some m)))) (re_search YEAR_RE t))"
    and message_filters_brand: "f_brand (message_filters ord raw) =
           (if ''brand'' \<in> set K then None else find (\<lambda>mk. has_sub mk t) BRAND_WORDS)"
    and message_filters_model: "f_model (message_filters ord raw) =
           (if ''model'' \<in> set K then None
            else if list_ex (\<lambda>tok. has_sub tok t) VERSION_TOKENS then find (\<lambda>mtok. has_sub mtok t) MODEL_TOKENS
            else None)"
    and message_filters_km_max: "f_km_max (message_filters ord raw) =
           (if ''km_max'' \<in> set K then None
            else if map_of (normalize_intent ord raw) ''km'' \<in> Some ` set KM_USED then Some 100000 else None)"
    and message_filters_price_min: "f_price_min (message_filters ord raw) =
           (if ''price_min'' \<in> set K then None
            else case re_search RANGO_PRECIOS_RE raw of
              Some (_, _, g) \<Rightarrow>
                (let lo = min (parse_money (opt_str (group raw g 1))) (parse_money (opt_str (group raw g 2)))
                 in if 0 < lo then Some lo else None)
            | None \<Rightarrow> (case fst (extract_price_bounds raw) of Some p \<Rightarrow> if p \<noteq> 0 then Some p else None | None \<Rightarrow> None))"
    and message_filters_price_max: "f_price_max (message_filters ord raw) =
           (if ''price_max'' \<in> set K then None
            else case re_search RANGO_PRECIOS_RE raw of
              Some (_, _, g) \<Rightarrow>
                (let hi = max (parse_money (opt_str (group raw g 1))) (parse_money (opt_str (group raw g 2)))
                 in if 0 < hi then Some hi else None)
            | None \<Rightarrow> (case snd (extract_price_bounds raw) of Some p \<Rightarrow> if p \<noteq> 0 then Some p else None | None \<Rightarrow> None))"
proof -
  have mf: "message_filters ord raw = apply_remove_filters f6 raw"
    unfolding message_filters_def Let_def assms ..
  have rm: "\<And>g key. (\<And>k f. g (pop_key k f) = (if k = key then None else g f)) \<Longrightarrow>
              g (message_filters ord raw) = (if key \<in> set K then None else g f6)"
    unfolding mf apply_remove_filters_fold K_def by (rule fold_pop_key_field)
  have f2: "f_price_min f2 = None" "f_price_max f2 = None" "f_brand f2 = None" "f_model f2 = None"
    unfolding f2_def f1_def f0_def by (simp_all add: no_filters_def split: option.split)
  have f3: "f_year_min f3 = f_year_min f2" "f_brand f3 = f_brand f2" "f_km_max f3 = f_km_max f2"
      "f_model f3 = f_model f2"
    unfolding f3_def by (simp_all add: Let_def split: option.split prod.split)
  have f5: "f_model f5 = None" unfolding f5_def f4_def by (simp add: f3 f2 split: option.split)
  have f6: "f_year_min f6 = f_year_min f3" "f_brand f6 = f_brand f4" "f_km_max f6 = f_km_max f3"
      "f_price_min f6 = f_price_min f3" "f_price_max f6 = f_price_max f3"
    unfolding f6_def f5_def f4_def by (simp_all split: option.split)
  have f6m: "f_model f6 = (if list_ex (\<lambda>tok. has_sub tok t) VERSION_TOKENS
                            then find (\<lambda>mtok. has_sub mtok t) MODEL_TOKENS else None)"
    unfolding f6_def by (simp add: f5 split: option.split)
  show "f_year_min (message_filters ord raw) =
           (if ''year_min'' \<in> set K then None
            else map_option (\<lambda>m. int (digits_nat (span_of t (Some m)))) (re_search YEAR_RE t))"
    by (simp add: rm pop_key_fields f6 f3 f2_def f1_def f0_def no_filters_def split: option.split)
  show "f_brand (message_filters ord raw) =
           (if ''brand'' \<in> set K then None else find (\<lambda>mk. has_sub mk t) BRAND_WORDS)"
    by (simp add: rm pop_key_fields f6 f3 f2 f4_def split: option.split)
  show "f_model (message_filters ord raw) =
           (if ''model'' \<in> set K then None
            else if list_ex (\<lambda>tok. has_sub tok t) VERSION_TOKENS then find (\<lambda>mtok. has_sub mtok t) MODEL_TOKENS
            else None)"
    by (simp add: rm pop_key_fields f6m)
  show "f_km_max (message_filters ord raw) =
           (if ''km_max'' \<in> set K then None
            else if map_of (normalize_intent ord raw) ''km'' \<in> Some ` set KM_USED then Some 100000 else None)"
    by (simp add: rm pop_key_fields f6 f3 f2_def f1_def f0_def no_filters_def split: option.split)
  show "f_price_min (message_filters ord raw) =
           (if ''price_min'' \<in> set K then None
            else case re_search RANGO_PRECIOS_RE raw of
              Some (_, _, g) \<Rightarrow>
                (let lo = min (parse_money (opt_str (group raw g 1))) (parse_money (opt_str (group raw g 2)))
                 in if 0 < lo then Some lo else None)
            | None \<Rightarrow> (case fst (extract_price_bounds raw) of Some p \<Rightarrow> if p \<noteq> 0 then Some p else None | None \<Rightarrow> None))"
    by (simp add: rm pop_key_fields f6 f3_def f2 Let_def split: option.split prod.split)
  show "f_price_max (message_filters ord raw) =
           (if ''price_max'' \<in> set K then None
            else case re_search RANGO_PRECIOS_RE raw of
              Some (_, _, g) \<Rightarrow>
                (let hi = max (parse_money (opt_str (group raw g 1))) (parse_money (opt_str (group raw g 2)))
                 in if 0 < hi then Some hi else None)
            | None \<Rightarrow> (case snd (extract_price_bounds raw) of Some p \<Rightarrow> if p \<noteq> 0 then Some p else None | None \<Rightarrow> None))"
    by (simp add: rm pop_key_fields f6 f3_def f2 Let_def split: option.split prod.split)
qed

text \<open>A year or a brand word in the message makes it a new search.\<close>

lemma is_reset_intro:
  "re_search YEAR_RE t \<noteq> None \<or> list_ex (\<lambda>mk. has_sub mk t) BRAND_WORDS \<Longrightarrow> is_reset t"
  by (auto simp: is_reset_def)

text \<open>What a search turn stores for its channel.\<close>

lemma search_turn_last_filters:
  "last_filters (snd (search_turn sc cat ord st ch raw)) ch =
     Some ((merge_filters (if is_reset (norm_txt raw) then no_filters else get_default (last_filters st) ch no_filters)
              (message_filters ord raw))\<lparr>f_raw_text := Some []\<rparr>)"
  by (simp add: search_turn_def Let_def get_default_def split: option.split)


section \<open>Properties\<close>

text \<open>C2: Channels are independent: a turn on one channel leaves the stored filters, cursor, page map and quote context of every other channel unchanged.\<close>

theorem route_message_channel_frame:
  assumes "other \<noteq> ch"
  shows "last_filters (snd (route_message sc cat ord st ch raw)) other = last_filters st other \<and>
         last_offset (snd (route_message sc cat ord st ch raw)) other = last_offset st other \<and>
         last_limit (snd (route_message sc cat ord st ch raw)) other = last_limit st other \<and>
         last_page (snd (route_message sc cat ord st ch raw)) other = last_page st other \<and>
         last_ctx (snd (route_message sc cat ord st ch raw)) other = last_ctx st other"
  using route_message_frame [of ch st sc cat ord raw] assms by (simp add: same_except_def)

theorem route_message_channel_frame_witness:
  "''b'' \<noteq> ''a'' \<and>
   last_page (snd (route_message exact_scorers demo_catalog id
     (snd (route_message exact_scorers demo_catalog id bot0 ''b'' ''busco nissan'')) ''a'' ''busco suzuki'')) ''b'' =
   last_page (snd (route_message exact_scorers demo_catalog id bot0 ''b'' ''busco nissan'')) ''b''"
  using route_message_channel_frame [of "''b''" "''a''" exact_scorers demo_catalog id
          "snd (route_message exact_scorers demo_catalog id bot0 ''b'' ''busco nissan'')" "''busco suzuki''"]
  by simp

text \<open>C3: In every state a run reaches, on every channel: stored filters have the free text cleared and come with an offset and a page size of at least 1; a stored context is a quote; a page map only holds display numbers from 1 to offset plus page size.\<close>

theorem reachable_state_inv:
  assumes "reachable sc cat ord st"
  shows "(case last_filters st ch of
            None \<Rightarrow> last_offset st ch = None \<and> last_limit st ch = None
          | Some f \<Rightarrow> f_raw_text f = Some [] \<and> last_offset st ch \<noteq> None \<and>
                     (case last_limit st ch of Some l \<Rightarrow> 1 \<le> l | None \<Rightarrow> False)) \<and>
         (case last_ctx st ch of Some ctx \<Rightarrow> ctx_kind ctx = ''quote'' | None \<Rightarrow> True) \<and>
         (case last_page st ch of
            Some pm \<Rightarrow> dom pm \<subseteq> {1..the (last_offset st ch) + the (last_limit st ch)}
          | None \<Rightarrow> True)"
proof -
  have inv: "bot_inv st" using assms by (rule reachable_bot_inv)
  then have c1: "(last_filters st ch = None) = (last_offset st ch = None)"
    and c2: "(last_filters st ch = None) = (last_limit st ch = None)"
    and c3: "\<And>l. last_limit st ch = Some l \<Longrightarrow> 1 \<le> l"
    and c4: "\<And>f. last_filters st ch = Some f \<Longrightarrow> f_raw_text f = Some []"
    and c5: "\<And>ctx. last_ctx st ch = Some ctx \<Longrightarrow> ctx_kind ctx = ''quote''"
    and c6: "\<And>pm. last_page st ch = Some pm \<Longrightarrow>
               (\<exists>ofs lmt. last_offset st ch = Some ofs \<and> last_limit st ch = Some lmt \<and> dom pm \<subseteq> {1..ofs + lmt})"
    unfolding bot_inv_def by blast+
  show ?thesis
    using c1 c2 c3 c4 c5 c6 by (auto split: option.splits) (auto dest!: subsetD [OF _ domI])
qed

theorem reachable_state_inv_witness:
  "(case last_filters (snd (route_message exact_scorers demo_catalog id bot0 ''c'' ''busco nissan'')) ''c'' of
      None \<Rightarrow> last_offset (snd (route_message exact_scorers demo_catalog id bot0 ''c'' ''busco nissan'')) ''c'' = None \<and>
              last_limit (snd (route_message exact_scorers demo_catalog id bot0 ''c'' ''busco nissan'')) ''c'' = None
    | Some f \<Rightarrow> f_raw_text f = Some [] \<and>
               last_offset (snd (route_message exact_scorers demo_catalog id bot0 ''c'' ''busco nissan'')) ''c'' \<noteq> None \<and>
               (case last_limit (snd (route_message exact_scorers demo_catalog id bot0 ''c'' ''busco nissan'')) ''c'' of
                  Some l \<Rightarrow> 1 \<le> l | None \<Rightarrow> False)) \<and>
   (case last_ctx (snd (route_message exact_scorers demo_catalog id bot0 ''c'' ''busco nissan'')) ''c'' of
      Some ctx \<Rightarrow> ctx_kind ctx = ''quote'' | None \<Rightarrow> True) \<and>
   (case last_page (snd (route_message exact_scorers demo_catalog id bot0 ''c'' ''busco nissan'')) ''c'' of
      Some pm \<Rightarrow> dom pm \<subseteq> {1..the (last_offset (snd (route_message exact_scorers demo_catalog id bot0 ''c'' ''busco nissan'')) ''c'') +
                               the (last_limit (snd (route_message exact_scorers demo_catalog id bot0 ''c'' ''busco nissan'')) ''c'')}
    | None \<Rightarrow> True)"
  by (rule reachable_state_inv) (rule reachable.step [OF reachable.init])

text \<open>C6: A search turn resets the cursor to offset 0 and page size 5 and rebuilds the display-index map as exactly the cards it shows, numbered 1 to at most 5.\<close>

theorem search_turn_display_index:
  "let (r, st') = search_turn sc cat ord st ch raw;
       shown = (case r of Listing (Page _ _ cards _) \<Rightarrow> cards | _ \<Rightarrow> [])
   in last_offset st' ch = Some 0 \<and> last_limit st' ch = Some 5 \<and> length shown \<le> 5 \<and>
      map fst shown = [1..<Suc (length shown)] \<and>
      last_page st' ch = Some (map_of (map (\<lambda>(i, c). (i, car_id c)) shown))"
  using length_search_cars_le [of sc cat _ 5 0]
  by (simp add: search_turn_def Let_def map_of_numbered retrieve_cars_cards del: upt_Suc)

text \<open>C5: A pagination turn that shows a page advances the offset by the previous page size, takes a page size between 1 and what remains, keeps every display index up to the new offset, and stores the card printed as number i under index offset + i.\<close>

theorem paginate_turn_display_index:
  "case paginate_turn sc cat st ch raw g of
     (Listing (Page f tot cards rest), st') \<Rightarrow>
       (\<exists>new s. last_offset st' ch = Some new \<and>
          new = get_default (last_offset st) ch 0 + get_default (last_limit st) ch 5 \<and>
          last_limit st' ch = Some s \<and> 1 \<le> s \<and> length cards \<le> s \<and> new + length cards \<le> tot \<and>
          map fst cards = [1..<Suc (length cards)] \<and>
          (\<forall>i. i \<le> new \<longrightarrow> the (last_page st' ch) i = get_default (last_page st) ch Map.empty i) \<and>
          (\<forall>(i, c) \<in> set cards. the (last_page st' ch) (new + i) = Some (car_id c)))
   | (_, st') \<Rightarrow> st' = st"
proof -
  consider "paginate_turn sc cat st ch raw g = (NoPreviousSearch, st)" | "paginate_turn sc cat st ch raw g = (NoMoreResults, st)"
    | bf s where "paginate_turn sc cat st ch raw g =
       next_page sc cat st ch bf (get_default (last_offset st) ch 0 + get_default (last_limit st) ch 5) s"
       "1 \<le> s" "get_default (last_offset st) ch 0 + get_default (last_limit st) ch 5 < search_cars_count sc cat bf"
    using paginate_turn_cases by blast
  then show ?thesis
  proof cases
    case (3 bf s)
    let ?new = "get_default (last_offset st) ch 0 + get_default (last_limit st) ch 5"
    let ?cars = "search_cars sc cat bf s ?new"
    obtain f' rest where r: "fst (next_page sc cat st ch bf ?new s) =
        Listing (Page f' (search_cars_count sc cat bf) (zip [1..<Suc (length ?cars)] ?cars) rest)"
      using next_page_Page [OF 3(3) 3(2)] by blast
    have len: "length ?cars \<le> s" "?new + length ?cars \<le> search_cars_count sc cat bf"
      using 3(3) by (auto simp: length_search_cars_eq min_def)
    have old: "\<forall>i. i \<le> ?new \<longrightarrow> extend_page (get_default (last_page st) ch Map.empty) (?new + 1) ?cars i =
                                  get_default (last_page st) ch Map.empty i"
      by (auto simp: extend_page_old)
    have new: "\<forall>(i, c) \<in> set (zip [1..<Suc (length ?cars)] ?cars).
                 extend_page (get_default (last_page st) ch Map.empty) (?new + 1) ?cars (?new + i) = Some (car_id c)"
    proof (clarify)
      fix i c assume "(i, c) \<in> set (zip [1..<Suc (length ?cars)] ?cars)"
      then obtain k where k: "k < length ?cars" "i = Suc k" "c = ?cars ! k"
        by (auto simp: in_set_zip simp del: upt_Suc)
      then show "extend_page (get_default (last_page st) ch Map.empty) (?new + 1) ?cars (?new + i) = Some (car_id c)"
        using extend_page_new [OF k(1), of "get_default (last_page st) ch Map.empty" "?new + 1"] by simp
    qed
    have "snd (next_page sc cat st ch bf ?new s) =
          st\<lparr>last_page := (last_page st)(ch \<mapsto> extend_page (get_default (last_page st) ch Map.empty) (?new + 1) ?cars),
             last_offset := (last_offset st)(ch \<mapsto> ?new), last_limit := (last_limit st)(ch \<mapsto> s),
             last_filters := (last_filters st)(ch \<mapsto> snd (retrieve_cars sc cat bf ?new s))\<rparr>"
      by (simp add: next_page_def Let_def)
    then show ?thesis
      using 3(1,2) r len old new
      by (simp add: prod_eq_iff split: prod.splits del: upt_Suc)
  qed simp_all
qed

theorem paginate_turn_display_index_witness:
  "fst (paginate_turn exact_scorers demo_catalog paged_state ''c'' ''ver 1 mas''
          (snd (snd (the (re_search PAGINATE_RE ''ver 1 mas''))))) =
     Listing (Page (no_filters\<lparr>f_raw_text := Some [], f_brand := Some ''Suzuki'', f_model := Some ''Swift''\<rparr>) 3
                   [(1, demo_catalog ! 2)] 1) \<and>
   the (last_page (snd (paginate_turn exact_scorers demo_catalog paged_state ''c'' ''ver 1 mas''
          (snd (snd (the (re_search PAGINATE_RE ''ver 1 mas'')))))) ''c'') 2 = Some ''316168'' \<and>
   the (last_page (snd (paginate_turn exact_scorers demo_catalog paged_state ''c'' ''ver 1 mas''
          (snd (snd (the (re_search PAGINATE_RE ''ver 1 mas'')))))) ''c'') 1 = Some ''320505''"
  (is "fst ?P = Listing (Page ?F 3 [(1, ?C)] 1) \<and> _")
proof -
  have r: "fst ?P = Listing (Page ?F 3 [(1, ?C)] 1)" by code_simp
  have c: "car_id ?C = ''316168''" by (simp add: demo_catalog_def)
  have o: "get_default (last_offset paged_state) ''c'' 0 + get_default (last_limit paged_state) ''c'' 5 = 1"
    by (simp add: paged_state_def bot0_def)
  have p1: "get_default (last_page paged_state) ''c'' Map.empty 1 = Some ''320505''"
    by (simp add: paged_state_def bot0_def)
  obtain st' where P: "?P = (Listing (Page ?F 3 [(1, ?C)] 1), st')" using r by (cases ?P) simp
  from paginate_turn_display_index [where sc = exact_scorers and cat = demo_catalog and st = paged_state
         and ch = "''c''" and raw = "''ver 1 mas''" and g = "snd (snd (the (re_search PAGINATE_RE ''ver 1 mas'')))"] P o
  have "the (last_page st' ''c'') 2 = Some (car_id ?C)"
       "the (last_page st' ''c'') 1 = get_default (last_page paged_state) ''c'' Map.empty 1"
    by (auto simp: numeral_2_eq_2)
  with r c p1 P show ?thesis by simp
qed

text \<open>C11: Reset rule: when the message has a new-search word, a year, a brand word or a version word, the stored filters become exactly this message's filters with the free text cleared; nothing of the previous search is kept.\<close>

theorem search_turn_reset:
  assumes "is_reset (norm_txt raw)"
  shows "last_filters (snd (search_turn sc cat ord st ch raw)) ch = Some ((message_filters ord raw)\<lparr>f_raw_text := Some []\<rparr>)"
  using assms by (simp add: search_turn_def Let_def)

theorem search_turn_reset_witness:
  "is_reset (norm_txt ''del 2021'') \<and>
   last_filters (snd (search_turn exact_scorers demo_catalog id
      (snd (route_message exact_scorers demo_catalog id bot0 ''c'' ''busco nissan'')) ''c'' ''del 2021'')) ''c'' =
   Some ((message_filters id ''del 2021'')\<lparr>f_raw_text := Some []\<rparr>)"
proof -
  have r: "is_reset (norm_txt ''del 2021'')" by code_simp
  from search_turn_reset [OF r] r show ?thesis by simp
qed

text \<open>C12: A quote turn resolves a token of at most three digits through the display-index map and takes a longer one as the id; it quotes that car at the standard rate with an allowed term, and stores the quote context (car id, truncated down payment, term) whether or not the catalog has the car.\<close>

theorem quote_turn_ctx:
  assumes "quote_turn cat st ch raw g = (QuoteReply q note, st')"
  shows "\<exists>cid d t. last_ctx st' ch = Some \<lparr>ctx_kind = ''quote'', ctx_car_id = cid, ctx_down = py_int d, ctx_term = t\<rparr> \<and>
           t \<in> set ALLOWED_TERMS \<and> cid \<noteq> [] \<and>
           (if is_digits (opt_str (group raw g 1)) \<and> length (opt_str (group raw g 1)) \<le> 3
            then get_default (last_page st) ch Map.empty (digits_nat (opt_str (group raw g 1))) = Some cid
            else cid = opt_str (group raw g 1)) \<and>
           (q = NoCar cid \<and> cid \<notin> car_id ` set cat \<or>
            (\<exists>c. c \<in> set cat \<and> car_id c = cid \<and>
                 q = Quotation cid c d t KAVAK_ANNUAL_RATE (cotiza_monthly (price c) d (Some t) None)))"
  using assms cotiza_car_cases parse_term_allowed
  by (fastforce simp: quote_turn_def Let_def split: option.splits if_splits)

theorem quote_turn_ctx_witness:
  "fst (quote_turn demo_catalog bot0 ''c'' ''cotiza 999999 con 40k'' (snd (snd (the (re_search COTIZA_RE ''cotiza 999999 con 40k''))))) =
     QuoteReply (NoCar ''999999'') False \<and>
   ctx_car_id (the (last_ctx (snd (quote_turn demo_catalog bot0 ''c'' ''cotiza 999999 con 40k''
     (snd (snd (the (re_search COTIZA_RE ''cotiza 999999 con 40k'')))))) ''c'')) = ''999999''"
proof -
  let ?P = "quote_turn demo_catalog bot0 ''c'' ''cotiza 999999 con 40k'' (snd (snd (the (re_search COTIZA_RE ''cotiza 999999 con 40k''))))"
  have r: "fst ?P = QuoteReply (NoCar ''999999'') False" by code_simp
  then have "?P = (QuoteReply (NoCar ''999999'') False, snd ?P)" by (simp add: prod_eq_iff)
  from quote_turn_ctx [OF this] r show ?thesis by auto
qed

end
