(* ===== verification/Render.thy ===== *)
theory Render
  imports Router
begin

text \<open>
  The text of the replies of \<open>src/app/router.py\<close>: the money and km formats, the filter
  chips, the numbered cards and the message \<open>retrieve_cars\<close> builds from a
  \<open>listing\<close> (\<open>Router\<close>). A reply holds characters beyond Latin-1 (the bullet, the
  dashes, the comparison signs, an emoji), so a rendered reply is its UTF-8 encoding,
  the bytes the webhook sends: Latin-1 text of the model is encoded by \<open>utf8\<close>, and
  the other characters are written as their UTF-8 byte sequences.
\<close>

section \<open>Definitions\<close>

subsection \<open>Numbers\<close>

text \<open>\<open>str(n)\<close> of a natural number, in decimal.\<close>

fun string_of_nat :: "nat \<Rightarrow> string" where
  "string_of_nat n =
     (if n < 10 then [char_of (48 + n)] else string_of_nat (n div 10) @ [char_of (48 + n mod 10)])"

declare string_of_nat.simps [simp del]

definition py_str_int :: "int \<Rightarrow> string" where
  "py_str_int i = (if i < 0 then CHR ''-'' # string_of_nat (nat (- i)) else string_of_nat (nat i))"

text \<open>The \<open>,\<close> option of the format mini-language: a comma before every group of three
  digits counted from the right.\<close>

fun group3 :: "string \<Rightarrow> string" where
  "group3 s =
     (if length s \<le> 3 then s else group3 (take (length s - 3) s) @ CHR '','' # drop (length s - 3) s)"

declare group3.simps [simp del]

definition fmt_commas :: "int \<Rightarrow> string" where
  "fmt_commas i = (if i < 0 then CHR ''-'' # group3 (string_of_nat (nat (- i))) else group3 (string_of_nat (nat i)))"

text \<open>\<open>_fmt_mxn(x) = f"${int(float(x)):,}"\<close> and \<open>_fmt_km\<close>.\<close>

definition fmt_mxn :: "real \<Rightarrow> string" where
  "fmt_mxn x = CHR ''$'' # fmt_commas (py_int x)"

definition fmt_km :: "int \<Rightarrow> string" where
  "fmt_km k = fmt_commas k @ '' km''"

subsection \<open>Encoding and case\<close>

text \<open>UTF-8 of a Latin-1 character, and the characters of the replies beyond Latin-1.\<close>

definition utf8_char :: "char \<Rightarrow> string" where
  "utf8_char c =
     (let n = (of_char c :: nat) in if n < 128 then [c] else [char_of (192 + n div 64), char_of (128 + n mod 64)])"

definition utf8 :: "string \<Rightarrow> string" where
  "utf8 s = concat (map utf8_char s)"

definition BULLET :: string where "BULLET = [CHR 0xE2, CHR 0x80, CHR 0xA2]"
definition EM_DASH :: string where "EM_DASH = [CHR 0xE2, CHR 0x80, CHR 0x94]"
definition EN_DASH :: string where "EN_DASH = [CHR 0xE2, CHR 0x80, CHR 0x93]"
definition GE_SIGN :: string where "GE_SIGN = [CHR 0xE2, CHR 0x89, CHR 0xA5]"
definition LE_SIGN :: string where "LE_SIGN = [CHR 0xE2, CHR 0x89, CHR 0xA4]"
definition MAGNIFIER :: string where "MAGNIFIER = [CHR 0xF0, CHR 0x9F, CHR 0x94, CHR 0x8E]"

text \<open>
  \<open>str.title()\<close>: a cased letter is upper case after a character that is not a cased
  letter and lower case after one. The lower-case letters of Latin-1 whose capital lies
  outside it (\<open>\<mu>\<close>, sharp s, y with diaeresis) are left as they are.
\<close>

definition is_lower_char :: "char \<Rightarrow> bool" where
  "is_lower_char c \<longleftrightarrow> (let n = (of_char c :: nat) in
     (97 \<le> n \<and> n \<le> 122) \<or> n = 181 \<or> (223 \<le> n \<and> n \<le> 255 \<and> n \<noteq> 247))"

definition py_upper_char :: "char \<Rightarrow> char" where
  "py_upper_char c = (let n = (of_char c :: nat) in
     if (97 \<le> n \<and> n \<le> 122) \<or> (224 \<le> n \<and> n \<le> 254 \<and> n \<noteq> 247) then char_of (n - 32) else c)"

fun title_run :: "bool \<Rightarrow> string \<Rightarrow> string" where
  "title_run prev [] = []"
| "title_run prev (c # cs) =
     (if is_upper_char c \<or> is_lower_char c
      then (if prev then py_lower_char c else py_upper_char c) # title_run True cs
      else c # title_run False cs)"

definition py_title :: "string \<Rightarrow> string" where
  "py_title s = title_run False s"

text \<open>\<open>sep.join(xs)\<close>.\<close>

definition py_join :: "string \<Rightarrow> string list \<Rightarrow> string" where
  "py_join sep xs = (case xs of [] \<Rightarrow> [] | x # ys \<Rightarrow> x @ concat (map (\<lambda>y. sep @ y) ys))"

text \<open>Truth of an optional dictionary value: absent, empty and zero are false.\<close>

definition truthy :: "'a::zero option \<Rightarrow> bool" where
  "truthy x = (case x of None \<Rightarrow> False | Some v \<Rightarrow> v \<noteq> 0)"

definition truthy_str :: "string option \<Rightarrow> bool" where
  "truthy_str x = (opt_str x \<noteq> [])"

subsection \<open>Chips and cards\<close>

text \<open>\<open>_chips_from_filters\<close>.\<close>

definition chips_from_filters :: "filters \<Rightarrow> string" where
  "chips_from_filters f =
     (let sp = '' '' @ BULLET @ '' '';
          c1 = (if truthy_str (f_brand f) then [utf8 (py_title (opt_str (f_brand f)))] else []) @
               (if truthy_str (f_model f) then [utf8 (py_title (opt_str (f_model f)))] else []) @
               (if truthy_str (f_version f) then [utf8 (py_title (opt_str (f_version f)))] else []);
          ymin = f_year_min f; ymax = f_year_max f;
          c2 = (if truthy ymin \<and> \<not> truthy ymax then [utf8 (''a'' @ CHR 0xF1 # ''o desde '') @ py_str_int (the ymin)]
                else if truthy ymax \<and> \<not> truthy ymin then [''hasta '' @ py_str_int (the ymax)]
                else if truthy ymin \<and> truthy ymax then [py_str_int (the ymin) @ EN_DASH @ py_str_int (the ymax)]
                else []);
          c3 = (if truthy (f_price_min f) then [''desde '' @ fmt_mxn (the (f_price_min f))] else []) @
               (if truthy (f_price_max f) then [''hasta '' @ fmt_mxn (the (f_price_max f))] else []) @
               (if truthy (f_km_max f) then [''hasta '' @ fmt_commas (the (f_km_max f)) @ '' km''] else []);
          chips = c1 @ c2 @ c3
      in if chips = [] then ''Todos los autos'' else py_join sp chips)"

text \<open>\<open>_format_card(idx, c)\<close>: three lines, the number printed first and in the two
  suggested commands.\<close>

definition format_card :: "nat \<Rightarrow> car \<Rightarrow> string" where
  "format_card idx c =
     (let ver = py_strip (version c);
          ver_part = (if ver \<noteq> [] then CHR '' '' # ver else []);
          title = py_strip (brand c @ CHR '' '' # model c @ ver_part @ CHR '' '' # py_str_int (year c));
          line1 = string_of_nat idx @ '') '' @ utf8 title @ '' '' @ EM_DASH @ '' '' @ fmt_mxn (price c);
          line2 = ''   '' @ fmt_km (km c) @ '' '' @ BULLET @ '' '' @ utf8 (location c) @ '' '' @ BULLET @ '' ID ''
                  @ utf8 (car_id c);
          line3 = ''   Acciones: cotiza '' @ string_of_nat idx @ '' con 40k '' @ utf8 [CHR 0xB7] @ '' detalles ''
                  @ string_of_nat idx
      in py_join [CHR 0x0A] [line1, line2, line3])"

text \<open>\<open>_format_car\<close> and \<open>_format_filters\<close>: defined in the module, called nowhere.\<close>

definition format_car :: "car \<Rightarrow> string" where
  "format_car c =
     (let ver = py_strip (version c);
          ver_part = (if ver \<noteq> [] then CHR '' '' # ver else [])
      in ''*#'' @ utf8 (car_id c @ CHR '' '' # brand c @ CHR '' '' # model c @ ver_part) @ CHR '' '' # py_str_int (year c)
         @ ''*'' @ [CHR 0x0A] @ fmt_km (km c) @ '' '' @ BULLET @ '' '' @ fmt_mxn (price c) @ '' '' @ BULLET @ '' ''
         @ utf8 (location c))"

definition format_filters :: "filters \<Rightarrow> string" where
  "format_filters f =
     (let chips =
        (if truthy_str (f_brand f) then [''marca='' @ utf8 (py_title (opt_str (f_brand f)))] else []) @
        (if truthy_str (f_model f) then [''modelo='' @ utf8 (py_title (opt_str (f_model f)))] else []) @
        (if truthy_str (f_version f) then [utf8 (''versi'' @ CHR 0xF3 # ''n='' @ py_title (opt_str (f_version f)))]
         else []) @
        (if truthy (f_year_min f) then [utf8 (''a'' @ [CHR 0xF1, CHR ''o'']) @ GE_SIGN @ py_str_int (the (f_year_min f))]
         else []) @
        (if truthy (f_year_max f) then [utf8 (''a'' @ [CHR 0xF1, CHR ''o'']) @ LE_SIGN @ py_str_int (the (f_year_max f))]
         else []) @
        (if truthy (f_price_min f) then [''precio'' @ GE_SIGN @ ''$'' @ fmt_commas (py_int (the (f_price_min f)))]
         else []) @
        (if truthy (f_price_max f) then [''precio'' @ LE_SIGN @ ''$'' @ fmt_commas (py_int (the (f_price_max f)))]
         else []) @
        (if truthy (f_km_max f) then [''km'' @ LE_SIGN @ fmt_commas (the (f_km_max f))] else [])
      in if chips \<noteq> [] then ''*Filtros:* '' @ py_join '', '' chips else ''*Filtros:* (sin filtros)'')"

subsection \<open>The reply of \<open>retrieve_cars\<close>\<close>

text \<open>The first line of every reply: the chips and the total.\<close>

definition search_header :: "filters \<Rightarrow> nat \<Rightarrow> string \<Rightarrow> string" where
  "search_header f n word =
     MAGNIFIER @ utf8 ('' B'' @ CHR 0xFA # ''squeda: '') @ chips_from_filters f @ ''   |   '' @ string_of_nat n @ word"

text \<open>The footer of a page: how many more to ask for, or that there are none.\<close>

definition page_footer :: "nat \<Rightarrow> string" where
  "page_footer remaining =
     (if 0 < remaining
      then (let sug = string_of_nat (min remaining 5)
            in utf8 (''Ver '' @ sug @ '' m'' @ CHR 0xE1 # ''s: escribe `ver '' @ sug @ '' m'' @ CHR 0xE1 # ''s`  (quedan ''
                     @ string_of_nat remaining @ '').''))
      else utf8 (''No hay m'' @ CHR 0xE1 # ''s resultados para mostrar. '' @ CHR 0xBF # ''Ajustamos la b'' @ CHR 0xFA #
                 ''squeda (precio, a'' @ CHR 0xF1 # ''o, marca/modelo)?''))"

definition render_listing :: "listing \<Rightarrow> string" where
  "render_listing l =
     (case l of
        ZeroResults f \<Rightarrow>
          search_header f 0 '' resultados'' @ [CHR 0x0A, CHR 0x0A] @
          utf8 (''No encontr'' @ CHR 0xE9 # '' autos con esos criterios.'') @
          (if truthy (f_price_max f) then '' No hay unidades por debajo de '' @ fmt_mxn (the (f_price_max f)) @ ''.''
           else []) @
          utf8 (CHR 0x0A # CHR 0xBF # ''Ajustamos presupuesto o marca/modelo?'')
      | OutOfRange f tot \<Rightarrow>
          search_header f tot '' resultados'' @ [CHR 0x0A, CHR 0x0A] @
          utf8 (''Ya no hay m'' @ CHR 0xE1 # ''s resultados. Puedes ajustar la b'' @ CHR 0xFA # ''squeda (ej. *'') @
          LE_SIGN @ ''$350,000* o *Nissan 2021*).''
      | EmptyPage f tot \<Rightarrow>
          search_header f tot '' resultados'' @ [CHR 0x0A, CHR 0x0A] @
          utf8 (''No encontr'' @ CHR 0xE9 # '' autos en esta p'' @ CHR 0xE1 # ''gina. Intenta con otros filtros.'')
      | Page f tot cards remaining \<Rightarrow>
          py_join [CHR 0x0A]
            ([search_header f tot ('' resultado'' @ (if tot \<noteq> 1 then ''s'' else [])) @ [CHR 0x0A, CHR 0x0A] @
                ''*Te recomiendo:*'', []] @
             concat (map (\<lambda>(i, c). [format_card i c, []]) cards) @
             [page_footer remaining,
              utf8 (''Para cotizar: `cotiza <n'' @ CHR 0xFA # ''mero de opci'' @ CHR 0xF3 #
                    ''n> con 40 mil pesos` o `cotiza <ID del auto> con 40 mil pesos`.'')]))"

section \<open>Lemmas\<close>

lemma string_of_nat_snoc:
  "10 \<le> n \<Longrightarrow> string_of_nat n = string_of_nat (n div 10) @ [char_of (48 + n mod 10)]"
  by (subst string_of_nat.simps) simp

lemma string_of_nat_small: "n < 10 \<Longrightarrow> string_of_nat n = [char_of (48 + n)]"
  by (subst string_of_nat.simps) simp

lemma of_char_digit: "d < 10 \<Longrightarrow> (of_char (char_of (48 + d) :: char) :: nat) = 48 + d"
  by (simp add: of_char_of)

lemma is_digit_char_of: "(d::nat) < 10 \<Longrightarrow> is_digit (char_of (48 + d))"
  by (simp add: is_digit_def of_char_digit)

lemma digits_nat_snoc: "digits_nat (s @ [c]) = 10 * digits_nat s + (of_char c - 48)"
  by (simp add: digits_nat_def)

lemma string_of_nat_digits: "list_all is_digit (string_of_nat n) \<and> string_of_nat n \<noteq> []"
proof (induction n rule: string_of_nat.induct)
  case (1 n)
  then show ?case
    by (cases "n < 10") (simp_all add: string_of_nat_small string_of_nat_snoc is_digit_char_of)
qed

lemma digits_nat_string_of_nat: "digits_nat (string_of_nat n) = n"
proof (induction n rule: string_of_nat.induct)
  case (1 n)
  then show ?case
    by (cases "n < 10") (simp_all add: string_of_nat_small string_of_nat_snoc digits_nat_snoc of_char_digit
        digits_nat_def)
qed

lemma length_string_of_nat_le: "0 < k \<Longrightarrow> length (string_of_nat n) \<le> k \<longleftrightarrow> n < 10 ^ k"
proof (induction n arbitrary: k rule: string_of_nat.induct)
  case (1 n)
  show ?case
  proof (cases "n < 10")
    case True
    then show ?thesis using "1.prems" by (simp add: string_of_nat_small order_less_le_trans[of n 10]
        one_less_power self_le_power)
  next
    case False
    then have IH: "length (string_of_nat (n div 10)) \<le> k - 1 \<longleftrightarrow> n div 10 < 10 ^ (k - 1)" if "1 < k" for k
      using "1.IH" that by simp
    show ?thesis
    proof (cases "k = 1")
      case True
      then show ?thesis using False string_of_nat_digits [of "n div 10"] by (simp add: string_of_nat_snoc)
    next
      case k: False
      with "1.prems" have "1 < k" by simp
      moreover have "n div 10 < 10 ^ (k - 1) \<longleftrightarrow> n < 10 ^ k"
        using \<open>1 < k\<close> by (cases k) (auto simp: less_mult_imp_div_less div_less_iff_less_mult mult.commute)
      moreover have "length (string_of_nat n) \<le> k \<longleftrightarrow> length (string_of_nat (n div 10)) \<le> k - 1"
        using False \<open>1 < k\<close> by (simp add: string_of_nat_snoc) arith
      ultimately show ?thesis using IH [OF \<open>1 < k\<close>] by simp
    qed
  qed
qed

lemma py_remove_group3: "py_remove (CHR '','') (group3 s) = py_remove (CHR '','') s"
proof (induction s rule: group3.induct)
  case (1 s)
  show ?case
  proof (cases "length s \<le> 3")
    case False
    then have "py_remove (CHR '','') (group3 s) =
        py_remove (CHR '','') (take (length s - 3) s) @ py_remove (CHR '','') (drop (length s - 3) s)"
      using "1.IH" by (subst group3.simps) (simp add: py_remove_def)
    also have "\<dots> = py_remove (CHR '','') s"
      by (simp add: py_remove_def flip: filter_append)
    finally show ?thesis .
  qed (subst group3.simps, simp)
qed

lemma set_group3: "set (group3 s) \<subseteq> insert (CHR '','') (set s)"
proof (induction s rule: group3.induct)
  case (1 s)
  then show ?case
    by (subst group3.simps) (auto dest: in_set_takeD in_set_dropD)
qed

lemma group3_hd_last: "s \<noteq> [] \<Longrightarrow> group3 s \<noteq> [] \<and> hd (group3 s) = hd s \<and> last (group3 s) = last s"
proof (induction s rule: group3.induct)
  case (1 s)
  show ?case
  proof (cases "length s \<le> 3")
    case False
    then have ne: "take (length s - 3) s \<noteq> []" "drop (length s - 3) s \<noteq> []" by auto
    with "1.IH" False have "group3 (take (length s - 3) s) \<noteq> [] \<and>
        hd (group3 (take (length s - 3) s)) = hd (take (length s - 3) s)" by blast
    moreover have "group3 s = group3 (take (length s - 3) s) @ CHR '','' # drop (length s - 3) s"
      using False by (subst group3.simps) simp
    ultimately show ?thesis using ne by (simp add: hd_append)
  qed (simp add: group3.simps [of s] "1.prems")
qed

lemma string_of_nat_is_digits: "is_digits (string_of_nat n)"
  using string_of_nat_digits by (simp add: is_digits_def)

lemma string_of_nat_last: "is_digit (last (string_of_nat n))"
  using string_of_nat_digits [of n] by (simp add: list_all_iff)

lemma string_of_nat_hd: "is_digit (hd (string_of_nat n))"
  using string_of_nat_digits [of n] by (simp add: list_all_iff)

lemma set_py_str_int: "set (py_str_int i) \<subseteq> insert (CHR ''-'') {c. is_digit c}"
  using string_of_nat_digits by (auto simp: py_str_int_def list_all_iff)

text \<open>\<open>_parse_money\<close> of a text that is an integer once commas, dollar signs and spaces
  are taken out is that integer.\<close>

lemma parse_money_int:
  assumes "py_remove (CHR '' '') (py_remove (CHR ''$'') (py_remove (CHR '','') (norm_txt s))) = py_str_int i"
  shows "parse_money s = of_int i"
proof -
  let ?t = "py_str_int i" and ?ds = "string_of_nat (nat \<bar>i\<bar>)"
  have t: "?t = (if i < 0 then CHR ''-'' # ?ds else ?ds)" by (simp add: py_str_int_def)
  have ne: "?ds \<noteq> []" using string_of_nat_digits by blast
  have lst: "is_digit (last ?t)" using string_of_nat_last [of "nat \<bar>i\<bar>"] ne by (cases "i < 0") (simp_all add: t)
  have hd: "\<not> py_isspace (hd ?t)"
    using string_of_nat_hd [of "nat \<bar>i\<bar>"] is_digit_char_ne by (auto simp: t py_isspace_def)
  have st: "py_strip ?t = ?t"
    using hd is_digit_char_ne [OF lst] by (intro py_strip_id) simp
  have nd: "\<not> is_digit (CHR ''k'')" "\<not> is_digit (CHR ''l'')" by (simp_all add: is_digit_def)
  have nk: "\<not> ends_with ?t ''k''" "\<not> ends_with ?t ''mil''"
    using lst nd ends_with_last by fastforce+
  have rm: "py_remove c ?t = ?t" if "c \<noteq> CHR ''-''" "\<not> is_digit c" for c
    using set_py_str_int [of i] that by (auto simp: py_remove_def filter_id_conv)
  have "py_float ?t = Some (of_int i)"
  proof (cases "i < 0")
    case True
    have "py_strip (CHR ''-'' # ?ds) = CHR ''-'' # ?ds" using st True by (simp add: t)
    with True show ?thesis
      by (simp add: py_float_def py_str_int_def Let_def parse_unsigned_float_digits string_of_nat_is_digits
          digits_nat_string_of_nat)
  next
    case False
    then show ?thesis
      by (simp add: t py_float_digits string_of_nat_is_digits digits_nat_string_of_nat)
  qed
  moreover have "\<not> is_digit (CHR '','')" "\<not> is_digit (CHR ''$'')" by (simp_all add: is_digit_def)
  ultimately show ?thesis
    using assms by (simp add: parse_money_def st nk rm parse_numeric_def)
qed

lemma set_fmt_commas: "set (fmt_commas k) \<subseteq> {CHR ''-'', CHR '',''} \<union> {c. is_digit c}"
  using set_group3 [of "string_of_nat (nat \<bar>k\<bar>)"] string_of_nat_digits [of "nat \<bar>k\<bar>"]
  by (auto simp: fmt_commas_def list_all_iff)

lemma fmt_commas_last: "fmt_commas k \<noteq> [] \<and> is_digit (last (fmt_commas k))"
  using group3_hd_last [of "string_of_nat (nat \<bar>k\<bar>)"] string_of_nat_digits [of "nat \<bar>k\<bar>"] string_of_nat_last
  by (auto simp: fmt_commas_def)

lemma py_remove_py_str_int: "c \<noteq> CHR ''-'' \<Longrightarrow> \<not> is_digit c \<Longrightarrow> py_remove c (py_str_int i) = py_str_int i"
  using set_py_str_int [of i] by (intro py_remove_id) auto

lemma py_remove_comma_fmt_commas: "py_remove (CHR '','') (fmt_commas k) = py_str_int k"
proof -
  have nd: "\<not> is_digit (CHR '','')" by (simp add: is_digit_def)
  have "py_remove (CHR '','') (string_of_nat n) = string_of_nat n" for n
    using string_of_nat_digits [of n] nd by (intro py_remove_id) (auto simp: list_all_iff)
  then show ?thesis by (simp add: fmt_commas_def py_str_int_def py_remove_group3 py_remove_Cons)
qed

lemma norm_txt_fmt_mxn: "norm_txt (fmt_mxn x) = fmt_mxn x"
proof (rule norm_txt_fixpoint)
  have chars: "\<forall>c \<in> set (fmt_mxn x). c \<in> {CHR ''$'', CHR ''-'', CHR '',''} \<or> is_digit c"
    using set_fmt_commas by (auto simp: fmt_mxn_def)
  have ok: "is_ascii c \<and> \<not> is_upper_char c \<and> \<not> py_isspace c" if "c \<in> {CHR ''$'', CHR ''-'', CHR '',''} \<or> is_digit c" for c
    using that by (auto simp: is_ascii_def is_upper_char_def py_isspace_def is_digit_def Let_def)
  have "CHR '' '' \<notin> set (fmt_mxn x)" using chars ok by force
  then have "\<not> has_sub ''  '' (fmt_mxn x)"
    by (auto simp: has_sub_sublist dest: set_mono_sublist)
  moreover have "last (fmt_mxn x) \<noteq> CHR '' ''"
    using fmt_commas_last [of "py_int x"] ok by (force simp: fmt_mxn_def)
  ultimately show "is_normalized (fmt_mxn x)"
    using chars ok by (auto simp: is_normalized_def fmt_mxn_def)
qed

lemma sublist_py_join: "x \<in> set xs \<Longrightarrow> sublist x (py_join sep xs)"
proof (cases xs)
  case (Cons y ys)
  assume "x \<in> set xs"
  then consider "x = y" | "x \<in> set ys" using Cons by auto
  then show ?thesis
  proof cases
    case 1
    then show ?thesis using Cons by (simp add: py_join_def)
  next
    case 2
    then have "sublist x (concat (map (\<lambda>z. sep @ z) ys))"
    proof (induction ys)
      case (Cons a ys)
      then consider "x = a" | "x \<in> set ys" by auto
      then show ?case
      proof cases
        case 1
        then show ?thesis by (simp add: sublist_appendI)
      next
        case 2
        have "sublist x ((sep @ a) @ concat (map (\<lambda>z. sep @ z) ys))"
          by (rule sublist_order.order_trans [OF Cons.IH [OF 2] sublist_append_leftI])
        then show ?thesis by simp
      qed
    qed simp
    then show ?thesis using Cons
      by (simp add: py_join_def sublist_order.order_trans [OF _ sublist_append_leftI])
  qed
qed simp

lemma format_card_quote_command: "sublist (''cotiza '' @ string_of_nat i @ '' con 40k'') (format_card i c)"
proof -
  let ?cmd = "''cotiza '' @ string_of_nat i @ '' con 40k''"
  let ?l3 = "''   Acciones: cotiza '' @ string_of_nat i @ '' con 40k '' @ utf8 [CHR 0xB7] @ '' detalles ''
                  @ string_of_nat i"
  have "?l3 = ''   Acciones: '' @ ?cmd @ ('' '' @ utf8 [CHR 0xB7] @ '' detalles '' @ string_of_nat i)" by simp
  then have "sublist ?cmd ?l3" by (simp only: sublist_appendI)
  moreover have "sublist ?l3 (format_card i c)"
    unfolding format_card_def Let_def by (rule sublist_py_join) simp
  ultimately show ?thesis by (rule sublist_order.order_trans)
qed

section \<open>Properties\<close>

text \<open>C22: Round trip of the amounts the bot prints: \<open>_parse_money\<close> reads the text
  \<open>_fmt_mxn(x)\<close> back as the integer part \<open>int(x)\<close> that was printed, for every
  amount, negative ones included.\<close>

theorem parse_money_fmt_mxn: "parse_money (fmt_mxn x) = of_int (py_int x)"
proof (rule parse_money_int)
  have "py_remove (CHR '','') (fmt_mxn x) = CHR ''$'' # py_str_int (py_int x)"
    using py_remove_comma_fmt_commas [of "py_int x"] by (simp add: fmt_mxn_def py_remove_Cons)
  moreover have "\<not> is_digit (CHR ''$'')" "\<not> is_digit (CHR '' '')" by (simp_all add: is_digit_def)
  ultimately show "py_remove (CHR '' '') (py_remove (CHR ''$'') (py_remove (CHR '','') (norm_txt (fmt_mxn x)))) =
      py_str_int (py_int x)"
    by (simp add: norm_txt_fmt_mxn py_remove_py_str_int py_remove_Cons)
qed

text \<open>The thousands separator inserts one comma per full group of three digits
  left of the last: a string of n digits becomes n + (n - 1) div 3 characters long.\<close>

theorem length_group3: "length (group3 s) = length s + (length s - 1) div 3"
proof (induction s rule: group3.induct)
  case (1 s)
  show ?case
  proof (cases "length s \<le> 3")
    case True
    then show ?thesis by (subst group3.simps) (simp add: less_Suc_eq_le)
  next
    case False
    with "1.IH" show ?thesis by (subst group3.simps) simp
  qed
qed

end
