(* ===== verification/Prefs.thy ===== *)
theory Prefs
  imports Intent
begin

text \<open>
  Preference extraction of \<open>src/app/nlp/normalize.py\<close>, the helpers the recommender of
  \<open>src/app/reco/catalog.py\<close> calls: \<open>parse_money_token\<close> with \<open>_apply_multiplier\<close>,
  \<open>parse_price_hint\<close>, \<open>fuzzy_pick\<close> over RapidFuzz (the scorers of \<open>Catalog\<close>, or
  the substring fallback when RapidFuzz is missing), \<open>canonicalize_brand\<close>,
  \<open>extract_preferences\<close> and \<open>normalize_catalog_df\<close>. The patterns of the module run
  on the matcher of \<open>Regex\<close>; none of them is compiled with flags.
\<close>

section \<open>Definitions\<close>

subsection \<open>Patterns\<close>

text \<open>\<open>_NUM_TOKEN = (?:\d{1,3}(?:[.,]\d{3})+|\d+(?:[.,]\d+)?)\<close>\<close>

definition NUM_TOKEN :: rx where
  "NUM_TOKEN =
     Alt (Seq (rep 1 3 dg) (plus (Seq (one_of ''.,'') (rep 3 3 dg))))
         (Seq (plus dg) (opt (Seq (one_of ''.,'') (plus dg))))"

text \<open>\<open>_MULT_TOKEN = (k|mil|mil pesos|m|millones)?\<close>: an optional capturing group, whose
  number depends on where the token is spliced in.\<close>

definition MULT_TOKEN :: "nat \<Rightarrow> rx" where
  "MULT_TOKEN n = opt (Grp n (alts [lit ''k'', lit ''mil'', lit ''mil pesos'', lit ''m'', lit ''millones'']))"

text \<open>\<open>(\d)\s+([km])\b\<close>, whose matches are replaced by \<open>\1\2\<close>.\<close>

definition JOIN_KM_RE :: rx where
  "JOIN_KM_RE = seqs [Grp 1 dg, plus sp, Grp 2 (one_of ''km''), WordB]"

definition MONEY_TOKEN_RE :: rx where
  "MONEY_TOKEN_RE = seqs [Bol, Grp 1 NUM_TOKEN, Star sp, MULT_TOKEN 2, Eol]"

definition THOUSANDS_RE :: rx where
  "THOUSANDS_RE = Seq (rep 1 3 dg) (plus (Seq (chr_rx (CHR ''.'')) (rep 3 3 dg)))"

text \<open>An amount with its multiplier, as group \<open>n\<close>, the multiplier being group \<open>n + 1\<close>.\<close>

definition amount_grp :: "nat \<Rightarrow> rx" where
  "amount_grp n = Grp n (seqs [NUM_TOKEN, Star sp, MULT_TOKEN (Suc n)])"

definition RANGE_HINT_RE :: rx where
  "RANGE_HINT_RE = seqs [lit ''entre'', plus sp, amount_grp 1, plus sp, lit ''y'', plus sp, amount_grp 3]"

definition MAX_HINT_RE :: rx where
  "MAX_HINT_RE =
     seqs [Grp 1 (alts [lit ''menos de'', lit ''hasta'',
                        Seq (lit ''tope'') (opt (seqs [lit '' m'', one_of [CHR ''a'', CHR 0xE1], lit ''ximo'']))]),
           plus sp, amount_grp 2]"

definition MIN_HINT_RE :: rx where
  "MIN_HINT_RE =
     seqs [Grp 1 (alts [seqs [lit ''m'', one_of [CHR ''a'', CHR 0xE1], lit ''s de''], lit ''desde'', lit ''mayor a'']),
           plus sp, amount_grp 2]"

definition BARE_AMOUNT_RE :: rx where
  "BARE_AMOUNT_RE = amount_grp 1"

text \<open>\<open>\b(19[9]\d|20[0-4]\d)\b\<close>: a year from 1990 to 2049.\<close>

definition PREF_YEAR_RE :: rx where
  "PREF_YEAR_RE =
     seqs [WordB, Grp 1 (alts [seqs [lit ''19'', chr_rx (CHR ''9''), dg], seqs [lit ''20'', one_of ''01234'', dg]]),
           WordB]"

subsection \<open>Money\<close>

text \<open>\<open>s.count(c)\<close>.\<close>

definition py_count :: "char \<Rightarrow> string \<Rightarrow> nat" where
  "py_count c s = length (filter (\<lambda>x. x = c) s)"

text \<open>\<open>_apply_multiplier\<close>: no multiplier, or one not in the two sets, leaves the value.\<close>

definition apply_multiplier :: "real \<Rightarrow> string option \<Rightarrow> real" where
  "apply_multiplier v mlt =
     (if opt_str mlt = [] then v
      else let m = py_lower (py_strip (opt_str mlt))
           in if m \<in> {''k'', ''mil'', ''mil pesos''} then v * 1000
              else if m \<in> {''m'', ''millones''} then v * 1000000
              else v)"

text \<open>\<open>parse_money_token\<close>: the argument may be \<open>None\<close> (an optional group).\<close>

definition parse_money_token :: "string option \<Rightarrow> real option" where
  "parse_money_token token =
     (if opt_str token = [] then None
      else
        let t0 = py_strip (py_remove (CHR ''$'') (norm_txt (opt_str token)));
            t = re_sub JOIN_KM_RE (\<lambda>g. opt_str (group t0 g 1) @ opt_str (group t0 g 2)) t0
        in case re_search MONEY_TOKEN_RE t of
             None \<Rightarrow> None
           | Some (_, _, g) \<Rightarrow>
               let raw1 = py_remove (CHR '','') (opt_str (group t g 1));
                   raw2 = (if 1 < py_count (CHR ''.'') raw1 \<and> py_count (CHR '','') raw1 = 0
                           then py_remove (CHR ''.'') raw1 else raw1);
                   raw3 = (if re_fullmatch THOUSANDS_RE raw2 \<noteq> None then py_remove (CHR ''.'') raw2 else raw2)
               in map_option (\<lambda>v. apply_multiplier v (group t g 2)) (py_float raw3))"

text \<open>
  \<open>parse_price_hint\<close>: the first rule that yields a value wins. The range rule passes
  \<open>m.group(1)\<close> and \<open>m.group(2)\<close> to \<open>parse_money_token\<close>; group 2 of the range
  pattern is the multiplier inside the first amount (\<open>amount_grp 1\<close>), the second amount
  being group 3.
\<close>

definition parse_price_hint :: "string \<Rightarrow> real option \<times> real option" where
  "parse_price_hint text =
     (if text = [] then (None, None)
      else
        let t = norm_txt text
        in case (case re_search RANGE_HINT_RE t of
                   None \<Rightarrow> None
                 | Some (_, _, g) \<Rightarrow>
                     (case (parse_money_token (group t g 1), parse_money_token (group t g 2)) of
                        (Some v1, Some v2) \<Rightarrow> Some (Some (min v1 v2), Some (max v1 v2))
                      | _ \<Rightarrow> None)) of
             Some r \<Rightarrow> r
           | None \<Rightarrow>
           (case (case re_search MAX_HINT_RE t of
                    None \<Rightarrow> None
                  | Some (_, _, g) \<Rightarrow> map_option (\<lambda>v. (None, Some v)) (parse_money_token (group t g 2))) of
              Some r \<Rightarrow> r
            | None \<Rightarrow>
            (case (case re_search MIN_HINT_RE t of
                     None \<Rightarrow> None
                   | Some (_, _, g) \<Rightarrow> map_option (\<lambda>v. (Some v, None)) (parse_money_token (group t g 2))) of
               Some r \<Rightarrow> r
             | None \<Rightarrow>
             (case (case re_search BARE_AMOUNT_RE t of
                      None \<Rightarrow> None
                    | Some (_, _, g) \<Rightarrow> map_option (\<lambda>v. (None, Some v)) (parse_money_token (group t g 1))) of
                Some r \<Rightarrow> r
              | None \<Rightarrow> (None, None)))))"

subsection \<open>Fuzzy matching and brand canonicalization\<close>

text \<open>\<open>process.extractOne\<close> returning the index of the choice: the first one of
  highest score, if that score reaches the cutoff.\<close>

definition extract_one_idx :: "(string \<Rightarrow> string \<Rightarrow> real) \<Rightarrow> string \<Rightarrow> string list \<Rightarrow> real \<Rightarrow> nat option" where
  "extract_one_idx scorer q choices cutoff =
     fold (\<lambda>(k, c) best. if cutoff \<le> scorer q c \<and> (case best of None \<Rightarrow> True | Some b \<Rightarrow> scorer q (choices ! b) < scorer q c)
                         then Some k else best)
          (zip [0..<length choices] choices) None"

definition rf_extract_one :: "(string \<Rightarrow> string \<Rightarrow> real) \<Rightarrow> string \<Rightarrow> string list \<Rightarrow> real \<Rightarrow> nat option" where
  "rf_extract_one scorer query_norm candidates cutoff =
     extract_one_idx scorer query_norm (map normalize_text candidates) cutoff"

text \<open>\<open>fuzzy_pick\<close>: \<open>rf\<close> is \<open>None\<close> when RapidFuzz cannot be imported, and then the
  first candidate containing the normalized query is taken.\<close>

definition fuzzy_pick :: "scorers option \<Rightarrow> string option \<Rightarrow> string list \<Rightarrow> real \<Rightarrow> string option" where
  "fuzzy_pick rf query candidates cutoff =
     (if opt_str query = [] \<or> candidates = [] then None
      else
        let qn = normalize_text (opt_str query)
        in case rf of
             Some sc \<Rightarrow> map_option (\<lambda>k. candidates ! k) (rf_extract_one (wratio sc) qn candidates cutoff)
           | None \<Rightarrow> find (\<lambda>c. has_sub qn (normalize_text c)) candidates)"

text \<open>\<open>[t for t in re.split(r"[^a-z0-9]+", n) if t and t not in STOPWORDS]\<close>\<close>

definition is_az09 :: "char \<Rightarrow> bool" where
  "is_az09 c \<longleftrightarrow> (let n = (of_char c :: nat) in (97 \<le> n \<and> n \<le> 122) \<or> (48 \<le> n \<and> n \<le> 57))"

definition pref_tokens :: "string \<Rightarrow> string list" where
  "pref_tokens n = filter (\<lambda>t. t \<noteq> [] \<and> t \<notin> set STOPWORDS) (re_split_class (\<lambda>c. \<not> is_az09 c) n)"

text \<open>\<open>canonicalize_brand\<close>: an alias of a token that names a brand of the list, then a
  fuzzy match of each token, then of the whole text, at cutoff 70. \<open>norm2orig\<close> is a
  dictionary built left to right, so the last brand of a normal form wins.\<close>

definition canonicalize_brand :: "scorers option \<Rightarrow> string option \<Rightarrow> string list \<Rightarrow> string option" where
  "canonicalize_brand rf text_or_brand brand_list =
     (if opt_str text_or_brand = [] \<or> brand_list = [] then None
      else
        let norm2orig = map_of (rev (map (\<lambda>b. (normalize_text b, b)) brand_list));
            tokens = pref_tokens (norm_txt (opt_str text_or_brand));
            alias_hit = (\<lambda>tok. case map_of BRAND_ALIAS tok of
                                 None \<Rightarrow> None
                               | Some a \<Rightarrow> if a = [] then None
                                           else (case norm2orig (normalize_text a) of
                                                   Some orig \<Rightarrow> if orig \<noteq> [] then Some orig else None
                                                 | None \<Rightarrow> None))
        in case find (\<lambda>tok. alias_hit tok \<noteq> None) tokens of
             Some tok \<Rightarrow> alias_hit tok
           | None \<Rightarrow>
             (case find (\<lambda>tok. opt_str (fuzzy_pick rf (Some tok) brand_list 70) \<noteq> []) tokens of
                Some tok \<Rightarrow> fuzzy_pick rf (Some tok) brand_list 70
              | None \<Rightarrow>
                (let m = fuzzy_pick rf text_or_brand brand_list 70 in if opt_str m \<noteq> [] then m else None)))"

subsection \<open>Preferences\<close>

record prefs =
  p_brand :: "string option"
  p_brand_canonical :: "string option"
  p_model :: "string option"
  p_model_canonical :: "string option"
  p_min_price :: "real option"
  p_max_price :: "real option"
  p_year :: "int option"

text \<open>The model of \<open>extract_preferences\<close>: an alias of a token that is the normal
  form of a model of the brand, else a fuzzy match of the whole text at cutoff 72.\<close>

definition pref_model :: "scorers option \<Rightarrow> string \<Rightarrow> string list \<Rightarrow> string option" where
  "pref_model rf t models =
     (let tokens = pref_tokens (norm_txt t);
          norm_models = map norm_txt models;
          hit = (\<lambda>tok. case map_of MODEL_ALIAS tok of
                          None \<Rightarrow> None
                        | Some a \<Rightarrow> if a \<noteq> [] \<and> a \<in> set norm_models then find (\<lambda>m. norm_txt m = a) models else None)
      in case find (\<lambda>tok. opt_str (hit tok) \<noteq> []) tokens of
           Some tok \<Rightarrow> hit tok
         | None \<Rightarrow> fuzzy_pick rf (Some t) models 72)"

text \<open>\<open>extract_preferences\<close>: the brand list and the models by brand (a dictionary,
  here an association list) may be empty, which the code tests as falsy.\<close>

definition extract_preferences ::
  "scorers option \<Rightarrow> string \<Rightarrow> string list \<Rightarrow> (string \<times> string list) list \<Rightarrow> prefs" where
  "extract_preferences rf text brand_list model_list_by_brand =
     (let t = text;
          brand_final = (if brand_list \<noteq> [] then canonicalize_brand rf (Some t) brand_list else None);
          model_final =
            (if model_list_by_brand \<noteq> [] \<and> opt_str brand_final \<noteq> [] then
               (case map_of model_list_by_brand (the brand_final) of
                  Some models \<Rightarrow> if models \<noteq> [] then pref_model rf t models else None
                | None \<Rightarrow> None)
             else None);
          model_out = (if opt_str model_final \<noteq> [] then model_final else None);
          (min_p, max_p) = parse_price_hint t;
          yr = (case re_search PREF_YEAR_RE t of
                  None \<Rightarrow> None
                | Some (_, _, g) \<Rightarrow> Some (int (digits_nat (opt_str (group t g 1)))))
      in \<lparr>p_brand = None, p_brand_canonical = brand_final, p_model = model_out, p_model_canonical = model_out,
          p_min_price = min_p, p_max_price = max_p, p_year = yr\<rparr>)"

text \<open>\<open>normalize_catalog_df\<close>: the two columns it adds, row by row.\<close>

definition normalize_catalog_df :: "car list \<Rightarrow> (string \<times> string) list" where
  "normalize_catalog_df cat = map (\<lambda>c. (normalize_text (brand c), normalize_text (model c))) cat"


section \<open>Lemmas\<close>

lemma is_digit_py_lower_char: "is_digit (py_lower_char c) \<Longrightarrow> is_digit c"
  by (auto simp: py_lower_char_def is_digit_def is_upper_char_def Let_def of_char_of split: if_splits)

lemma norm_txt_no_digit:
  "\<forall>c \<in> set s. is_ascii c \<and> \<not> is_digit c \<Longrightarrow> c \<in> set (norm_txt s) \<Longrightarrow> \<not> is_digit c"
proof -
  assume s: "\<forall>c \<in> set s. is_ascii c \<and> \<not> is_digit c" and c: "c \<in> set (norm_txt s)"
  have u: "unidecode s = s" using s by (simp add: unidecode_id)
  from c have "c = CHR '' '' \<or> c \<in> set (py_lower (py_strip s))"
    using collapse_run_set by (fastforce simp: norm_txt_def collapse_ws_def u)
  then show ?thesis
  proof
    assume "c \<in> set (py_lower (py_strip s))"
    then obtain d where "d \<in> set s" "c = py_lower_char d"
      using set_py_strip by (auto simp: py_lower_def)
    with s show ?thesis using is_digit_py_lower_char by blast
  qed (simp add: is_digit_def)
qed

lemma in_set_tl: "x \<in> set (tl xs) \<Longrightarrow> x \<in> set xs"
  by (cases xs) auto

lemma py_float_has_digit: "py_float s = Some v \<Longrightarrow> \<exists>c \<in> set s. is_digit c"
proof -
  have man: "\<exists>c \<in> set m. is_digit c" if "parse_mantissa m = Some x" for m x
  proof -
    let ?a = "takeWhile (\<lambda>c. c \<noteq> CHR ''.'') m" and ?b = "tl (dropWhile (\<lambda>c. c \<noteq> CHR ''.'') m)"
    have sub: "set ?a \<subseteq> set m" "set ?b \<subseteq> set m"
      by (auto dest: set_takeWhileD in_set_tl set_dropWhileD)
    have "is_digits ?a \<or> ((?a \<noteq> [] \<or> ?b \<noteq> []) \<and> list_all is_digit ?a \<and> list_all is_digit ?b)"
      using that unfolding parse_mantissa_def Let_def by (simp split: if_splits)
    then have "(\<exists>c \<in> set ?a. is_digit c) \<or> (\<exists>c \<in> set ?b. is_digit c)"
      by (auto simp: is_digits_def list_all_iff neq_Nil_conv)
    with sub show ?thesis by blast
  qed
  have uf: "\<exists>c \<in> set m. is_digit c" if pu: "parse_unsigned_float m = Some x" for m x
  proof -
    let ?m = "takeWhile (\<lambda>c. c \<noteq> CHR ''e'' \<and> c \<noteq> CHR ''E'') m"
    have "set ?m \<subseteq> set m" by (auto dest: set_takeWhileD)
    moreover obtain y where "parse_mantissa ?m = Some y"
      using pu unfolding parse_unsigned_float_def Let_def by (auto split: if_splits option.splits)
    ultimately show ?thesis using man by blast
  qed
  assume f: "py_float s = Some v"
  have "\<exists>c \<in> set (py_strip s). is_digit c"
  proof (cases "py_strip s")
    case (Cons d r)
    with f obtain x where "parse_unsigned_float r = Some x \<or> parse_unsigned_float (py_strip s) = Some x"
      unfolding py_float_def Let_def by (auto split: if_splits)
    then show ?thesis using uf Cons by fastforce
  qed (use f in \<open>simp add: py_float_def\<close>)
  then show ?thesis using set_py_strip by blast
qed

lemma set_opt_str_group: "set (opt_str (group w g n)) \<subseteq> set w"
  using set_group [of w g n] by (cases "group w g n") (auto simp: opt_str_def)

lemma parse_money_token_no_digit:
  assumes s: "\<forall>c \<in> set s. is_ascii c \<and> \<not> is_digit c"
  shows "parse_money_token (Some s) = None"
proof -
  let ?u = "py_strip (py_remove (CHR ''$'') (norm_txt s))"
  let ?v = "re_sub JOIN_KM_RE (\<lambda>g. opt_str (group ?u g 1) @ opt_str (group ?u g 2)) ?u"
  have "set ?u \<subseteq> set (norm_txt s)" using set_py_strip by (fastforce simp: py_remove_def)
  then have nd0: "\<not> is_digit c" if "c \<in> set ?u" for c using that norm_txt_no_digit [OF s] by blast
  have "set ?v \<subseteq> set ?u"
    by (rule set_re_sub) (simp add: set_opt_str_group)
  then have nd: "\<not> is_digit c" if "c \<in> set ?v" for c using that nd0 by blast
  have none: "py_float r = None" if "set r \<subseteq> set ?v" for r
    using py_float_has_digit that nd by (meson not_None_eq subsetD)
  have rm: "set (py_remove c r) \<subseteq> set r" for c r by (auto simp: py_remove_def)
  show ?thesis
  proof (cases "re_search MONEY_TOKEN_RE ?v")
    case (Some m)
    then obtain i j g where m: "re_search MONEY_TOKEN_RE ?v = Some (i, j, g)" by (cases m) auto
    define r1 where "r1 = py_remove (CHR '','') (opt_str (group ?v g 1))"
    define r2 where "r2 = (if 1 < py_count (CHR ''.'') r1 \<and> py_count (CHR '','') r1 = 0
                           then py_remove (CHR ''.'') r1 else r1)"
    define r3 where "r3 = (if re_fullmatch THOUSANDS_RE r2 \<noteq> None then py_remove (CHR ''.'') r2 else r2)"
    have "set r1 \<subseteq> set ?v" using rm set_opt_str_group unfolding r1_def by blast
    then have "set r2 \<subseteq> set ?v" using rm unfolding r2_def by (auto dest: subsetD)
    then have "set r3 \<subseteq> set ?v" using rm unfolding r3_def by (auto dest: subsetD)
    then have "py_float r3 = None" by (rule none)
    moreover have "parse_money_token (Some s) =
        map_option (\<lambda>v. apply_multiplier v (group ?v g 2)) (py_float r3)" if ne: "s \<noteq> []"
    proof -
      have o: "opt_str (Some s) = s" by (simp add: opt_str_def)
      show ?thesis using ne m unfolding parse_money_token_def Let_def r3_def r2_def r1_def o
        by (simp only: if_False option.case prod.case simp_thms)
    qed
    ultimately show ?thesis by (cases "s = []") (simp_all add: parse_money_token_def opt_str_def)
  qed (simp add: parse_money_token_def Let_def opt_str_def)
qed
lemma grp_chars_range_2: "grp_chars RANGE_HINT_RE 2 c \<Longrightarrow> c \<in> set ''kmil peson''"
  by (auto simp: RANGE_HINT_RE_def amount_grp_def NUM_TOKEN_def MULT_TOKEN_def seqs_def alts_def
        lit_def opt_def plus_def rep_def chr_rx_def one_of_def dg_def sp_def fail_rx_def eval_nat_numeral)
lemma range_multiplier_no_amount:
  assumes m: "re_search RANGE_HINT_RE t = Some (i, j, g)"
  shows "parse_money_token (group t g 2) = None"
proof (cases "group t g 2")
  case (Some s)
  have "\<forall>c \<in> set s. is_ascii c \<and> \<not> is_digit c"
  proof
    fix c assume "c \<in> set s"
    then have "c \<in> set ''kmil peson''"
      using group_chars_in [OF m [unfolded re_search_def] Some] grp_chars_range_2 by blast
    then show "is_ascii c \<and> \<not> is_digit c" by (auto simp: is_ascii_def is_digit_def)
  qed
  with Some show ?thesis by (simp add: parse_money_token_no_digit)
qed (simp add: parse_money_token_def opt_str_def)
lemma range_rule_none:
  "(case re_search RANGE_HINT_RE t of
      None \<Rightarrow> None
    | Some (_, _, g) \<Rightarrow>
        (case (parse_money_token (group t g 1), parse_money_token (group t g 2)) of
           (Some v1, Some v2) \<Rightarrow> Some (Some (min v1 v2), Some (max v1 v2))
         | _ \<Rightarrow> None)) = None"
  by (auto split: option.split simp: range_multiplier_no_amount)

lemma fold_best_lt:
  "fold (\<lambda>(k, c) best. if P k c best then Some k else best) xs b = Some k \<Longrightarrow>
   (\<forall>p \<in> set xs. fst p < n) \<Longrightarrow> (\<forall>k'. b = Some k' \<longrightarrow> k' < n) \<Longrightarrow> k < n"
proof (induction xs arbitrary: b)
  case (Cons p xs)
  then show ?case by (cases p) (simp split: if_splits)
qed simp

lemma extract_one_idx_lt: "extract_one_idx sc q cs ct = Some k \<Longrightarrow> k < length cs"
  unfolding extract_one_idx_def by (erule fold_best_lt) (auto simp: set_zip)

lemma fuzzy_pick_mem: "fuzzy_pick rf q cs ct = Some m \<Longrightarrow> m \<in> set cs"
  by (auto simp: fuzzy_pick_def rf_extract_one_def Let_def split: if_splits option.splits
      dest!: extract_one_idx_lt find_Some_mem)

lemma canonicalize_brand_mem: "canonicalize_brand rf t bl = Some b \<Longrightarrow> b \<in> set bl"
  by (auto simp: canonicalize_brand_def Let_def split: if_splits option.splits
      dest!: fuzzy_pick_mem map_of_SomeD)

lemma pref_model_mem: "pref_model rf t models = Some m \<Longrightarrow> m \<in> set models"
  by (auto simp: pref_model_def Let_def split: if_splits option.splits
      dest!: fuzzy_pick_mem find_Some_mem)

section \<open>Properties\<close>

text \<open>C10: The range rule of \<open>parse_price_hint\<close> never applies: its second amount is
  read from group 2, the multiplier of the first amount, which holds no digit; so the
  function never returns both a lower and an upper bound, and \<open>entre 250 y 300 mil\<close> is
  read by the later rules (as an upper bound of 250).\<close>

theorem parse_price_hint_no_range:
  "fst (parse_price_hint text) = None \<or> snd (parse_price_hint text) = None"
  unfolding parse_price_hint_def Let_def range_rule_none by (auto split: option.split)

text \<open>C16: The brand and model that \<open>extract_preferences\<close> returns are scoped by its
  arguments: a canonical brand is one of the brand list, and a canonical model is one of
  the models listed for that brand, whichever of alias, fuzzy or substring match found it.\<close>

theorem extract_preferences_scoped:
  "(\<forall>b. p_brand_canonical (extract_preferences rf text bl mlb) = Some b \<longrightarrow> b \<in> set bl) \<and>
   (\<forall>m. p_model_canonical (extract_preferences rf text bl mlb) = Some m \<longrightarrow>
      (\<exists>b models. p_brand_canonical (extract_preferences rf text bl mlb) = Some b \<and> map_of mlb b = Some models \<and> m \<in> set models))"
  by (cases "canonicalize_brand rf (Some text) bl")
     (auto simp: extract_preferences_def Let_def opt_str_def split: if_splits option.splits prod.splits
      dest: canonicalize_brand_mem pref_model_mem)

theorem extract_preferences_scoped_witness:
  "p_model_canonical (extract_preferences None ''busco nisan kix'' [''Nissan'', ''Toyota''] [(''Nissan'', [''Kicks''])]) =
     Some ''Kicks'' \<and>
   p_brand_canonical (extract_preferences None ''busco nisan kix'' [''Nissan'', ''Toyota''] [(''Nissan'', [''Kicks''])]) =
     Some ''Nissan''"
proof -
  have e: "p_model_canonical (extract_preferences None ''busco nisan kix'' [''Nissan'', ''Toyota''] [(''Nissan'', [''Kicks''])]) =
     Some ''Kicks''" by code_simp
  then show ?thesis
    using extract_preferences_scoped [of None "''busco nisan kix''" "[''Nissan'', ''Toyota'']" "[(''Nissan'', [''Kicks''])]"]
    by auto
qed

text \<open>\<open>parse_price_hint\<close> on the phrases of the docstring: an upper bound after
  \<open>menos de\<close>, a lower bound after \<open>desde\<close>, with the multipliers \<open>mil\<close> and
  \<open>k\<close>; and \<open>parse_money_token\<close> with the multipliers \<open>millones\<close> and \<open>m\<close>.\<close>

theorem price_hint_examples:
  "parse_price_hint ''menos de 300 mil'' = (None, Some 300000) \<and>
   parse_price_hint ''desde 200k'' = (Some 200000, None) \<and>
   parse_money_token (Some ''1.5 millones'') = Some 1500000 \<and>
   parse_money_token (Some ''2 m'') = Some 2000000"
proof (intro conjI)
  show "parse_price_hint ''menos de 300 mil'' = (None, Some 300000)" by code_simp
  show "parse_price_hint ''desde 200k'' = (Some 200000, None)" by code_simp
  show "parse_money_token (Some ''1.5 millones'') = Some 1500000" by code_simp
  show "parse_money_token (Some ''2 m'') = Some 2000000" by code_simp
qed

end
