(* ===== verification/Recommender.thy ===== *)
theory Recommender
  imports Prefs Render "HOL-Library.Char_ord" "HOL-Library.List_Lexorder"
begin

text \<open>
  The catalog recommender of \<open>src/app/reco/catalog.py\<close>. The data frame read from the
  CSV is a list of raw rows whose numeric cells are the result of \<open>pd.to_numeric(...,
  errors="coerce")\<close> (\<open>None\<close> for NaN) and whose text cells are \<open>None\<close> when empty;
  \<open>load_catalog\<close> turns them into the typed rows the engine works on. The other
  functions follow the module: \<open>build_brand_model_index\<close>, \<open>_apply_filters\<close>,
  \<open>recommend\<close> (preferences from \<open>Prefs\<close>, hints, filters, the sort by price ascending
  and year descending, the first \<open>top_n\<close>), \<open>format_recommendations\<close> and the
  \<open>Recommender\<close> class. Replies are UTF-8 byte strings, as in \<open>Render\<close>.
\<close>

section \<open>Definitions\<close>

subsection \<open>Rows\<close>

text \<open>A cell of the optional \<open>location\<close> column: the column may be missing, and a
  present cell may be NaN, which is truthy and not a string.\<close>

datatype location_cell = NoLocColumn | NaNLoc | LocStr string

record raw_row =
  raw_id :: "real option"
  raw_brand :: "string option"
  raw_model :: "string option"
  raw_year :: "real option"
  raw_price :: "real option"
  raw_km :: "real option"
  raw_location :: "string option"

record reco_row =
  r_id :: "int option"
  r_brand :: string
  r_model :: string
  r_year :: int
  r_price :: real
  r_km :: "int option"
  r_location :: location_cell

datatype reco_error = FileNotFound | MissingColumns "string set"

text \<open>\<open>.fillna(0)\<close> of a coerced numeric cell.\<close>

definition fillna0 :: "real option \<Rightarrow> real" where
  "fillna0 v = (case v of None \<Rightarrow> 0 | Some x \<Rightarrow> x)"

definition REQUIRED_COLS :: "string list" where
  "REQUIRED_COLS = [''brand'', ''model'', ''price'', ''year'']"

text \<open>\<open>load_catalog\<close>: \<open>exists\<close> is \<open>os.path.exists(path)\<close>, \<open>cols\<close> the columns of
  the CSV. The year and the kilometres are cast with \<open>astype(int)\<close> (truncation), the
  \<open>_norm\<close> columns that \<open>normalize_catalog_df\<close> adds are not read by the engine.
  \<open>required\<close> is a Python set, so the message lists the missing columns in an order the
  hash seed decides; the error here carries the set of missing columns. The \<open>id\<close> cell is
  taken as numeric: \<open>load_catalog\<close> does not coerce it, and \<open>int(row["id"])\<close> in
  \<open>recommend\<close> raises on a non-numeric id, which is not modelled.\<close>

definition load_row :: "string list \<Rightarrow> raw_row \<Rightarrow> reco_row" where
  "load_row cols r =
     \<lparr>r_id = (if ''id'' \<in> set cols then map_option py_int (raw_id r) else None),
      r_brand = the (raw_brand r), r_model = the (raw_model r),
      r_year = py_int (fillna0 (raw_year r)), r_price = fillna0 (raw_price r),
      r_km = (if ''km'' \<in> set cols then Some (py_int (fillna0 (raw_km r))) else None),
      r_location = (if ''location'' \<in> set cols then
                      (case raw_location r of None \<Rightarrow> NaNLoc | Some s \<Rightarrow> LocStr s)
                    else NoLocColumn)\<rparr>"

definition load_catalog :: "bool \<Rightarrow> string list \<Rightarrow> raw_row list \<Rightarrow> reco_error + reco_row list" where
  "load_catalog exists cols raws =
     (if \<not> exists then Inl FileNotFound
      else
        let missing = filter (\<lambda>c. c \<notin> set cols) REQUIRED_COLS
        in if missing \<noteq> [] then Inl (MissingColumns (set missing))
           else Inr (map (load_row cols)
                       (filter (\<lambda>r. 0 < fillna0 (raw_price r) \<and> raw_brand r \<noteq> None \<and> raw_model r \<noteq> None)
                               raws)))"

text \<open>\<open>build_brand_model_index\<close>: \<open>sorted(...unique())\<close> of the brands, and of the
  models of each brand; the dictionary is built in the order of the brands.\<close>

definition build_brand_model_index :: "reco_row list \<Rightarrow> string list \<times> (string \<times> string list) list" where
  "build_brand_model_index rows =
     (let brands = sort (remdups (map r_brand rows))
      in (brands, map (\<lambda>b. (b, sort (remdups (map r_model (filter (\<lambda>r. r_brand r = b) rows))))) brands))"

subsection \<open>Filters and recommendation\<close>

text \<open>\<open>_apply_filters\<close>: brand and model when truthy, prices when not \<open>None\<close> (so a
  bound of 0 applies), the year when positive.\<close>

definition apply_filters ::
  "reco_row list \<Rightarrow> string option \<Rightarrow> string option \<Rightarrow> real option \<Rightarrow> real option \<Rightarrow> int option \<Rightarrow> reco_row list"
where
  "apply_filters rows brand_o model_o min_price max_price min_year =
     (let s1 = (if truthy_str brand_o then filter (\<lambda>r. r_brand r = the brand_o) rows else rows);
          s2 = (if truthy_str model_o then filter (\<lambda>r. r_model r = the model_o) s1 else s1);
          s3 = (case min_price of None \<Rightarrow> s2 | Some v \<Rightarrow> filter (\<lambda>r. v \<le> r_price r) s2);
          s4 = (case max_price of None \<Rightarrow> s3 | Some v \<Rightarrow> filter (\<lambda>r. r_price r \<le> v) s3)
      in case min_year of
           Some y \<Rightarrow> if 0 < y then filter (\<lambda>r. y \<le> r_year r) s4 else s4
         | None \<Rightarrow> s4)"

text \<open>\<open>DataFrame.head(n)\<close>: a negative \<open>n\<close> drops the last \<open>-n\<close> rows.\<close>

definition py_head :: "int \<Rightarrow> 'a list \<Rightarrow> 'a list" where
  "py_head n xs = (if 0 \<le> n then take (nat n) xs else take (length xs - nat (- n)) xs)"

text \<open>\<open>sort_values(by=[price, year], ascending=[True, False])\<close>: a stable sort on the
  key (price, minus year).\<close>

definition reco_key :: "reco_row \<Rightarrow> real \<times> int" where
  "reco_key r = (r_price r, - r_year r)"

record reco_item =
  i_id :: "int option"
  i_brand :: string
  i_model :: string
  i_year :: int
  i_price :: real
  i_km :: "int option"
  i_location :: location_cell

definition to_item :: "reco_row \<Rightarrow> reco_item" where
  "to_item r =
     \<lparr>i_id = r_id r, i_brand = r_brand r, i_model = r_model r, i_year = r_year r, i_price = r_price r,
      i_km = r_km r, i_location = r_location r\<rparr>"

text \<open>
  Steps 1 and 2 of \<open>recommend\<close>: the preferences of the text fill what the keyword
  arguments leave \<open>None\<close>; a brand hint is fuzzy matched at cutoff 80 and a model hint,
  under the brand, at 78. The result is the brand, model, price bounds and minimum year
  passed to \<open>_apply_filters\<close>.
\<close>

definition reco_params ::
  "scorers option \<Rightarrow> string list \<Rightarrow> (string \<times> string list) list \<Rightarrow> string option \<Rightarrow> string option \<Rightarrow>
   string option \<Rightarrow> real option \<Rightarrow> real option \<Rightarrow> int option \<Rightarrow>
   string option \<times> string option \<times> real option \<times> real option \<times> int option"
where
  "reco_params rf brand_list mlb user_text brand_hint model_hint min_price max_price min_year =
     (let (bc, mc, mn, mx, yr) =
            (if truthy_str user_text then
               let p = extract_preferences rf (the user_text) brand_list mlb
               in (py_or (p_brand_canonical p) None, py_or (p_model_canonical p) None,
                   (if min_price = None then p_min_price p else min_price),
                   (if max_price = None then p_max_price p else max_price),
                   (if min_year = None then p_year p else min_year))
             else (None, None, min_price, max_price, min_year));
          bc2 = (if truthy_str brand_hint then py_or (fuzzy_pick rf brand_hint brand_list 80) bc else bc);
          mc2 = (if truthy_str model_hint \<and> truthy_str bc2 then
                   let models = (case map_of mlb (the bc2) of None \<Rightarrow> [] | Some ms \<Rightarrow> ms)
                   in py_or (fuzzy_pick rf model_hint models 78) mc
                 else mc)
      in (bc2, mc2, mn, mx, yr))"

text \<open>Steps 3 to 5: filter, return \<open>[]\<close> on an empty frame, sort, take the head, and
  build one dictionary per row.\<close>

definition recommend ::
  "scorers option \<Rightarrow> reco_row list \<Rightarrow> string list \<Rightarrow> (string \<times> string list) list \<Rightarrow> string option \<Rightarrow>
   string option \<Rightarrow> string option \<Rightarrow> real option \<Rightarrow> real option \<Rightarrow> int option \<Rightarrow> int \<Rightarrow> reco_item list"
where
  "recommend rf rows brand_list mlb user_text brand_hint model_hint min_price max_price min_year top_n =
     (let (bc, mc, mn, mx, yr) =
            reco_params rf brand_list mlb user_text brand_hint model_hint min_price max_price min_year;
          sub = apply_filters rows bc mc mn mx yr
      in if sub = [] then [] else map to_item (py_head top_n (sort_key reco_key sub)))"

subsection \<open>Formatting\<close>

text \<open>\<open>f"{x:,.0f}"\<close>: the nearest integer, ties to even, with thousands commas and the
  sign of \<open>x\<close> (so that \<open>-0.3\<close> prints \<open>-0\<close>).\<close>

definition py_round_half_even :: "real \<Rightarrow> int" where
  "py_round_half_even x =
     (let f = \<lfloor>x\<rfloor>; d = x - of_int f
      in if d < 1 / 2 then f else if 1 / 2 < d then f + 1 else if even f then f else f + 1)"

definition fmt_0f :: "real \<Rightarrow> string" where
  "fmt_0f x = (if x < 0 then ''-'' else []) @ fmt_commas (py_round_half_even \<bar>x\<bar>)"

definition FINANCE_CTA :: string where
  "FINANCE_CTA = CHR 0xBF # ''Quieres que te muestre opciones de financiamiento?''"

definition NO_OPTIONS_MSG :: string where
  "NO_OPTIONS_MSG =
     ''No encontr'' @ CHR 0xE9 # '' opciones que cumplan con tus preferencias. '' @
     CHR 0xBF # ''Quieres que te ponga en contacto con un agente de Kavak?''"

text \<open>The line of one item in \<open>format_recommendations\<close>; \<open>None\<close> when \<open>", ".join\<close>
  raises \<open>TypeError\<close>, on a NaN location (a float, and truthy).\<close>

definition reco_line :: "reco_item \<Rightarrow> string option" where
  "reco_line it =
     (let title = py_strip (i_brand it @ CHR '' '' # i_model it @ CHR '' '' # py_str_int (i_year it));
          price = (if i_price it \<noteq> 0 then CHR ''$'' # fmt_0f (i_price it) else ''Precio no disponible'');
          extra = (case i_km it of None \<Rightarrow> [] | Some k \<Rightarrow> [Some (fmt_commas k @ '' km'')]) @
                  (case i_location it of
                     NoLocColumn \<Rightarrow> []
                   | NaNLoc \<Rightarrow> [None]
                   | LocStr l \<Rightarrow> if l \<noteq> [] then [Some (utf8 l)] else [])
      in if None \<in> set extra then None
         else Some (''- '' @ utf8 title @ '' '' @ EN_DASH @ '' '' @ price @
                    (if extra = [] then [] else '' '' @ EN_DASH @ '' '' @ py_join '', '' (map the extra))))"

definition format_recommendations :: "reco_item list \<Rightarrow> string option" where
  "format_recommendations items =
     (if items = [] then Some (utf8 NO_OPTIONS_MSG)
      else let ls = map reco_line items
           in if None \<in> set ls then None
              else Some (py_join [CHR 0x0A] (map the ls @ [utf8 (CHR 0x0A # FINANCE_CTA)])))"

subsection \<open>The \<open>Recommender\<close> class\<close>

record recommender =
  rc_df :: "reco_row list"
  rc_brand_list :: "string list"
  rc_model_map :: "(string \<times> string list) list"

text \<open>\<open>__init__\<close>: the catalog is loaded once and indexed; a load error propagates.\<close>

definition recommender_init :: "bool \<Rightarrow> string list \<Rightarrow> raw_row list \<Rightarrow> reco_error + recommender" where
  "recommender_init exists cols raws =
     (case load_catalog exists cols raws of
        Inl e \<Rightarrow> Inl e
      | Inr df \<Rightarrow> (let (bl, mm) = build_brand_model_index df
                  in Inr \<lparr>rc_df = df, rc_brand_list = bl, rc_model_map = mm\<rparr>))"

definition recommend_from_text :: "scorers option \<Rightarrow> recommender \<Rightarrow> string \<Rightarrow> int \<Rightarrow> reco_item list" where
  "recommend_from_text rf R user_text top_n =
     recommend rf (rc_df R) (rc_brand_list R) (rc_model_map R) (Some user_text) None None None None None top_n"

definition format_from_text :: "scorers option \<Rightarrow> recommender \<Rightarrow> string \<Rightarrow> int \<Rightarrow> bool \<Rightarrow> string" where
  "format_from_text rf R query top_n include_finance_cta =
     (let items = recommend_from_text rf R query top_n
      in if items = [] then
           utf8 (''No encontr'' @ CHR 0xE9 # '' autos que cumplan con tus criterios. '' @
                 CHR 0xBF # ''Quieres que te ponga en contacto con un agente de Kavak?'')
         else
           let lines = map (\<lambda>it. ''- '' @ utf8 (py_strip (i_brand it)) @ '' '' @ utf8 (py_strip (i_model it)) @ '' '' @
                                  py_str_int (i_year it) @ '' '' @ EN_DASH @ '' $'' @ fmt_0f (i_price it)) items;
               msg = ''Te recomiendo:'' @ CHR 0x0A # py_join [CHR 0x0A] lines
           in if include_finance_cta then msg @ utf8 (CHR 0x0A # CHR 0x0A # FINANCE_CTA) else msg)"

subsection \<open>Specification\<close>

text \<open>What the filters of \<open>_apply_filters\<close> ask of one row, as one predicate.\<close>

definition row_matches ::
  "string option \<Rightarrow> string option \<Rightarrow> real option \<Rightarrow> real option \<Rightarrow> int option \<Rightarrow> reco_row \<Rightarrow> bool"
where
  "row_matches b m lo hi y r \<longleftrightarrow>
     (truthy_str b \<longrightarrow> r_brand r = the b) \<and> (truthy_str m \<longrightarrow> r_model r = the m) \<and>
     (\<forall>v. lo = Some v \<longrightarrow> v \<le> r_price r) \<and> (\<forall>v. hi = Some v \<longrightarrow> r_price r \<le> v) \<and>
     (\<forall>v. y = Some v \<longrightarrow> 0 < v \<longrightarrow> v \<le> r_year r)"

section \<open>Lemmas\<close>

lemma apply_filters_spec:
  "apply_filters rows b m lo hi y = filter (row_matches b m lo hi y) rows"
  by (auto simp: apply_filters_def row_matches_def Let_def split: option.split intro!: filter_cong)

lemma py_head_prefix: "\<exists>k. py_head n xs = take k xs"
  by (auto simp: py_head_def)

lemma recommend_eq:
  "reco_params rf bl mlb ut bh mh lo hi yr = (b, m, lo', hi', y') \<Longrightarrow>
   recommend rf rows bl mlb ut bh mh lo hi yr top_n =
     map to_item (py_head top_n (sort_key reco_key (filter (row_matches b m lo' hi' y') rows)))"
  by (simp add: recommend_def apply_filters_spec Let_def py_head_def)

lemma item_key_to_item: "(i_price (to_item r), - i_year (to_item r)) = reco_key r"
  by (simp add: to_item_def reco_key_def)

lemma sorted_take_drop_le:
  "sorted (map f xs) \<Longrightarrow> x \<in> set (take k xs) \<Longrightarrow> y \<in> set (drop k xs) \<Longrightarrow> f x \<le> f y"
  using sorted_append [of "map f (take k xs)" "map f (drop k xs)"]
  by (simp add: map_append [symmetric] del: map_append)

lemma build_index_lookup:
  "build_brand_model_index rows = (bl, mm) \<Longrightarrow> b \<in> set bl \<Longrightarrow>
   map_of mm b = Some (sort (remdups (map r_model (filter (\<lambda>r. r_brand r = b) rows))))"
  by (auto simp: build_brand_model_index_def Let_def map_of_map_restrict)

lemma load_catalog_Inr:
  "load_catalog ex cols raws = Inr rows \<Longrightarrow>
   ex \<and> set REQUIRED_COLS \<subseteq> set cols \<and>
   rows = map (load_row cols) (filter (\<lambda>r. 0 < fillna0 (raw_price r) \<and> raw_brand r \<noteq> None \<and> raw_model r \<noteq> None) raws)"
  by (auto simp: load_catalog_def Let_def filter_empty_conv split: if_splits)

lemma reco_params_text_max:
  "truthy_str ut \<Longrightarrow>
   \<exists>b m lo' y'. reco_params rf bl mlb ut bh mh lo None yr =
     (b, m, lo', snd (parse_price_hint (the ut)), y')"
  by (auto simp: reco_params_def extract_preferences_def Let_def split: prod.split)

lemma reco_line_nan: "i_location it = NaNLoc \<Longrightarrow> reco_line it = None"
  by (simp add: reco_line_def Let_def split: option.split)

lemma parse_money_token_2020: "parse_money_token (Some ''2020'') = Some 2020"
proof -
  have o: "opt_str (Some ''2020'') = ''2020''" by (simp add: opt_str_def)
  have st: "py_strip (py_remove CHR ''$'' (norm_txt ''2020'')) = ''2020''" by code_simp
  have sub: "re_sub JOIN_KM_RE (\<lambda>g. opt_str (group ''2020'' g 1) @ opt_str (group ''2020'' g 2)) ''2020'' = ''2020''"
    by code_simp
  have m: "re_search MONEY_TOKEN_RE ''2020'' = Some (0, 4, [(1, 0, 4)])" by code_simp
  have g: "group ''2020'' [(1, 0, 4)] 1 = Some ''2020''" "group ''2020'' [(1, 0, 4)] 2 = None"
    by (simp_all add: group_def)
  have r: "py_remove CHR '','' ''2020'' = ''2020''" "py_count CHR ''.'' ''2020'' = 0"
    by (simp_all add: py_remove_def py_count_def)
  have fm: "re_fullmatch THOUSANDS_RE ''2020'' = None" by code_simp
  have f: "py_float ''2020'' = Some 2020"
    using py_float_digits [of "''2020''"] by (simp add: is_digits_def is_digit_def digits_nat_def)
  show ?thesis
    unfolding parse_money_token_def o st sub Let_def m
    by (simp add: g[simplified] r fm f apply_multiplier_def opt_str_def)
qed

lemma parse_price_hint_year_2020: "parse_price_hint ''busco nissan 2020'' = (None, Some 2020)"
proof -
  have n: "norm_txt ''busco nissan 2020'' = ''busco nissan 2020''" by code_simp
  have s: "re_search RANGE_HINT_RE ''busco nissan 2020'' = None" "re_search MAX_HINT_RE ''busco nissan 2020'' = None"
    "re_search MIN_HINT_RE ''busco nissan 2020'' = None"
    "re_search BARE_AMOUNT_RE ''busco nissan 2020'' = Some (13, 17, [(1, 13, 17)])" by code_simp+
  have g: "group ''busco nissan 2020'' [(1, 13, 17)] 1 = Some ''2020''" by (simp add: group_def)
  show ?thesis
    unfolding parse_price_hint_def Let_def n s by (simp add: g[simplified] parse_money_token_2020)
qed

lemma recommend_subset: "set (recommend rf rows bl mlb ut bh mh lo hi yr top_n) \<subseteq> to_item ` set rows"
proof -
  obtain b m lo' hi' y' where p: "reco_params rf bl mlb ut bh mh lo hi yr = (b, m, lo', hi', y')"
    by (cases "reco_params rf bl mlb ut bh mh lo hi yr") auto
  obtain k where "recommend rf rows bl mlb ut bh mh lo hi yr top_n =
      map to_item (take k (sort_key reco_key (filter (row_matches b m lo' hi' y') rows)))"
    using recommend_eq [OF p] py_head_prefix by metis
  then show ?thesis by (auto dest!: in_set_takeD)
qed

lemma build_index_brands:
  "build_brand_model_index rows = (bl, mm) \<Longrightarrow> set bl = r_brand ` set rows"
  by (auto simp: build_brand_model_index_def Let_def)

section \<open>Properties\<close>

text \<open>C7: Soundness of \<open>recommend\<close>: every item it returns is the dictionary of a row of the
  frame, and that row passes every filter in force: the brand and model chosen from the
  text and the hints, the price bounds and the minimum year.\<close>

theorem recommend_sound:
  assumes p: "reco_params rf bl mlb ut bh mh lo hi yr = (b, m, lo', hi', y')"
    and it: "it \<in> set (recommend rf rows bl mlb ut bh mh lo hi yr top_n)"
  shows "\<exists>r \<in> set rows. it = to_item r \<and> row_matches b m lo' hi' y' r"
proof -
  obtain k where "it \<in> set (map to_item (take k (sort_key reco_key (filter (row_matches b m lo' hi' y') rows))))"
    using it recommend_eq [OF p] py_head_prefix by metis
  then obtain r where "r \<in> set (take k (sort_key reco_key (filter (row_matches b m lo' hi' y') rows)))"
    and "it = to_item r" by auto
  then show ?thesis by (auto dest!: in_set_takeD)
qed

theorem recommend_sound_witness:
  "recommend None [\<lparr>r_id = Some 1, r_brand = ''Nissan'', r_model = ''Versa'', r_year = 2020, r_price = 280000, r_km = None, r_location = NoLocColumn\<rparr>] [] [] None None None None (Some 300000) None 5 =
     [to_item (\<lparr>r_id = Some 1, r_brand = ''Nissan'', r_model = ''Versa'', r_year = 2020, r_price = 280000, r_km = None, r_location = NoLocColumn\<rparr>)] \<and>
   row_matches None None None (Some 300000) None (\<lparr>r_id = Some 1, r_brand = ''Nissan'', r_model = ''Versa'', r_year = 2020, r_price = 280000, r_km = None, r_location = NoLocColumn\<rparr>)"
proof -
  have p: "reco_params None [] [] None None None None (Some 300000) None = (None, None, None, Some 300000, None)"
    by (simp add: reco_params_def truthy_str_def opt_str_def)
  have e: "recommend None [\<lparr>r_id = Some 1, r_brand = ''Nissan'', r_model = ''Versa'', r_year = 2020, r_price = 280000, r_km = None, r_location = NoLocColumn\<rparr>] [] [] None None None None (Some 300000) None 5 =
     [to_item (\<lparr>r_id = Some 1, r_brand = ''Nissan'', r_model = ''Versa'', r_year = 2020, r_price = 280000, r_km = None, r_location = NoLocColumn\<rparr>)]" by code_simp
  show ?thesis
    using recommend_sound [OF p, of "to_item (\<lparr>r_id = Some 1, r_brand = ''Nissan'', r_model = ''Versa'', r_year = 2020, r_price = 280000, r_km = None, r_location = NoLocColumn\<rparr>)" "[\<lparr>r_id = Some 1, r_brand = ''Nissan'', r_model = ''Versa'', r_year = 2020, r_price = 280000, r_km = None, r_location = NoLocColumn\<rparr>]" 5] e by auto
qed

text \<open>C19: \<open>recommend\<close> returns its items by price ascending, and by year descending
  among items of the same price.\<close>

theorem recommend_sorted:
  "sorted (map (\<lambda>it. (i_price it, - i_year it)) (recommend rf rows bl mlb ut bh mh lo hi yr top_n))"
proof -
  obtain b m lo' hi' y' where p: "reco_params rf bl mlb ut bh mh lo hi yr = (b, m, lo', hi', y')"
    by (cases "reco_params rf bl mlb ut bh mh lo hi yr") auto
  obtain k where "py_head top_n (sort_key reco_key (filter (row_matches b m lo' hi' y') rows)) =
      take k (sort_key reco_key (filter (row_matches b m lo' hi' y') rows))" using py_head_prefix by metis
  moreover have "(\<lambda>it. (i_price it, - i_year it)) \<circ> to_item = reco_key"
    by (auto simp: to_item_def reco_key_def)
  ultimately show ?thesis
    by (simp add: recommend_eq [OF p] take_map [symmetric] sorted_wrt_take)
qed

text \<open>C8: \<open>recommend\<close> returns the best matches: a row that passes the filters and is
  left out is not cheaper than any item returned (nor as cheap and newer).\<close>

theorem recommend_best_first:
  assumes p: "reco_params rf bl mlb ut bh mh lo hi yr = (b, m, lo', hi', y')"
    and r: "r \<in> set rows" "row_matches b m lo' hi' y' r"
    and out: "to_item r \<notin> set (recommend rf rows bl mlb ut bh mh lo hi yr top_n)"
    and it: "it \<in> set (recommend rf rows bl mlb ut bh mh lo hi yr top_n)"
  shows "(i_price it, - i_year it) \<le> reco_key r"
proof -
  let ?S = "sort_key reco_key (filter (row_matches b m lo' hi' y') rows)"
  obtain k where res: "recommend rf rows bl mlb ut bh mh lo hi yr top_n = map to_item (take k ?S)"
    using recommend_eq [OF p] py_head_prefix by metis
  from it res obtain x where x: "x \<in> set (take k ?S)" and itx: "it = to_item x" by auto
  have "r \<in> set ?S" using r by simp
  moreover have "r \<notin> set (take k ?S)" using out res by auto
  ultimately have "r \<in> set (drop k ?S)" by (metis Un_iff append_take_drop_id set_append)
  then have "reco_key x \<le> reco_key r"
    using sorted_take_drop_le [OF sorted_sort_key x] by blast
  then show ?thesis using itx item_key_to_item by simp
qed

theorem recommend_best_first_witness:
  "recommend None [\<lparr>r_id = Some 1, r_brand = ''Nissan'', r_model = ''Versa'', r_year = 2020, r_price = 280000, r_km = None, r_location = NoLocColumn\<rparr>, \<lparr>r_id = Some 2, r_brand = ''Toyota'', r_model = ''Corolla'', r_year = 2021, r_price = 350000, r_km = None, r_location = NoLocColumn\<rparr>] [] [] None None None None None None 1 = [to_item (\<lparr>r_id = Some 1, r_brand = ''Nissan'', r_model = ''Versa'', r_year = 2020, r_price = 280000, r_km = None, r_location = NoLocColumn\<rparr>)] \<and>
   (i_price (to_item (\<lparr>r_id = Some 1, r_brand = ''Nissan'', r_model = ''Versa'', r_year = 2020, r_price = 280000, r_km = None, r_location = NoLocColumn\<rparr>)), - i_year (to_item (\<lparr>r_id = Some 1, r_brand = ''Nissan'', r_model = ''Versa'', r_year = 2020, r_price = 280000, r_km = None, r_location = NoLocColumn\<rparr>))) \<le> reco_key (\<lparr>r_id = Some 2, r_brand = ''Toyota'', r_model = ''Corolla'', r_year = 2021, r_price = 350000, r_km = None, r_location = NoLocColumn\<rparr>)"
proof -
  have p: "reco_params None [] [] None None None None None None = (None, None, None, None, None)"
    by (simp add: reco_params_def truthy_str_def opt_str_def)
  have e: "recommend None [\<lparr>r_id = Some 1, r_brand = ''Nissan'', r_model = ''Versa'', r_year = 2020, r_price = 280000, r_km = None, r_location = NoLocColumn\<rparr>, \<lparr>r_id = Some 2, r_brand = ''Toyota'', r_model = ''Corolla'', r_year = 2021, r_price = 350000, r_km = None, r_location = NoLocColumn\<rparr>] [] [] None None None None None None 1 = [to_item (\<lparr>r_id = Some 1, r_brand = ''Nissan'', r_model = ''Versa'', r_year = 2020, r_price = 280000, r_km = None, r_location = NoLocColumn\<rparr>)]" by code_simp
  have m: "row_matches None None None None None (\<lparr>r_id = Some 2, r_brand = ''Toyota'', r_model = ''Corolla'', r_year = 2021, r_price = 350000, r_km = None, r_location = NoLocColumn\<rparr>)" by (simp add: row_matches_def truthy_str_def opt_str_def)
  have n: "to_item (\<lparr>r_id = Some 2, r_brand = ''Toyota'', r_model = ''Corolla'', r_year = 2021, r_price = 350000, r_km = None, r_location = NoLocColumn\<rparr>) \<notin> set [to_item (\<lparr>r_id = Some 1, r_brand = ''Nissan'', r_model = ''Versa'', r_year = 2020, r_price = 280000, r_km = None, r_location = NoLocColumn\<rparr>)]" by (simp add: to_item_def)
  show ?thesis
    using recommend_best_first [OF p _ m, of "[\<lparr>r_id = Some 1, r_brand = ''Nissan'', r_model = ''Versa'', r_year = 2020, r_price = 280000, r_km = None, r_location = NoLocColumn\<rparr>, \<lparr>r_id = Some 2, r_brand = ''Toyota'', r_model = ''Corolla'', r_year = 2021, r_price = 350000, r_km = None, r_location = NoLocColumn\<rparr>]" 1 "to_item (\<lparr>r_id = Some 1, r_brand = ''Nissan'', r_model = ''Versa'', r_year = 2020, r_price = 280000, r_km = None, r_location = NoLocColumn\<rparr>)"] e n by simp
qed

text \<open>\<open>recommend\<close> returns at most \<open>top_n\<close> items.\<close>

theorem recommend_length:
  "0 \<le> top_n \<Longrightarrow> length (recommend rf rows bl mlb ut bh mh lo hi yr top_n) \<le> nat top_n"
  by (auto simp: recommend_def Let_def py_head_def split: prod.split)

theorem recommend_length_witness:
  "length (recommend None [\<lparr>r_id = Some 1, r_brand = ''Nissan'', r_model = ''Versa'', r_year = 2020, r_price = 280000, r_km = None, r_location = NoLocColumn\<rparr>, \<lparr>r_id = Some 2, r_brand = ''Toyota'', r_model = ''Corolla'', r_year = 2021, r_price = 350000, r_km = None, r_location = NoLocColumn\<rparr>] [] [] None None None None None None 1) \<le> 1"
  using recommend_length [of 1 None "[\<lparr>r_id = Some 1, r_brand = ''Nissan'', r_model = ''Versa'', r_year = 2020, r_price = 280000, r_km = None, r_location = NoLocColumn\<rparr>, \<lparr>r_id = Some 2, r_brand = ''Toyota'', r_model = ''Corolla'', r_year = 2021, r_price = 350000, r_km = None, r_location = NoLocColumn\<rparr>]"] by simp

text \<open>C17: \<open>build_brand_model_index\<close> indexes the frame: the brand list is sorted,
  without duplicates, and holds exactly the brands of the rows; the dictionary has one
  entry per brand, in that order, whose models are sorted, without duplicates, and exactly
  the models of the rows of that brand.\<close>

theorem build_brand_model_index_correct:
  assumes ix: "build_brand_model_index rows = (bl, mm)"
  shows "sorted bl \<and> distinct bl \<and> set bl = r_brand ` set rows \<and> map fst mm = bl \<and>
         (\<forall>b \<in> set bl. \<exists>ms. map_of mm b = Some ms \<and> sorted ms \<and> distinct ms \<and>
             set ms = r_model ` {r \<in> set rows. r_brand r = b})"
proof -
  have "sorted bl \<and> distinct bl \<and> set bl = r_brand ` set rows \<and> map fst mm = bl"
    using ix build_index_brands [OF ix] by (auto simp: build_brand_model_index_def Let_def comp_def)
  moreover have "\<exists>ms. map_of mm b = Some ms \<and> sorted ms \<and> distinct ms \<and>
      set ms = r_model ` {r \<in> set rows. r_brand r = b}" if "b \<in> set bl" for b
    using build_index_lookup [OF ix that] by auto
  ultimately show ?thesis by blast
qed

theorem build_brand_model_index_correct_witness:
  "build_brand_model_index [\<lparr>r_id = Some 1, r_brand = ''Nissan'', r_model = ''Versa'', r_year = 2020, r_price = 280000, r_km = None, r_location = NoLocColumn\<rparr>, \<lparr>r_id = Some 2, r_brand = ''Toyota'', r_model = ''Corolla'', r_year = 2021, r_price = 350000, r_km = None, r_location = NoLocColumn\<rparr>] = ([''Nissan'', ''Toyota''], [(''Nissan'', [''Versa'']), (''Toyota'', [''Corolla''])]) \<and>
   map_of [(''Nissan'', [''Versa'']), (''Toyota'', [''Corolla''])] ''Toyota'' = Some [''Corolla'']"
proof -
  have ix: "build_brand_model_index [\<lparr>r_id = Some 1, r_brand = ''Nissan'', r_model = ''Versa'', r_year = 2020, r_price = 280000, r_km = None, r_location = NoLocColumn\<rparr>, \<lparr>r_id = Some 2, r_brand = ''Toyota'', r_model = ''Corolla'', r_year = 2021, r_price = 350000, r_km = None, r_location = NoLocColumn\<rparr>] =
      ([''Nissan'', ''Toyota''], [(''Nissan'', [''Versa'']), (''Toyota'', [''Corolla''])])" by code_simp
  show ?thesis using build_brand_model_index_correct [OF ix] ix by simp
qed

text \<open>C18: Every row of a loaded catalog has a positive price, a brand and a model taken from a
  row of the CSV with both cells present, a kilometre value exactly when the CSV has the
  column, and a location cell exactly when the CSV has that column.\<close>

theorem load_catalog_wf:
  "load_catalog ex cols raws = Inr rows \<Longrightarrow>
   \<forall>r \<in> set rows. 0 < r_price r \<and> (r_km r \<noteq> None \<longleftrightarrow> ''km'' \<in> set cols) \<and>
      (r_location r \<noteq> NoLocColumn \<longleftrightarrow> ''location'' \<in> set cols) \<and>
      (\<exists>w \<in> set raws. raw_brand w = Some (r_brand r) \<and> raw_model w = Some (r_model r))"
  by (drule load_catalog_Inr) (auto simp: load_row_def split: option.split)

theorem load_catalog_wf_witness:
  "load_catalog True [''id'', ''brand'', ''model'', ''year'', ''price''] [\<lparr>raw_id = Some 1, raw_brand = Some ''Nissan'', raw_model = Some ''Versa'', raw_year = Some 2020, raw_price = Some 280000, raw_km = None, raw_location = None\<rparr>] = Inr [\<lparr>r_id = Some 1, r_brand = ''Nissan'', r_model = ''Versa'', r_year = 2020, r_price = 280000, r_km = None, r_location = NoLocColumn\<rparr>] \<and> 0 < r_price (\<lparr>r_id = Some 1, r_brand = ''Nissan'', r_model = ''Versa'', r_year = 2020, r_price = 280000, r_km = None, r_location = NoLocColumn\<rparr>)"
proof -
  have l: "load_catalog True [''id'', ''brand'', ''model'', ''year'', ''price''] [\<lparr>raw_id = Some 1, raw_brand = Some ''Nissan'', raw_model = Some ''Versa'', raw_year = Some 2020, raw_price = Some 280000, raw_km = None, raw_location = None\<rparr>] = Inr [\<lparr>r_id = Some 1, r_brand = ''Nissan'', r_model = ''Versa'', r_year = 2020, r_price = 280000, r_km = None, r_location = NoLocColumn\<rparr>]" by code_simp
  show ?thesis using load_catalog_wf [OF l] l by simp
qed

text \<open>C9: Across load, index and recommend: an item that a \<open>Recommender\<close> built from a
  CSV returns has a positive price, its brand is in the recommender's brand list and its
  model among the models indexed for that brand.\<close>

theorem recommender_items_in_catalog:
  assumes R: "recommender_init ex cols raws = Inr R"
    and it: "it \<in> set (recommend_from_text rf R t n)"
  shows "0 < i_price it \<and> i_brand it \<in> set (rc_brand_list R) \<and>
         (\<exists>ms. map_of (rc_model_map R) (i_brand it) = Some ms \<and> i_model it \<in> set ms)"
proof -
  obtain df where df: "load_catalog ex cols raws = Inr df"
    and R': "R = \<lparr>rc_df = df, rc_brand_list = fst (build_brand_model_index df),
                  rc_model_map = snd (build_brand_model_index df)\<rparr>"
    using R by (auto simp: recommender_init_def split: sum.splits prod.splits)
  let ?bl = "fst (build_brand_model_index df)" and ?mm = "snd (build_brand_model_index df)"
  have ix: "build_brand_model_index df = (?bl, ?mm)" by simp
  obtain r where r: "r \<in> set df" and itr: "it = to_item r"
    using it recommend_subset unfolding recommend_from_text_def R' by fastforce
  have "0 < r_price r" using load_catalog_Inr [OF df] r by (auto simp: load_row_def)
  moreover have b: "r_brand r \<in> set ?bl" using build_index_brands [OF ix] r by blast
  moreover have "r_model r \<in> set (sort (remdups (map r_model (filter (\<lambda>x. r_brand x = r_brand r) df))))"
    using r by simp
  ultimately show ?thesis using build_index_lookup [OF ix b] itr R' by (simp add: to_item_def)
qed

theorem recommender_items_in_catalog_witness:
  "recommender_init True [''id'', ''brand'', ''model'', ''year'', ''price''] [\<lparr>raw_id = Some 1, raw_brand = Some ''Nissan'', raw_model = Some ''Versa'', raw_year = Some 2020, raw_price = Some 280000, raw_km = None, raw_location = None\<rparr>] =
     Inr \<lparr>rc_df = [\<lparr>r_id = Some 1, r_brand = ''Nissan'', r_model = ''Versa'', r_year = 2020, r_price = 280000, r_km = None, r_location = NoLocColumn\<rparr>], rc_brand_list = [''Nissan''], rc_model_map = [(''Nissan'', [''Versa''])]\<rparr> \<and>
   recommend_from_text None \<lparr>rc_df = [\<lparr>r_id = Some 1, r_brand = ''Nissan'', r_model = ''Versa'', r_year = 2020, r_price = 280000, r_km = None, r_location = NoLocColumn\<rparr>], rc_brand_list = [''Nissan''], rc_model_map = [(''Nissan'', [''Versa''])]\<rparr>
     [] 5 = [to_item (\<lparr>r_id = Some 1, r_brand = ''Nissan'', r_model = ''Versa'', r_year = 2020, r_price = 280000, r_km = None, r_location = NoLocColumn\<rparr>)] \<and>
   0 < i_price (to_item (\<lparr>r_id = Some 1, r_brand = ''Nissan'', r_model = ''Versa'', r_year = 2020, r_price = 280000, r_km = None, r_location = NoLocColumn\<rparr>)) \<and> i_brand (to_item (\<lparr>r_id = Some 1, r_brand = ''Nissan'', r_model = ''Versa'', r_year = 2020, r_price = 280000, r_km = None, r_location = NoLocColumn\<rparr>)) \<in> set [''Nissan'']"
proof -
  have i: "recommender_init True [''id'', ''brand'', ''model'', ''year'', ''price''] [\<lparr>raw_id = Some 1, raw_brand = Some ''Nissan'', raw_model = Some ''Versa'', raw_year = Some 2020, raw_price = Some 280000, raw_km = None, raw_location = None\<rparr>] =
     Inr \<lparr>rc_df = [\<lparr>r_id = Some 1, r_brand = ''Nissan'', r_model = ''Versa'', r_year = 2020, r_price = 280000, r_km = None, r_location = NoLocColumn\<rparr>], rc_brand_list = [''Nissan''], rc_model_map = [(''Nissan'', [''Versa''])]\<rparr>" by code_simp
  have e: "recommend_from_text None \<lparr>rc_df = [\<lparr>r_id = Some 1, r_brand = ''Nissan'', r_model = ''Versa'', r_year = 2020, r_price = 280000, r_km = None, r_location = NoLocColumn\<rparr>], rc_brand_list = [''Nissan''], rc_model_map = [(''Nissan'', [''Versa''])]\<rparr>
     [] 5 = [to_item (\<lparr>r_id = Some 1, r_brand = ''Nissan'', r_model = ''Versa'', r_year = 2020, r_price = 280000, r_km = None, r_location = NoLocColumn\<rparr>)]" by code_simp
  show ?thesis using recommender_items_in_catalog [OF i, of "to_item (\<lparr>r_id = Some 1, r_brand = ''Nissan'', r_model = ''Versa'', r_year = 2020, r_price = 280000, r_km = None, r_location = NoLocColumn\<rparr>)" None "[]" 5] e i by simp
qed

text \<open>C14: A query that names a year and no price, such as \<open>busco nissan 2020\<close>, gets no
  recommendation from a catalog whose prices are all above 2020: the bare-amount rule of
  \<open>parse_price_hint\<close> reads the year as a price cap of 2020 pesos.\<close>

theorem recommend_year_read_as_price:
  assumes "\<forall>r \<in> set (rc_df R). 2020 < r_price r"
  shows "recommend_from_text rf R ''busco nissan 2020'' n = []"
proof -
  note ph = parse_price_hint_year_2020
  have "\<exists>b m lo' y'. reco_params rf (rc_brand_list R) (rc_model_map R) (Some ''busco nissan 2020'') None None
      None None None = (b, m, lo', Some 2020, y')"
    using reco_params_text_max [of "Some ''busco nissan 2020''" rf "rc_brand_list R" "rc_model_map R" None None None None]
      ph by (simp add: truthy_str_def opt_str_def)
  then obtain b m lo' y' where p: "reco_params rf (rc_brand_list R) (rc_model_map R) (Some ''busco nissan 2020'') None
      None None None None = (b, m, lo', Some 2020, y')" by blast
  have "filter (row_matches b m lo' (Some 2020) y') (rc_df R) = []"
    using assms by (auto simp: filter_empty_conv row_matches_def)
  then show ?thesis by (simp add: recommend_from_text_def recommend_eq [OF p] py_head_def)
qed

theorem recommend_year_read_as_price_witness:
  "recommend_from_text None \<lparr>rc_df = [\<lparr>r_id = Some 1, r_brand = ''Nissan'', r_model = ''Versa'', r_year = 2020, r_price = 280000, r_km = None, r_location = NoLocColumn\<rparr>], rc_brand_list = [''Nissan''], rc_model_map = [(''Nissan'', [''Versa''])]\<rparr>
     ''busco nissan 2020'' 5 = []"
  using recommend_year_read_as_price
    [of "\<lparr>rc_df = [\<lparr>r_id = Some 1, r_brand = ''Nissan'', r_model = ''Versa'', r_year = 2020, r_price = 280000, r_km = None, r_location = NoLocColumn\<rparr>], rc_brand_list = [''Nissan''], rc_model_map = [(''Nissan'', [''Versa''])]\<rparr>"]
  by simp

text \<open>C15: \<open>format_recommendations\<close> raises \<open>TypeError\<close> (the value \<open>None\<close>) on
  any item whose location cell is NaN, as an empty cell of the CSV's location column is:
  NaN is truthy and \<open>", ".join\<close> rejects a float.\<close>

theorem format_recommendations_nan_location:
  "it \<in> set items \<Longrightarrow> i_location it = NaNLoc \<Longrightarrow> format_recommendations items = None"
  using reco_line_nan by (force simp: format_recommendations_def Let_def)

theorem format_recommendations_nan_location_witness:
  "format_recommendations [to_item (\<lparr>r_id = Some 1, r_brand = ''Nissan'', r_model = ''Versa'', r_year = 2020, r_price = 280000, r_km = None, r_location = NoLocColumn\<rparr>), to_item (\<lparr>r_id = Some 2, r_brand = ''Toyota'', r_model = ''Corolla'', r_year = 2021, r_price = 350000, r_km = None, r_location = NoLocColumn\<rparr>\<lparr>r_location := NaNLoc\<rparr>)] = None"
  using format_recommendations_nan_location
    [of "to_item (\<lparr>r_id = Some 2, r_brand = ''Toyota'', r_model = ''Corolla'', r_year = 2021, r_price = 350000, r_km = None, r_location = NoLocColumn\<rparr>\<lparr>r_location := NaNLoc\<rparr>)" "[to_item (\<lparr>r_id = Some 1, r_brand = ''Nissan'', r_model = ''Versa'', r_year = 2020, r_price = 280000, r_km = None, r_location = NoLocColumn\<rparr>), to_item (\<lparr>r_id = Some 2, r_brand = ''Toyota'', r_model = ''Corolla'', r_year = 2021, r_price = 350000, r_km = None, r_location = NoLocColumn\<rparr>\<lparr>r_location := NaNLoc\<rparr>)]"]
  by (simp add: to_item_def)

end
