(* ===== verification/Webhook.thy ===== *)
theory Webhook
  imports Router
begin

text \<open>
  The transport of \<open>src/app/main.py\<close> and \<open>src/app/config.py\<close>: the WhatsApp webhook
  (\<open>whatsapp_webhook\<close>), its signature check (\<open>_twilio_signature_is_valid\<close>), the
  chunking of a reply into messages (\<open>_chunk_for_whatsapp\<close>), the local \<open>/chat\<close>
  endpoint and the configuration read from the environment. The webhook calls a message
  handler, the interface it shares with the turn handler of \<open>Router\<close>: a function of the
  channel, the text, the user id and the state, returning the reply or the text of an
  exception, and the next state. \<open>router_handler\<close> is the handler of the program,
  \<open>route_message\<close> with a wording of its replies.

  A reply is a Python \<open>str\<close>, a list of Unicode code points (\<open>ustr\<close>); the form fields
  are Latin-1 strings, the alphabet of the turn handler. Twilio's \<open>RequestValidator\<close>
  (an HMAC of the URL and the fields) is a parameter, and the TwiML document the
  response serializes is the list of its messages.

  The theory also holds the properties of runs of the handler: a user who keeps asking
  for more results reaches the end of them.
\<close>

section \<open>Definitions\<close>

subsection \<open>Unicode text\<close>

type_synonym ustr = "nat list"

definition ustr_of :: "string \<Rightarrow> ustr" where
  "ustr_of s = map of_char s"

text \<open>\<open>str.isspace\<close> on code points: the characters of Unicode's whitespace and of the
  separator categories that Python counts.\<close>

definition u_isspace :: "nat \<Rightarrow> bool" where
  "u_isspace c \<longleftrightarrow>
     (9 \<le> c \<and> c \<le> 13) \<or> (28 \<le> c \<and> c \<le> 32) \<or> c = 133 \<or> c = 160 \<or> c = 5760 \<or>
     (8192 \<le> c \<and> c \<le> 8202) \<or> c = 8232 \<or> c = 8233 \<or> c = 8239 \<or> c = 8287 \<or> c = 12288"

definition u_strip :: "ustr \<Rightarrow> ustr" where
  "u_strip s = rev (dropWhile u_isspace (rev (dropWhile u_isspace s)))"

subsection \<open>Chunking\<close>

text \<open>\<open>range(0, n, step)\<close> for a positive step.\<close>

definition py_range_step :: "nat \<Rightarrow> nat \<Rightarrow> nat list" where
  "py_range_step n step = map (\<lambda>k. k * step) [0..<(n + step - 1) div step]"

text \<open>\<open>_chunk_for_whatsapp\<close>: \<open>range\<close> raises \<open>ValueError\<close> on a step of 0 (the value
  \<open>None\<close>) and is empty for a negative step; an empty list of slices becomes \<open>[""]\<close>.\<close>

definition chunk_for_whatsapp :: "ustr \<Rightarrow> int \<Rightarrow> ustr list option" where
  "chunk_for_whatsapp text max_len =
     (if max_len = 0 then None
      else let parts = (if max_len < 0 then []
                        else map (\<lambda>i. take (nat max_len) (drop i text)) (py_range_step (length text) (nat max_len)))
           in Some (if parts = [] then [[]] else parts))"

text \<open>The reference chunking: the first \<open>n\<close> characters, then the chunks of the rest.\<close>

function chunks :: "nat \<Rightarrow> 'a list \<Rightarrow> 'a list list" where
  "chunks n xs = (if xs = [] \<or> n = 0 then [] else take n xs # chunks n (drop n xs))"
  by pat_completeness auto
termination by (relation "measure (\<lambda>(n, xs). length xs)") auto

declare chunks.simps [simp del]

subsection \<open>Configuration and requests\<close>

text \<open>The environment of \<open>config.py\<close> as a partial map; \<open>TWILIO_VALIDATE\<close> is true only
  for the value \<open>"1"\<close>.\<close>

record webhook_config =
  cfg_validate :: bool
  cfg_auth_token :: string
  cfg_public_base :: string

definition env_get :: "(string \<Rightarrow> string option) \<Rightarrow> string \<Rightarrow> string \<Rightarrow> string" where
  "env_get env k dflt = (case env k of None \<Rightarrow> dflt | Some v \<Rightarrow> v)"

definition config_of_env :: "(string \<Rightarrow> string option) \<Rightarrow> webhook_config" where
  "config_of_env env =
     \<lparr>cfg_validate = (env_get env ''TWILIO_VALIDATE'' ''0'' = ''1''),
      cfg_auth_token = env_get env ''TWILIO_AUTH_TOKEN'' [],
      cfg_public_base = env_get env ''PUBLIC_BASE_URL'' []\<rparr>"

type_synonym form = "(string \<times> string) list"

text \<open>\<open>form.get(k)\<close> on Starlette's form data: the last value of the key.\<close>

definition form_get :: "form \<Rightarrow> string \<Rightarrow> string option" where
  "form_get f k = map_of (rev f) k"

record request =
  req_form :: form
  req_path :: string
  req_signature :: "string option"

text \<open>The validator: \<open>RequestValidator(auth).validate(url, fields, signature)\<close>.\<close>

type_synonym validator = "string \<Rightarrow> string \<Rightarrow> form \<Rightarrow> string \<Rightarrow> bool"

definition twilio_signature_is_valid :: "webhook_config \<Rightarrow> validator \<Rightarrow> string \<Rightarrow> form \<Rightarrow> string option \<Rightarrow> bool" where
  "twilio_signature_is_valid cfg v url flds signature =
     (if \<not> cfg_validate cfg then True
      else if cfg_auth_token cfg = [] \<or> opt_str signature = [] then False
      else v (cfg_auth_token cfg) url flds (the signature))"

text \<open>\<open>s.rstrip("/")\<close>.\<close>

definition rstrip_slash :: "string \<Rightarrow> string" where
  "rstrip_slash s = rev (dropWhile (\<lambda>c. c = CHR ''/'') (rev s))"

subsection \<open>The webhook\<close>

text \<open>A message handler: channel, text, user id and state to the reply (or the text of
  the exception it raised) and the next state.\<close>

type_synonym 'st handler = "string \<Rightarrow> string \<Rightarrow> string option \<Rightarrow> 'st \<Rightarrow> (ustr + ustr) \<times> 'st"

definition WELCOME_MSG :: ustr where
  "WELCOME_MSG =
     [161] @ ustr_of ''Hola! '' @ [191] @ ustr_of ''C'' @ [243] @ ustr_of ''mo est'' @ [225] @
     ustr_of ''s? Soy el asistente de Kavak '' @ [129302, 128663, 10, 10] @
     ustr_of ''Bienvenido a Kavak, ser'' @ [225] @ ustr_of '' un placer atenderte. '' @ [191] @
     ustr_of ''En qu'' @ [233] @ ustr_of '' te puedo ayudar hoy?'' @
     [10, 8226] @ ustr_of '' Buscar autos (ej. *busca sentra 2021*)'' @
     [10, 8226] @ ustr_of '' Filtrar por precio (ej. *entre 250k y 300k*)'' @
     [10, 8226] @ ustr_of '' Cotizar mensualidades (ej. *cotiza ID 320505 con 40 mil pesos*)'' @
     [10, 8226] @ ustr_of '' Ver m'' @ [225] @ ustr_of ''s resultados (ej. *ver 3 m'' @ [225] @ ustr_of ''s*)'' @
     [10, 8226] @ ustr_of '' Conocer nuestra propuesta de valor (ej. *'' @ [191] @ ustr_of ''Por qu'' @ [233] @
     ustr_of '' Kavak?*)'' @ [10, 10] @
     ustr_of ''Escribe *menu* o *ayuda* para ver estas opciones nuevamente.''"

definition ERROR_PREFIX :: ustr where
  "ERROR_PREFIX = ustr_of ''Lo siento, ocurri'' @ [243] @ ustr_of '' un error procesando tu mensaje: ''"

datatype webhook_response = Forbidden | TwiML "ustr list"

text \<open>
  \<open>whatsapp_webhook\<close>: the body, stripped; the sender (\<open>WaId\<close>, else \<open>From\<close>); the
  public URL of the request for the signature; then one call of the handler on the
  channel \<open>"whatsapp"\<close>, an exception turned into an apology, the reply cut into chunks
  of 1200 characters, the blank chunks dropped, and the welcome message if none is left.
\<close>

definition whatsapp_webhook ::
  "webhook_config \<Rightarrow> validator \<Rightarrow> 'st handler \<Rightarrow> request \<Rightarrow> 'st \<Rightarrow> webhook_response \<times> 'st" where
  "whatsapp_webhook cfg v h req st =
     (let flds = req_form req;
          body_text = py_strip (opt_str (form_get flds ''Body''));
          from_number = opt_str (form_get flds ''From'');
          waid = (if opt_str (form_get flds ''WaId'') \<noteq> [] then the (form_get flds ''WaId'') else from_number);
          public_url = rstrip_slash (cfg_public_base cfg) @ req_path req
      in if \<not> twilio_signature_is_valid cfg v public_url flds (req_signature req) then (Forbidden, st)
         else
           let (res, st') = h ''whatsapp'' body_text (Some waid) st;
               reply_text = (case res of Inl e \<Rightarrow> ERROR_PREFIX @ e | Inr r \<Rightarrow> r);
               parts = filter (\<lambda>p. u_strip p \<noteq> []) (the (chunk_for_whatsapp reply_text 1200))
           in (TwiML (if parts = [] then [WELCOME_MSG] else parts), st'))"

text \<open>\<open>/chat\<close>: the handler on the channel \<open>"local"\<close>; an exception is not caught (the
  framework answers 500).\<close>

definition chat_endpoint :: "'st handler \<Rightarrow> string \<Rightarrow> 'st \<Rightarrow> (ustr + ustr) \<times> 'st" where
  "chat_endpoint h text st = h ''local'' text None st"

text \<open>The handler of the program: \<open>route_message\<close>, whose \<open>user_id\<close> argument is not
  read, with the wording \<open>render\<close> of its replies.\<close>

definition router_handler ::
  "scorers \<Rightarrow> car list \<Rightarrow> (string list \<Rightarrow> string list) \<Rightarrow> (reply \<Rightarrow> ustr) \<Rightarrow> bot handler" where
  "router_handler sc cat ord render ch text user_id st =
     (let (r, st') = route_message sc cat ord st ch text in (Inr (render r), st'))"

subsection \<open>Runs\<close>

text \<open>The measure of a channel's pagination: the cars of the catalog past its offset.\<close>

definition offset_measure :: "car list \<Rightarrow> string \<Rightarrow> bot \<Rightarrow> nat" where
  "offset_measure cat ch st = length cat - get_default (last_offset st) ch 0"


text \<open>\<open>k\<close> turns of the same message on one channel: the replies and the last state.\<close>

fun turns ::
  "scorers \<Rightarrow> car list \<Rightarrow> (string list \<Rightarrow> string list) \<Rightarrow> string \<Rightarrow> string \<Rightarrow> nat \<Rightarrow> bot \<Rightarrow> reply list \<times> bot" where
  "turns sc cat ord ch raw 0 st = ([], st)"
| "turns sc cat ord ch raw (Suc k) st =
     (let (r, st') = route_message sc cat ord st ch raw;
          (rs, st'') = turns sc cat ord ch raw k st'
      in (r # rs, st''))"


section \<open>Lemmas\<close>

lemma chunks_Nil_iff [simp]: "chunks n xs = [] \<longleftrightarrow> xs = [] \<or> n = 0"
  by (subst chunks.simps) auto

lemma chunks_Nil [simp]: "chunks n [] = []" and chunks_0 [simp]: "chunks 0 xs = []"
  by (subst chunks.simps, simp)+

lemma chunks_Cons: "xs \<noteq> [] \<Longrightarrow> 0 < n \<Longrightarrow> chunks n xs = take n xs # chunks n (drop n xs)"
  by (subst chunks.simps) simp

lemma concat_chunks: "0 < n \<Longrightarrow> concat (chunks n xs) = xs"
proof (induction n xs rule: chunks.induct)
  case (1 n xs)
  then show ?case by (cases "xs = []") (simp_all add: chunks_Cons)
qed

lemma set_chunks: "c \<in> set (chunks n xs) \<Longrightarrow> c \<noteq> [] \<and> length c \<le> n"
proof (induction n xs rule: chunks.induct)
  case (1 n xs)
  show ?case
  proof (cases "xs = [] \<or> n = 0")
    case True
    then show ?thesis using "1.prems" by auto
  next
    case False
    then have "chunks n xs = take n xs # chunks n (drop n xs)" by (simp add: chunks_Cons)
    then have "c = take n xs \<or> c \<in> set (chunks n (drop n xs))" using "1.prems" by simp
    then show ?thesis using "1.IH" False by auto
  qed
qed

lemma py_range_step_Cons:
  assumes n: "0 < n" and xs: "xs \<noteq> []"
  shows "py_range_step (length xs) n = 0 # map (\<lambda>i. i + n) (py_range_step (length xs - n) n)"
proof -
  have l: "1 \<le> length xs" using xs by (cases xs) auto
  have a: "(length xs + n - 1) div n = Suc ((length xs - 1) div n)"
  proof -
    have e: "length xs + n - 1 = (length xs - 1) + n" using l by simp
    have "((length xs - 1) + n) div n = Suc ((length xs - 1) div n)" using n by simp
    then show ?thesis by (simp only: e)
  qed
  have b: "(length xs - n + n - 1) div n = (length xs - 1) div n"
  proof (cases "n < length xs")
    case True
    then show ?thesis by simp
  next
    case False
    then show ?thesis using n l by simp
  qed
  have u: "[0..<Suc k] = 0 # map Suc [0..<k]" for k by (simp add: upt_conv_Cons map_Suc_upt)
  show ?thesis unfolding py_range_step_def a b u
    by (simp only: list.map map_map comp_def mult_Suc mult_0 add.commute)
qed

lemma chunks_eq_range:
  "0 < n \<Longrightarrow> chunks n xs = map (\<lambda>i. take n (drop i xs)) (py_range_step (length xs) n)"
proof (induction n xs rule: chunks.induct)
  case (1 n xs)
  show ?case
  proof (cases "xs = []")
    case True
    have "(n - Suc 0) div n = 0" using "1.prems" by simp
    then show ?thesis using True by (simp add: py_range_step_def)
  next
    case False
    have "chunks n xs = take n xs # chunks n (drop n xs)" using False "1.prems" by (rule chunks_Cons)
    also have "\<dots> = take n xs # map (\<lambda>i. take n (drop i (drop n xs))) (py_range_step (length xs - n) n)"
      using "1.IH" False "1.prems" by simp
    also have "\<dots> = map (\<lambda>i. take n (drop i xs)) (py_range_step (length xs) n)"
      using py_range_step_Cons [OF "1.prems" False] by (simp add: add.commute)
    finally show ?thesis .
  qed
qed

lemma chunk_for_whatsapp_pos:
  "0 < max_len \<Longrightarrow> chunk_for_whatsapp s max_len = Some (if s = [] then [[]] else chunks (nat max_len) s)"
  using chunks_eq_range [of "nat max_len" s] by (auto simp: chunk_for_whatsapp_def Let_def)

lemma all_set_dropWhile: "(\<forall>x \<in> set (dropWhile P s). P x) \<longleftrightarrow> (\<forall>x \<in> set s. P x)"
  by (induction s) auto

lemma u_strip_Nil_iff: "u_strip s = [] \<longleftrightarrow> (\<forall>c \<in> set s. u_isspace c)"
  by (simp add: u_strip_def dropWhile_eq_Nil_conv all_set_dropWhile)

lemma length_lock_filter_le: "length (lock_filter col lk cs) \<le> length cs"
  by (simp add: lock_filter_def split: option.split)

lemma length_numeric_filter_le: "length (numeric_filter f cs) \<le> length cs"
  unfolding numeric_filter_def Let_def
  by (auto split: option.split intro: le_trans [OF length_filter_le])

lemma length_rank [simp]: "length (rank y cs) = length cs"
  by (simp add: rank_def split: option.split)

lemma search_cars_count_le: "search_cars_count sc cat f \<le> length cat"
  unfolding search_cars_count_def filtered_df_def Let_def
  by (auto intro!: order.trans [OF length_numeric_filter_le] order.trans [OF length_lock_filter_le])

lemma route_ver_mas: "route_message sc cat ord st ch ''ver mas'' = paginate_turn sc cat st ch ''ver mas'' []"
proof -
  have n: "\<not> match_prop_valor_kavak ''ver mas''" "re_match GREET_RE ''ver mas'' = None"
    "re_match YES_RE_RAW ''ver mas'' = None" "re_match NO_RE_RAW ''ver mas'' = None"
    "re_match CONTACT_RE ''ver mas'' = None" "re_search COTIZA_RE ''ver mas'' = None"
    "re_search PAGINATE_RE ''ver mas'' = Some (0, 7, [])" by code_simp+
  show ?thesis unfolding route_message_def using n by simp
qed

lemma paginate_progress:
  assumes inv: "bot_inv st" and p: "paginate_turn sc cat st ch ''ver mas'' [] = (r, st')"
  shows "r = NoMoreResults \<or> r = NoPreviousSearch \<or> offset_measure cat ch st' < offset_measure cat ch st"
proof (cases "last_filters st ch")
  case None
  then show ?thesis using p by (simp add: paginate_turn_def)
next
  case (Some bf)
  obtain ofs lmt where o: "last_offset st ch = Some ofs" and l: "last_limit st ch = Some lmt"
    using bot_inv_cursor [OF inv] Some by blast
  have l1: "1 \<le> lmt" using inv l by (simp add: bot_inv_def)
  have tot: "search_cars_count sc cat bf \<le> length cat" by (rule search_cars_count_le)
  show ?thesis
  proof (cases "filters_empty bf \<or> search_cars_count sc cat bf \<le> ofs + lmt")
    case True
    then show ?thesis using p Some o l by (auto simp: paginate_turn_def Let_def get_default_def split: if_splits)
  next
    case False
    then have st': "st' = snd (next_page sc cat st ch bf (ofs + lmt)
        (min (max (get_default (last_limit st) ch 5) 1) (search_cars_count sc cat bf - (ofs + lmt))))"
      using p Some o l by (auto simp: paginate_turn_def Let_def get_default_def group_def py_or_def opt_str_def)
    have "last_offset st' ch = Some (ofs + lmt)" unfolding st' by (simp add: next_page_def Let_def)
    moreover have "length cat - (ofs + lmt) < length cat - ofs" using False l1 tot by linarith
    ultimately show ?thesis using o by (simp add: offset_measure_def get_default_def)
  qed
qed

lemma turns_reach_end:
  "bot_inv st \<Longrightarrow> offset_measure cat ch st \<le> n \<Longrightarrow>
   \<exists>r \<in> set (fst (turns sc cat ord ch ''ver mas'' (Suc n) st)). r = NoMoreResults \<or> r = NoPreviousSearch"
proof (induction n arbitrary: st)
  case 0
  obtain r st' where p: "paginate_turn sc cat st ch ''ver mas'' [] = (r, st')" by fastforce
  then have "r = NoMoreResults \<or> r = NoPreviousSearch" using paginate_progress [OF "0.prems"(1) p] "0.prems"(2) by simp
  then show ?case using p by (simp add: route_ver_mas split: prod.split)
next
  case (Suc n)
  obtain r st' where p: "paginate_turn sc cat st ch ''ver mas'' [] = (r, st')" by fastforce
  have inv': "bot_inv st'" using paginate_turn_inv [OF Suc.prems(1), of sc cat ch "''ver mas''" "[]"] p by simp
  show ?case
  proof (cases "r = NoMoreResults \<or> r = NoPreviousSearch")
    case True
    then show ?thesis using p by (auto simp: route_ver_mas split: prod.split)
  next
    case False
    then have "offset_measure cat ch st' \<le> n" using paginate_progress [OF Suc.prems(1) p] Suc.prems(2) by simp
    then have "\<exists>r \<in> set (fst (turns sc cat ord ch ''ver mas'' (Suc n) st')). r = NoMoreResults \<or> r = NoPreviousSearch"
      using Suc.IH inv' by blast
    then show ?thesis using p by (auto simp: route_ver_mas split: prod.split)
  qed
qed

section \<open>Properties\<close>



text \<open>C29: Every WhatsApp sender shares one conversation: the webhook runs the turn handler on the channel \<open>whatsapp\<close> and the user id it passes is never read, so the state after a message does not depend on who sent it: one user's search, pages and quotes are what the next user's \<open>ver m\<a'acute>s\<close> or \<open>s\<i'acute>\<close> acts on, whereas the specification keys a conversation by its channel id and makes different channels independent.\<close>

theorem whatsapp_webhook_one_conversation:
  "\<not> cfg_validate cfg \<Longrightarrow>
   snd (whatsapp_webhook cfg v (router_handler sc cat ord render) req st) =
   snd (route_message sc cat ord st ''whatsapp'' (py_strip (opt_str (form_get (req_form req) ''Body''))))"
  by (simp add: whatsapp_webhook_def twilio_signature_is_valid_def router_handler_def Let_def split: prod.split)

theorem whatsapp_webhook_one_conversation_witness:
  "snd (whatsapp_webhook \<lparr>cfg_validate = False, cfg_auth_token = [], cfg_public_base = []\<rparr> (\<lambda>_ _ _ _. True) (router_handler exact_scorers demo_catalog id (\<lambda>_. [])) \<lparr>req_form = [(''Body'', ''ver mas''), (''From'', ''whatsapp:+521111''), (''WaId'', ''521111'')], req_path = ''/whatsapp'', req_signature = None\<rparr> bot0) =
   snd (whatsapp_webhook \<lparr>cfg_validate = False, cfg_auth_token = [], cfg_public_base = []\<rparr> (\<lambda>_ _ _ _. True) (router_handler exact_scorers demo_catalog id (\<lambda>_. [])) \<lparr>req_form = [(''Body'', ''ver mas''), (''From'', ''whatsapp:+522222''), (''WaId'', ''522222'')], req_path = ''/whatsapp'', req_signature = None\<rparr> bot0)"
  using whatsapp_webhook_one_conversation [of "\<lparr>cfg_validate = False, cfg_auth_token = [], cfg_public_base = []\<rparr>" "\<lambda>_ _ _ _. True" exact_scorers demo_catalog id "\<lambda>_. []"
      "\<lparr>req_form = [(''Body'', ''ver mas''), (''From'', ''whatsapp:+521111''), (''WaId'', ''521111'')], req_path = ''/whatsapp'', req_signature = None\<rparr>" bot0]
    whatsapp_webhook_one_conversation [of "\<lparr>cfg_validate = False, cfg_auth_token = [], cfg_public_base = []\<rparr>" "\<lambda>_ _ _ _. True" exact_scorers demo_catalog id "\<lambda>_. []"
      "\<lparr>req_form = [(''Body'', ''ver mas''), (''From'', ''whatsapp:+522222''), (''WaId'', ''522222'')], req_path = ''/whatsapp'', req_signature = None\<rparr>" bot0]
  by (simp add: form_get_def)

text \<open>C33: Liveness of pagination: from any reachable state, a user who keeps sending \<open>ver mas\<close> gets an end-of-results reply (no more results, or no previous search) within one more message than the catalog has cars, because each page moves the stored offset forward by a page size of at least 1 and the offset stays below the number of matches.\<close>

theorem pagination_reaches_end:
  "reachable sc cat ord st \<Longrightarrow>
   \<exists>r \<in> set (fst (turns sc cat ord ch ''ver mas'' (Suc (length cat)) st)). r = NoMoreResults \<or> r = NoPreviousSearch"
  by (rule turns_reach_end) (simp_all add: reachable_bot_inv offset_measure_def)

theorem pagination_reaches_end_witness:
  "\<exists>r. r \<in> set (fst (turns exact_scorers demo_catalog id ''whatsapp'' ''ver mas'' (Suc (length demo_catalog)) bot0)) \<and>
       (r = NoMoreResults \<or> r = NoPreviousSearch)"
  using pagination_reaches_end [of exact_scorers demo_catalog id bot0 "''whatsapp''"]
    reachable.init [of exact_scorers demo_catalog id] by blast

text \<open>C37: Round trip of \<open>_chunk_for_whatsapp\<close>: for a positive maximum, the chunks concatenate back to the text, there is at least one, none is longer than the maximum, and none is empty unless the text is.\<close>

theorem chunk_for_whatsapp_roundtrip:
  assumes "0 < max_len" and "chunk_for_whatsapp s max_len = Some cs"
  shows "concat cs = s \<and> cs \<noteq> [] \<and> (\<forall>c \<in> set cs. length c \<le> nat max_len \<and> (s \<noteq> [] \<longrightarrow> c \<noteq> []))"
proof (cases "s = []")
  case True
  then show ?thesis using assms chunk_for_whatsapp_pos [OF assms(1), of s] by simp
next
  case False
  then have cs: "cs = chunks (nat max_len) s" using assms chunk_for_whatsapp_pos [OF assms(1), of s] by simp
  have "concat cs = s" using cs concat_chunks [of "nat max_len" s] assms(1) by simp
  moreover have "cs \<noteq> []" using cs False assms(1) by simp
  moreover have "\<forall>c \<in> set cs. length c \<le> nat max_len \<and> c \<noteq> []" using cs set_chunks by blast
  ultimately show ?thesis by blast
qed

theorem chunk_for_whatsapp_roundtrip_witness:
  "chunk_for_whatsapp (ustr_of ''abc'') 2 = Some [ustr_of ''ab'', ustr_of ''c''] \<and>
   concat [ustr_of ''ab'', ustr_of ''c''] = ustr_of ''abc''"
proof -
  have c: "chunk_for_whatsapp (ustr_of ''abc'') 2 = Some [ustr_of ''ab'', ustr_of ''c'']" by code_simp
  show ?thesis using chunk_for_whatsapp_roundtrip [OF _ c] c by simp
qed

text \<open>C38: \<open>_chunk_for_whatsapp\<close> is the reference chunking (the first \<open>n\<close> characters, then the chunks of the rest) for a positive maximum, with \<open>[""]\<close> for an empty text; a maximum of 0 raises \<open>ValueError\<close> and a negative one gives \<open>[""]\<close>.\<close>

theorem chunk_for_whatsapp_eq_chunks:
  "chunk_for_whatsapp s 0 = None \<and>
   (max_len < 0 \<longrightarrow> chunk_for_whatsapp s max_len = Some [[]]) \<and>
   (0 < max_len \<longrightarrow> chunk_for_whatsapp s max_len = Some (if s = [] then [[]] else chunks (nat max_len) s))"
  using chunk_for_whatsapp_pos [of max_len s] by (simp add: chunk_for_whatsapp_def)

theorem chunk_for_whatsapp_eq_chunks_witness:
  "chunk_for_whatsapp (ustr_of ''abc'') 2 = Some [ustr_of ''ab'', ustr_of ''c''] \<and>
   chunk_for_whatsapp (ustr_of ''abc'') (-1) = Some [[]] \<and> chunk_for_whatsapp (ustr_of ''abc'') 0 = None"
  using chunk_for_whatsapp_eq_chunks [of "ustr_of ''abc''" 2] chunk_for_whatsapp_eq_chunks [of "ustr_of ''abc''" "-1"]
  by (simp add: ustr_of_def chunks_Cons)

end
