(* ===== verification/Knowledge.thy ===== *)
theory Knowledge
  imports Webhook Render
begin

text \<open>
  The knowledge base: \<open>kb_answer\<close>, \<open>_build_prompt\<close> and \<open>postprocess_no_info\<close> of
  \<open>src/app/nlp/retriever.py\<close>, the wrapper \<open>kb_tool\<close> of \<open>src/app/nlp/tools.py\<close> that
  \<open>route_message\<close> calls for the \<open>kb\<close> intent, and the offline scripts that feed the
  system: \<open>chunk_text\<close> and the metadata of \<open>src/scripts/build_faiss.py\<close>.
  The collaborators are parameters of \<open>kb_env\<close>: the FAISS index with its metadata
  (absent when the files are missing), the embedding search (the row \<open>I[0]\<close> of
  \<open>index.search\<close>, in which FAISS pads with \<open>-1\<close>; \<open>None\<close> when the embedding or the
  search raised, an exception that \<open>kb_answer\<close> lets through), the API key and the chat
  completion, which returns its text or the text of the exception it raised. The texts the
  code computes on (query, passages, model answer) are Latin-1 strings; the reply is a
  \<open>ustr\<close> of \<open>Webhook\<close>, because the static answer holds characters beyond Latin-1.
\<close>

section \<open>Definitions\<close>

subsection \<open>Answers\<close>

text \<open>A metadata entry of \<open>kb_meta.json\<close> (\<open>{"id": i, "text": chunk}\<close>) or the manual
  source of the static answer (\<open>{"text": ...}\<close>, no id).\<close>

record kb_entry =
  ke_id :: "int option"
  ke_text :: string

record kb_result =
  kr_answer :: ustr
  kr_sources :: "kb_entry list"

record kb_env =
  kb_index :: "kb_entry list option"
  kb_search :: "string \<Rightarrow> nat \<Rightarrow> int list option"
  kb_api_key :: string
  kb_llm :: "string \<Rightarrow> (string \<times> ustr) list \<Rightarrow> string + string"

definition MANUAL_SOURCE :: kb_entry where
  "MANUAL_SOURCE = \<lparr>ke_id = None, ke_text = ''Fuente: texts.py (manual)''\<rparr>"

definition PROPUESTA_VALOR_KAVAK :: ustr where
  "PROPUESTA_VALOR_KAVAK =
     ustr_of ''*La propuesta de valor de Kavak se basa en:*'' @ [10] @
     ustr_of ''1. *Confianza y seguridad* '' @ [8594] @ ustr_of '' inspecciones rigurosas, certificaci'' @
     [243] @ ustr_of ''n y garant'' @ [237] @ ustr_of ''as extendidas.'' @ [10] @
     ustr_of ''2. *Financiamiento accesible* '' @ [8594] @ ustr_of '' cr'' @ [233] @ ustr_of ''ditos m'' @
     [225] @ ustr_of ''s justos mediante Kavak Capital.'' @ [10] @
     ustr_of ''3. *Experiencia integrada y conveniente* '' @ [8594] @
     ustr_of '' proceso end-to-end desde inspecci'' @ [243] @ ustr_of ''n hasta entrega.'' @ [10] @
     ustr_of ''4. *Uso intensivo de tecnolog'' @ [237] @ ustr_of ''a y datos* '' @ [8594] @
     ustr_of '' valuaciones justas y eficiencia operativa.'' @ [10] @ ustr_of ''5. *Atenci'' @ [243] @
     ustr_of ''n al cliente y postventa de calidad* '' @ [8594] @ ustr_of '' pol'' @ [237] @
     ustr_of ''ticas claras, reembolsos y opciones flexibles.'' @ [10] @
     ustr_of ''6. *Inventario amplio y diversificado* '' @ [8594] @
     ustr_of '' autos seminuevos en distintas gamas y precios.'' @ [10, 10, 128073] @ ustr_of '' '' @ [191] @
     ustr_of ''Quieres saber m'' @ [225] @ ustr_of ''s? Consulta la informaci'' @ [243] @
     ustr_of ''n oficial de Kavak en:'' @ [10] @
     ustr_of ''https://www.kavak.com/mx/blog/sedes-de-kavak-en-mexico''"

definition SYSTEM_PROMPT :: ustr where
  "SYSTEM_PROMPT =
     ustr_of ''Eres un asistente de soporte de Kavak. Responde en espa'' @ [241] @
     ustr_of ''ol, de forma clara, concisa y basada EXCLUSIVAMENTE en el contexto provisto. Si la respuesta no est'' @
     [225] @ ustr_of '' en el contexto, dilo expl'' @ [237] @ ustr_of ''citamente y A'' @ [209] @
     ustr_of ''ADE esta frase al final: '' @ [8220, 191] @
     ustr_of ''Quieres que te ponga en contacto con un agente de Kavak?'' @ [8221]"

text \<open>\<open>_build_prompt\<close>: the passages joined by blank lines under the question.\<close>

definition build_prompt :: "string \<Rightarrow> kb_entry list \<Rightarrow> (string \<times> ustr) list" where
  "build_prompt query snippets =
     (let contexto = py_join [CHR 0x0A, CHR 0x0A] (map ke_text snippets)
      in [(''system'', SYSTEM_PROMPT),
          (''user'', ustr_of (''Pregunta del usuario: '' @ query @ [CHR 0x0A, CHR 0x0A] @ ''Contexto:'' @
                              CHR 0x0A # contexto))])"

definition AGENT_OFFER :: string where
  "AGENT_OFFER = [CHR 0x0A, CHR 0x0A] @ CHR 0xBF # ''Quieres que te ponga en contacto con un agente de Kavak?''"

definition NEG_PATTERNS :: "string list" where
  "NEG_PATTERNS =
     [''no hay informaci'' @ CHR 0xF3 # ''n disponible en el contexto'',
      ''no encontr'' @ CHR 0xE9 # '' informaci'' @ CHR 0xF3 # ''n relacionada'',
      ''no tengo informaci'' @ CHR 0xF3 # ''n disponible en el contexto'',
      ''no se menciona en el contexto'', ''no se encuentra en el contexto'',
      ''no tengo informaci'' @ CHR 0xF3 # ''n'']"

text \<open>\<open>postprocess_no_info\<close>: an answer that says it has no information, and does not
  already offer an agent, gets the offer appended.\<close>

definition postprocess_no_info :: "string \<Rightarrow> string" where
  "postprocess_no_info text =
     (let t = py_strip text; low = py_lower t
      in if list_ex (\<lambda>p. has_sub p low) NEG_PATTERNS \<and> \<not> has_sub ''agente de kavak'' low
         then t @ AGENT_OFFER else t)"

definition o_acute :: rx where "o_acute = one_of [CHR ''o'', CHR 0xF3]"

definition informacion :: rx where "informacion = seqs [lit ''informaci'', o_acute, lit ''n'']"

text \<open>The patterns \<open>NOINFO_PATTERNS\<close> of \<open>kb_answer\<close>, searched in the lowered answer.\<close>

definition NOINFO_RES :: "rx list" where
  "NOINFO_RES =
     [seqs [WordB, lit ''no '', alts [lit ''tengo'', lit ''dispongo'', lit ''cuento''], lit '' '',
            alts [informacion, lit ''info''], WordB],
      seqs [WordB, lit ''no '', alts [lit ''hay'', lit ''existe''], lit '' '', alts [informacion, lit ''datos''], WordB],
      seqs [WordB, lit ''no encontr'', one_of [CHR ''e'', CHR 0xE9], lit '' '', alts [informacion, lit ''datos''], WordB],
      seqs [WordB, lit ''no se menciona'', WordB],
      seqs [WordB, lit ''no '', alts [seqs [lit ''est'', one_of [CHR ''a'', CHR 0xE1]], lit ''figura'', lit ''aparece''],
            lit '' en el contexto'', WordB],
      seqs [WordB, lit ''no '', Star any_rx, lit '' en el contexto'', WordB],
      seqs [alts [lit ''contexto'', lit ''proporcionado''], Star any_rx, alts [lit ''sin'', lit ''no''], Star any_rx,
            informacion],
      seqs [lit ''no tengo '', informacion, lit '' disponible en el contexto'']]"

definition KB_TRIGGERS :: "string list" where
  "KB_TRIGGERS =
     [''propuesta de valor'', ''propuesta valor'', ''valor de kavak'', ''por que kavak'', ''porque kavak'',
      ''por que elegir kavak'', ''por que comprar en kavak'', ''por que comprar con kavak'',
      ''por que elegir a kavak'', ''por que kavak'', ''por que en kavak'', ''que ofrece kavak'',
      ''qu'' @ CHR 0xE9 # '' ofrece kavak'', ''porque elegir kavak'', ''por que comprar con kavak'',
      ''por que confiar en kavak'', ''porque confiar en kavak'']"

definition NO_INDEX_MSG :: string where
  "NO_INDEX_MSG = ''La base de conocimiento no est'' @ CHR 0xE1 # '' construida a'' @ CHR 0xFA #
                  ''n. Ejecuta scripts/build_faiss.py''"

definition NO_HITS_MSG :: string where
  "NO_HITS_MSG = ''No encontr'' @ CHR 0xE9 # '' informaci'' @ CHR 0xF3 # ''n relacionada con tu criterio de b'' @
                 CHR 0xFA # ''squeda. '' @ CHR 0xBF # ''Quieres que te ponga en contacto con un agente de Kavak?''"

definition EMPTY_ANSWER_MSG :: string where
  "EMPTY_ANSWER_MSG = ''No encontr'' @ CHR 0xE9 # '' informaci'' @ CHR 0xF3 # ''n suficiente referente a tu pregunta. '' @
                      CHR 0xBF # ''Quieres que te ponga en contacto con un agente de Kavak?''"

text \<open>The answer after an exception \<open>e\<close> of the chat completion.\<close>

definition LLM_FAIL_MSG :: "string \<Rightarrow> string \<Rightarrow> string" where
  "LLM_FAIL_MSG e contexto =
     ''No pude generar la respuesta autom'' @ CHR 0xE1 # ''ticamente ('' @ e @
     ''). Te comparto el contexto relevante encontrado:'' @ [CHR 0x0A, CHR 0x0A] @ contexto"

text \<open>
  \<open>kb_answer(query, k)\<close>: the static answer for a value-proposition question; otherwise
  the passages at the valid indices the search returns (\<open>None\<close> when the search raised), drafted by the chat model (or
  quoted as they are without an API key, or after the model failed), with the offer of an
  agent appended to an answer that says it found nothing.
\<close>

definition kb_answer :: "kb_env \<Rightarrow> string \<Rightarrow> nat \<Rightarrow> kb_result option" where
  "kb_answer env query k =
     (let q_norm = unidecode (py_lower (py_strip query))
      in if list_ex (\<lambda>kw. has_sub kw q_norm) KB_TRIGGERS
         then Some \<lparr>kr_answer = PROPUESTA_VALOR_KAVAK, kr_sources = [MANUAL_SOURCE]\<rparr>
         else case kb_index env of
           None \<Rightarrow> Some \<lparr>kr_answer = ustr_of NO_INDEX_MSG, kr_sources = []\<rparr>
         | Some meta \<Rightarrow>
           (case kb_search env query k of
              None \<Rightarrow> None
            | Some row \<Rightarrow>
             let hits = map (\<lambda>i. meta ! nat i) (filter (\<lambda>i. 0 \<le> i \<and> i < int (length meta)) row)
             in if hits = [] then Some \<lparr>kr_answer = ustr_of NO_HITS_MSG, kr_sources = []\<rparr>
                else
                  let api_key = py_strip (kb_api_key env);
                      contexto = py_join [CHR 0x0A, CHR 0x0A] (map ke_text hits)
                  in if api_key = [] then
                       Some \<lparr>kr_answer = ustr_of (''No tengo acceso al modelo de lenguaje (falta OPENAI_API_KEY). '' @
                           ''A continuaci'' @ CHR 0xF3 # ''n, el contexto relevante encontrado:'' @ [CHR 0x0A, CHR 0x0A] @
                           contexto),
                        kr_sources = hits\<rparr>
                     else
                       let a0 = (case kb_llm env api_key (build_prompt query hits) of
                                   Inr content \<Rightarrow> py_strip content
                                 | Inl e \<Rightarrow> LLM_FAIL_MSG e contexto);
                           a1 = (if a0 = [] then EMPTY_ANSWER_MSG else a0);
                           ans_l = py_lower a1;
                           a2 = (if list_ex (\<lambda>p. re_search p ans_l \<noteq> None) NOINFO_RES \<and>
                                    \<not> has_sub ''agente de kavak'' ans_l
                                 then a1 @ AGENT_OFFER else a1)
                       in Some \<lparr>kr_answer = ustr_of (postprocess_no_info a2), kr_sources = hits\<rparr>))"

subsection \<open>The wrapper of \<open>tools.py\<close>\<close>

text \<open>\<open>repr\<close> of a Latin-1 \<open>str\<close>: single quotes unless the text has a single quote and
  no double quote; backslash, the quote, tab, newline and return escaped, the other
  characters that are not printable (the C0 and C1 controls, delete, the no-break space
  and the soft hyphen) as \<open>\xhh\<close>.\<close>

definition hex_digit :: "nat \<Rightarrow> char" where
  "hex_digit d = (if d < 10 then char_of (48 + d) else char_of (87 + d))"

definition repr_char :: "char \<Rightarrow> char \<Rightarrow> string" where
  "repr_char q c =
     (let n = (of_char c :: nat)
      in if c = CHR 0x5C then [CHR 0x5C, CHR 0x5C]
         else if c = q then [CHR 0x5C, q]
         else if c = CHR 0x09 then [CHR 0x5C, CHR ''t'']
         else if c = CHR 0x0A then [CHR 0x5C, CHR ''n'']
         else if c = CHR 0x0D then [CHR 0x5C, CHR ''r'']
         else if n < 32 \<or> (127 \<le> n \<and> n \<le> 160) \<or> n = 173
         then [CHR 0x5C, CHR ''x'', hex_digit (n div 16), hex_digit (n mod 16)]
         else [c])"

definition py_repr_str :: "string \<Rightarrow> string" where
  "py_repr_str s =
     (let q = (if CHR 0x27 \<in> set s \<and> CHR 0x22 \<notin> set s then CHR 0x22 else CHR 0x27)
      in q # concat (map (repr_char q) s) @ [q])"

text \<open>\<open>f"- {s}"\<close> of a source: the \<open>repr\<close> of the dictionary, keys in insertion order.\<close>

definition repr_entry :: "kb_entry \<Rightarrow> string" where
  "repr_entry e =
     (case ke_id e of
        None \<Rightarrow> ''{'' @ py_repr_str ''text'' @ '': '' @ py_repr_str (ke_text e) @ ''}''
      | Some i \<Rightarrow> ''{'' @ py_repr_str ''id'' @ '': '' @ py_str_int i @ '', '' @ py_repr_str ''text'' @ '': '' @
                  py_repr_str (ke_text e) @ ''}'')"

text \<open>\<open>kb_tool\<close>: \<open>available\<close> is whether \<open>retriever\<close> can be imported (FAISS, the
  embedding model and the OpenAI client installed).\<close>

definition kb_tool :: "bool \<Rightarrow> kb_env \<Rightarrow> string \<Rightarrow> ustr" where
  "kb_tool available env question =
     (if \<not> available then ustr_of (''La base de conocimiento no est'' @ CHR 0xE1 # '' disponible por ahora.'')
      else
        case kb_answer env question 4 of
          None \<Rightarrow> ustr_of ''No pude consultar la base de conocimiento en este momento.''
        | Some res \<Rightarrow>
        let srcs = kr_sources res;
            suffix = (if srcs \<noteq> [] then
                        ustr_of ([CHR 0x0A, CHR 0x0A] @ ''Fuentes:'' @ CHR 0x0A #
                                 py_join [CHR 0x0A] (map (\<lambda>s. ''- '' @ repr_entry s) srcs))
                      else [])
        in (if kr_answer res = [] then
              ustr_of (''No encontr'' @ CHR 0xE9 # '' informaci'' @ CHR 0xF3 # ''n en la base de conocimiento.'')
            else kr_answer res) @ suffix)"

subsection \<open>\<open>scripts/build_faiss.py\<close>\<close>

text \<open>\<open>xs[i:j]\<close> with Python's bounds: a negative bound counts from the end, and both
  are clamped to the list.\<close>

definition py_slice_bound :: "nat \<Rightarrow> int \<Rightarrow> nat" where
  "py_slice_bound n i = (if i < 0 then nat (max (i + int n) 0) else min (nat i) n)"

definition py_slice :: "'a list \<Rightarrow> int \<Rightarrow> int \<Rightarrow> 'a list" where
  "py_slice xs i j =
     (let a = py_slice_bound (length xs) i; b = py_slice_bound (length xs) j in take (b - a) (drop a xs))"

text \<open>
  \<open>chunk_text(text, chunk_size, overlap)\<close>: windows of \<open>chunk_size\<close> characters of the
  stripped text, each starting \<open>overlap\<close> characters before the end of the previous one,
  the blank windows dropped. The loop state is \<open>(start, chunks, stopped)\<close>, where
  \<open>stopped\<close> is the \<open>break\<close>; the loop need not end, so \<open>None\<close> is a loop that runs
  forever.
\<close>

definition chunk_step :: "string \<Rightarrow> int \<Rightarrow> int \<Rightarrow> int \<times> string list \<times> bool \<Rightarrow> int \<times> string list \<times> bool" where
  "chunk_step t chunk_size overlap st =
     (let (start, chunks, _) = st; n = int (length t);
          end' = min (start + chunk_size) n;
          chunk = py_slice t start end';
          chunks' = (if py_strip chunk \<noteq> [] then chunks @ [chunk] else chunks)
      in if end' = n then (start, chunks', True) else (max (end' - overlap) 0, chunks', False))"

definition chunk_text :: "string \<Rightarrow> int \<Rightarrow> int \<Rightarrow> string list option" where
  "chunk_text text chunk_size overlap =
     (let t = py_strip text
      in map_option (fst \<circ> snd)
           (while_option (\<lambda>(start, _, stopped). \<not> stopped \<and> start < int (length t))
              (chunk_step t chunk_size overlap) (0, [], False)))"

datatype build_error = KbNotFound | KbEmpty

text \<open>
  \<open>main()\<close> up to the metadata it writes to \<open>kb_meta.json\<close>: \<open>None\<close> for a missing
  \<open>kb.md\<close>, the chunks of its content with the default sizes 600 and 60, an error for no
  chunk, and one entry \<open>{"id": i, "text": chunks[i]}\<close> per chunk. The embeddings and the
  index written beside are not modelled; \<open>None\<close> of the result is a chunking that does
  not end.
\<close>

definition build_kb_meta :: "string option \<Rightarrow> (build_error + kb_entry list) option" where
  "build_kb_meta kb_md =
     (case kb_md of
        None \<Rightarrow> Some (Inl KbNotFound)
      | Some content \<Rightarrow>
          map_option (\<lambda>chunks. if chunks = [] then Inl KbEmpty
                               else Inr (map (\<lambda>i. \<lparr>ke_id = Some (int i), ke_text = chunks ! i\<rparr>) [0..<length chunks]))
            (chunk_text content 600 60))"

section \<open>Lemmas\<close>

lemma chunk_step_progress:
  assumes "ov < cs" "0 \<le> s" "s < int (length t)"
  shows "0 \<le> fst (chunk_step t cs ov (s, acc, False)) \<and>
         (snd (snd (chunk_step t cs ov (s, acc, False))) \<or> s < fst (chunk_step t cs ov (s, acc, False)))"
  using assms by (auto simp: chunk_step_def Let_def min_def)

lemma chunk_step_fst_stopped:
  "snd (snd (chunk_step t cs ov st)) \<Longrightarrow> fst (chunk_step t cs ov st) = fst st"
  by (cases st) (auto simp: chunk_step_def Let_def split: if_splits)

lemma chunk_loop_Some:
  assumes "ov < cs"
  shows "\<exists>r. while_option (\<lambda>(start, _, stopped). \<not> stopped \<and> start < int (length t))
              (chunk_step t cs ov) (0, [], False) = Some r"
proof -
  let ?b = "\<lambda>(start::int, _::string list, stopped). \<not> stopped \<and> start < int (length t)"
  let ?c = "chunk_step t cs ov"
  let ?P = "\<lambda>st::int \<times> string list \<times> bool. 0 \<le> fst st"
  let ?f = "\<lambda>st::int \<times> string list \<times> bool. if snd (snd st) then 0 else Suc (nat (int (length t) - fst st))"
  have step: "?P (?c st) \<and> ?f (?c st) < ?f st" if "?P st" "?b st" for st
  proof -
    obtain s acc stop where st: "st = (s, acc, stop)" by (cases st)
    then have "\<not> stop" "0 \<le> s" "s < int (length t)" using that by auto
    then show ?thesis using chunk_step_progress [OF assms, of s t acc] st by auto
  qed
  have "{(t', st). (?P st \<and> ?b st) \<and> t' = ?c st} \<subseteq> measure ?f"
  proof
    fix x assume "x \<in> {(t', st). (?P st \<and> ?b st) \<and> t' = ?c st}"
    then obtain st where "?P st" "?b st" "x = (?c st, st)" by blast
    then show "x \<in> measure ?f" using step by simp
  qed
  then have "wf {(t', st). (?P st \<and> ?b st) \<and> t' = ?c st}"
    by (rule wf_subset [OF wf_measure])
  then show ?thesis
    by (rule wf_while_option_Some [where P = ?P]) (blast dest: step, simp)
qed

lemma chunk_loop_None:
  assumes "0 < length t" "cs < int (length t)" "cs \<le> ov"
  shows "while_option (\<lambda>(start, _, stopped). \<not> stopped \<and> start < int (length t))
           (chunk_step t cs ov) (0, [], False) = None"
proof (rule ccontr)
  let ?b = "\<lambda>(start::int, _::string list, stopped). \<not> stopped \<and> start < int (length t)"
  let ?P = "\<lambda>st::int \<times> string list \<times> bool. fst st = 0 \<and> \<not> snd (snd st)"
  assume "while_option ?b (chunk_step t cs ov) (0, [], False) \<noteq> None"
  then obtain r where r: "while_option ?b (chunk_step t cs ov) (0, [], False) = Some r" by auto
  have "?P r"
  proof (rule while_option_rule [OF _ r])
    fix st :: "int \<times> string list \<times> bool" assume "?P st" "?b st"
    then show "?P (chunk_step t cs ov st)" using assms
      by (cases st) (auto simp: chunk_step_def Let_def min_def max_def)
  qed simp
  moreover have "\<not> ?b r" using while_option_stop [OF r] .
  ultimately show False using assms by (cases r) auto
qed

lemma chunk_loop_short:
  assumes "0 < length t" "int (length t) \<le> cs"
  shows "while_option (\<lambda>(start, _, stopped). \<not> stopped \<and> start < int (length t))
           (chunk_step t cs ov) (0, [], False) \<noteq> None"
proof -
  have "snd (snd (chunk_step t cs ov (0, [], False)))"
    using assms by (simp add: chunk_step_def Let_def min_def)
  then show ?thesis using assms
    by (subst while_option_unfold, simp, subst while_option_unfold, auto split: prod.splits)
qed

lemma py_strip_Nil_iff: "py_strip s = [] \<longleftrightarrow> (\<forall>c \<in> set s. py_isspace c)"
  by (simp add: py_strip_def dropWhile_eq_Nil_conv all_set_dropWhile)

lemma length_py_slice_window:
  "0 \<le> s \<Longrightarrow> 0 \<le> cs \<Longrightarrow> length (py_slice t s (min (s + cs) (int (length t)))) \<le> nat cs"
  by (auto simp: py_slice_def py_slice_bound_def min_def Let_def nat_add_distrib)

lemma chunk_loop_inv:
  assumes r: "while_option (\<lambda>(start, _, stopped). \<not> stopped \<and> start < int (length t))
                (chunk_step t cs ov) (0, [], False) = Some r"
    and cs: "0 \<le> cs"
  shows "\<forall>c \<in> set (fst (snd r)). py_strip c \<noteq> [] \<and> length c \<le> nat cs"
proof -
  let ?P = "\<lambda>st::int \<times> string list \<times> bool. 0 \<le> fst st \<and>
              (\<forall>c \<in> set (fst (snd st)). py_strip c \<noteq> [] \<and> length c \<le> nat cs)"
  have "?P r"
  proof (rule while_option_rule [OF _ r])
    fix st :: "int \<times> string list \<times> bool" assume "?P st"
    then show "?P (chunk_step t cs ov st)"
      using length_py_slice_window [OF _ cs, of "fst st" t]
      by (cases st) (auto simp: chunk_step_def Let_def)
  qed simp
  then show ?thesis by simp
qed

lemma chunk_loop_nonempty:
  assumes r: "while_option (\<lambda>(start, _, stopped). \<not> stopped \<and> start < int (length t))
                (chunk_step t cs ov) (0, [], False) = Some r"
    and cs: "0 < cs" and t: "t \<noteq> []" "\<not> py_isspace (hd t)"
  shows "fst (snd r) \<noteq> []"
proof -
  let ?P = "\<lambda>st::int \<times> string list \<times> bool. st = (0, [], False) \<or> fst (snd st) \<noteq> []"
  have first: "py_strip (py_slice t 0 (min cs (int (length t)))) \<noteq> []"
  proof -
    have "py_slice t 0 (min cs (int (length t))) = take (nat (min cs (int (length t)))) t"
      using cs by (simp add: py_slice_def py_slice_bound_def min_def)
    moreover have "0 < nat (min cs (int (length t)))" using cs t by simp
    ultimately show ?thesis using t
      by (cases t; cases "nat (min cs (int (length t)))") (auto simp: py_strip_Nil_iff)
  qed
  have "?P r"
  proof (rule while_option_rule [OF _ r])
    fix st :: "int \<times> string list \<times> bool" assume "?P st"
    then show "?P (chunk_step t cs ov st)"
      using first by (cases st) (auto simp: chunk_step_def Let_def)
  qed simp
  moreover have "r \<noteq> (0, [], False)" using while_option_stop [OF r] t by auto
  ultimately show ?thesis by auto
qed

lemma postprocess_no_info_nonempty:
  "py_strip x \<noteq> [] \<Longrightarrow> postprocess_no_info x \<noteq> []"
  by (simp add: postprocess_no_info_def Let_def)

lemma py_strip_append_nonempty:
  "py_strip x \<noteq> [] \<Longrightarrow> py_strip (x @ y) \<noteq> []"
  by (auto simp: py_strip_Nil_iff)

lemma kb_messages_nonblank [simp]:
  "py_strip EMPTY_ANSWER_MSG \<noteq> []" "NO_INDEX_MSG \<noteq> []" "NO_HITS_MSG \<noteq> []" "PROPUESTA_VALOR_KAVAK \<noteq> []"
  by (simp_all add: EMPTY_ANSWER_MSG_def NO_INDEX_MSG_def NO_HITS_MSG_def PROPUESTA_VALOR_KAVAK_def py_strip_Nil_iff
                    py_isspace_def)

lemma py_strip_strip_nonempty: "py_strip c \<noteq> [] \<Longrightarrow> py_strip (py_strip c) \<noteq> []"
  using py_strip_hd [of c] by (cases "py_strip c") (auto simp: py_strip_Nil_iff)

lemma kb_error_answer_nonblank [simp]:
  "py_strip (LLM_FAIL_MSG e ctx) \<noteq> []"
  by (simp add: LLM_FAIL_MSG_def py_strip_Nil_iff py_isspace_def)

lemma py_lower_append: "py_lower (x @ y) = py_lower x @ py_lower y"
  by (simp add: py_lower_def)

lemma AGENT_OFFER_facts:
  "AGENT_OFFER \<noteq> []" "\<not> py_isspace (last AGENT_OFFER)" "has_sub ''agente de kavak'' (py_lower AGENT_OFFER)"
  by (simp_all add: AGENT_OFFER_def py_isspace_def) code_simp

lemma postprocess_offer_once:
  assumes a: "py_strip c \<noteq> []"
    and neg: "has_sub (''no tengo informaci'' @ [CHR 0xF3, CHR ''n'']) (py_lower (py_strip c))"
    and ag: "\<not> has_sub ''agente de kavak'' (py_lower (py_strip c))"
  shows "postprocess_no_info (py_strip c) = py_strip c @ AGENT_OFFER"
    and "postprocess_no_info (py_strip c @ AGENT_OFFER) = py_strip c @ AGENT_OFFER"
proof -
  have hd: "\<not> py_isspace (hd (py_strip c))" using py_strip_hd [OF a] .
  have s2: "py_strip (py_strip c) = py_strip c"
    using a hd py_strip_last [OF a] by (intro py_strip_id) simp
  have s1: "py_strip (py_strip c @ AGENT_OFFER) = py_strip c @ AGENT_OFFER"
    using a hd AGENT_OFFER_facts(1,2) by (intro py_strip_id) simp
  have l: "list_ex (\<lambda>p. has_sub p (py_lower (py_strip c))) NEG_PATTERNS"
    using neg by (simp add: NEG_PATTERNS_def)
  show "postprocess_no_info (py_strip c) = py_strip c @ AGENT_OFFER"
    using s2 l ag by (simp add: postprocess_no_info_def)
  have "has_sub ''agente de kavak'' (py_lower (py_strip c @ AGENT_OFFER))"
    using AGENT_OFFER_facts(3) unfolding py_lower_append has_sub_sublist by (rule sublist_order.order.trans [OF _ sublist_append_leftI])
  then show "postprocess_no_info (py_strip c @ AGENT_OFFER) = py_strip c @ AGENT_OFFER"
    using s1 by (simp add: postprocess_no_info_def)
qed

lemma repr_entry_manual:
  "repr_entry MANUAL_SOURCE =
     ''{'' @ CHR 0x27 # ''text'' @ CHR 0x27 # '': '' @ CHR 0x27 # ''Fuente: texts.py (manual)'' @ CHR 0x27 # ''}''"
  by code_simp

lemma kb_trigger_unreachable:
  "\<not> has_sub (''qu'' @ CHR 0xE9 # '' ofrece kavak'') (unidecode s)"
proof
  assume "has_sub (''qu'' @ CHR 0xE9 # '' ofrece kavak'') (unidecode s)"
  then have "CHR 0xE9 \<in> set (unidecode s)" by (auto simp: has_sub_sublist dest: set_mono_sublist)
  then show False using unidecode_ascii by (fastforce simp: is_ascii_def)
qed

section \<open>Properties\<close>

text \<open>C31: Every answer of \<open>kb_answer\<close> that returns is a non-empty text, and its sources are passages of the loaded metadata or the manual source of the static answer, on every branch: the value-proposition shortcut, a missing index, no valid hit, no API key, a failed chat completion and an empty or \<open>no information\<close> reply of the model.\<close>

theorem kb_answer_sound:
  "kb_answer env q k = Some r \<Longrightarrow>
     kr_answer r \<noteq> [] \<and>
     set (kr_sources r) \<subseteq> insert MANUAL_SOURCE (case kb_index env of None \<Rightarrow> {} | Some meta \<Rightarrow> set meta)"
  unfolding kb_answer_def Let_def
  by (auto simp: ustr_of_def py_strip_append_nonempty postprocess_no_info_nonempty py_strip_strip_nonempty
           split: if_splits option.splits sum.splits)

theorem kb_answer_sound_witness:
  "kr_answer (the (kb_answer \<lparr>kb_index = Some [\<lparr>ke_id = Some 0, ke_text = ''Garantia de 3 meses.''\<rparr>],
                     kb_search = (\<lambda>_ _. Some [0, -1, 7]), kb_api_key = [], kb_llm = (\<lambda>_ _. Inl [])\<rparr>
                     ''garantia'' 4)) \<noteq> [] \<and>
   set (kr_sources (the (kb_answer \<lparr>kb_index = Some [\<lparr>ke_id = Some 0, ke_text = ''Garantia de 3 meses.''\<rparr>],
                     kb_search = (\<lambda>_ _. Some [0, -1, 7]), kb_api_key = [], kb_llm = (\<lambda>_ _. Inl [])\<rparr>
                     ''garantia'' 4)))
     \<subseteq> {MANUAL_SOURCE, \<lparr>ke_id = Some 0, ke_text = ''Garantia de 3 meses.''\<rparr>}"
proof -
  let ?e = "\<lparr>ke_id = Some 0, ke_text = ''Garantia de 3 meses.''\<rparr>"
  let ?env = "\<lparr>kb_index = Some [?e], kb_search = (\<lambda>_ _. Some [0, -1, 7]), kb_api_key = [],
               kb_llm = (\<lambda>_ _. Inl [])\<rparr>"
  have t: "\<not> list_ex (\<lambda>kw. has_sub kw (unidecode (py_lower (py_strip ''garantia'')))) KB_TRIGGERS"
    by code_simp
  have "kb_answer ?env ''garantia'' 4 \<noteq> None"
    using t by (simp add: kb_answer_def Let_def)
  then obtain r where r: "kb_answer ?env ''garantia'' 4 = Some r" by auto
  show ?thesis using kb_answer_sound [OF r] r by simp
qed

text \<open>C32: When the chat model answers that it has no information (\<open>no tengo informaci\<o'acute>n\<close>) and does not already offer an agent, \<open>kb_answer\<close> returns the stripped answer with the offer to contact an agent appended exactly once, whichever of the regular-expression check and \<open>postprocess_no_info\<close> appends it, and the valid hits as its sources.\<close>

theorem kb_answer_offers_agent_once:
  assumes "\<not> list_ex (\<lambda>kw. has_sub kw (unidecode (py_lower (py_strip q)))) KB_TRIGGERS"
    and "kb_index env = Some meta" and "kb_search env q k = Some row"
    and hits: "hits = map (\<lambda>i. meta ! nat i) (filter (\<lambda>i. 0 \<le> i \<and> i < int (length meta)) row)" "hits \<noteq> []"
    and "py_strip (kb_api_key env) \<noteq> []"
    and "kb_llm env (py_strip (kb_api_key env)) (build_prompt q hits) = Inr c"
    and neg: "has_sub (''no tengo informaci'' @ [CHR 0xF3, CHR ''n'']) (py_lower (py_strip c))"
    and ag: "\<not> has_sub ''agente de kavak'' (py_lower (py_strip c))"
  shows "kb_answer env q k = Some \<lparr>kr_answer = ustr_of (py_strip c @ AGENT_OFFER), kr_sources = hits\<rparr>"
proof -
  have a: "py_strip c \<noteq> []" using neg by (auto simp: py_lower_def)
  show ?thesis
    using assms postprocess_offer_once [OF a neg ag] a
    by (simp add: kb_answer_def Let_def)
qed

theorem kb_answer_offers_agent_once_witness:
  "kb_answer \<lparr>kb_index = Some [\<lparr>ke_id = Some 0, ke_text = ''Kavak ofrece garantia.''\<rparr>],
              kb_search = (\<lambda>_ _. Some [0, -1]), kb_api_key = ''sk'',
              kb_llm = (\<lambda>_ _. Inr (''No tengo informaci'' @ [CHR 0xF3, CHR ''n''] @ '' sobre eso.''))\<rparr>
             ''horario'' 4 =
   Some \<lparr>kr_answer = ustr_of ((''No tengo informaci'' @ [CHR 0xF3, CHR ''n''] @ '' sobre eso.'') @ AGENT_OFFER),
         kr_sources = [\<lparr>ke_id = Some 0, ke_text = ''Kavak ofrece garantia.''\<rparr>]\<rparr>"
proof -
  let ?c = "''No tengo informaci'' @ [CHR 0xF3, CHR ''n''] @ '' sobre eso.''"
  have s: "py_strip ?c = ?c" by (simp add: py_strip_def py_isspace_def)
  have t: "\<not> list_ex (\<lambda>kw. has_sub kw (unidecode (py_lower (py_strip ''horario'')))) KB_TRIGGERS"
    by code_simp
  have n: "has_sub (''no tengo informaci'' @ [CHR 0xF3, CHR ''n'']) (py_lower (py_strip ?c))"
    and g: "\<not> has_sub ''agente de kavak'' (py_lower (py_strip ?c))"
    unfolding s by code_simp+
  show ?thesis
    using kb_answer_offers_agent_once [OF t, of "\<lparr>kb_index = Some [\<lparr>ke_id = Some 0, ke_text = ''Kavak ofrece garantia.''\<rparr>],
              kb_search = (\<lambda>_ _. Some [0, -1]), kb_api_key = ''sk'',
              kb_llm = (\<lambda>_ _. Inr ?c)\<rparr>", OF _ _ _ _ _ _ n g] s
    by (simp add: py_strip_def py_isspace_def)
qed

text \<open>C35: On a value-proposition question \<open>kb_tool\<close> returns the static answer followed by its source printed as the Python \<open>repr\<close> of the source dictionary, \<open>- {'text': 'Fuente: texts.py (manual)'}\<close>, not as the text of the source.\<close>

theorem kb_tool_value_proposition:
  assumes "list_ex (\<lambda>kw. has_sub kw (unidecode (py_lower (py_strip q)))) KB_TRIGGERS"
  shows "kb_tool True env q =
           PROPUESTA_VALOR_KAVAK @
           ustr_of ([CHR 0x0A, CHR 0x0A] @ ''Fuentes:'' @ CHR 0x0A # ''- {'' @ CHR 0x27 # ''text'' @ CHR 0x27 # '': '' @
                    CHR 0x27 # ''Fuente: texts.py (manual)'' @ CHR 0x27 # ''}'')"
proof -
  have "kb_answer env q 4 = Some \<lparr>kr_answer = PROPUESTA_VALOR_KAVAK, kr_sources = [MANUAL_SOURCE]\<rparr>"
    using assms by (simp add: kb_answer_def)
  moreover have "PROPUESTA_VALOR_KAVAK \<noteq> []" by (simp add: PROPUESTA_VALOR_KAVAK_def)
  ultimately show ?thesis by (simp add: kb_tool_def repr_entry_manual py_join_def)
qed

theorem kb_tool_value_proposition_witness:
  "kb_tool True \<lparr>kb_index = None, kb_search = (\<lambda>_ _. None), kb_api_key = [], kb_llm = (\<lambda>_ _. Inl [])\<rparr>
           ''Por que Kavak?'' =
   PROPUESTA_VALOR_KAVAK @
   ustr_of ([CHR 0x0A, CHR 0x0A] @ ''Fuentes:'' @ CHR 0x0A # ''- {'' @ CHR 0x27 # ''text'' @ CHR 0x27 # '': '' @
            CHR 0x27 # ''Fuente: texts.py (manual)'' @ CHR 0x27 # ''}'')"
proof -
  have "list_ex (\<lambda>kw. has_sub kw (unidecode (py_lower (py_strip ''Por que Kavak?'')))) KB_TRIGGERS"
    by code_simp
  then show ?thesis by (rule kb_tool_value_proposition)
qed

text \<open>C34: Termination of \<open>chunk_text\<close>: the loop ends exactly when the stripped text is empty, fits in one chunk, or the overlap is smaller than the chunk size; otherwise it starts every window at 0 forever.\<close>

theorem chunk_text_terminates_iff:
  "chunk_text text cs ov \<noteq> None \<longleftrightarrow>
     py_strip text = [] \<or> int (length (py_strip text)) \<le> cs \<or> ov < cs"
proof (cases "py_strip text = []")
  case True
  then show ?thesis by (simp add: chunk_text_def, subst while_option_unfold, simp, blast)
next
  case False
  then have n: "0 < length (py_strip text)" by simp
  show ?thesis
  proof (cases "ov < cs")
    case True
    then show ?thesis using chunk_loop_Some [OF True, of "py_strip text"] by (auto simp: chunk_text_def)
  next
    case ov: False
    show ?thesis
    proof (cases "int (length (py_strip text)) \<le> cs")
      case True
      then show ?thesis using chunk_loop_short [OF n True, of ov] by (auto simp: chunk_text_def)
    next
      case False
      then show ?thesis using chunk_loop_None [OF n, of cs ov] ov False n by (simp add: chunk_text_def)
    qed
  qed
qed

theorem chunk_text_terminates_iff_witness:
  "chunk_text ''abcd'' 2 2 = None \<and> chunk_text ''abcd'' 600 60 \<noteq> None"
proof -
  have s: "py_strip ''abcd'' = ''abcd''" by (simp add: py_strip_def py_isspace_def)
  show ?thesis
    using chunk_text_terminates_iff [of "''abcd''" 2 2] chunk_text_terminates_iff [of "''abcd''" 600 60] s by simp
qed

text \<open>C36: \<open>build_faiss.main\<close> ends on every \<open>kb.md\<close>: it fails with the empty-file error exactly when the content is blank, and otherwise writes a non-empty metadata list whose \<open>i\<close>-th entry has id \<open>i\<close> and a non-blank text of at most 600 characters.\<close>

theorem build_kb_meta_wf:
  "\<exists>res. build_kb_meta (Some content) = Some res \<and>
     (case res of
        Inl e \<Rightarrow> e = KbEmpty \<and> py_strip content = []
      | Inr meta \<Rightarrow> py_strip content \<noteq> [] \<and> meta \<noteq> [] \<and>
          (\<forall>i < length meta. ke_id (meta ! i) = Some (int i) \<and> py_strip (ke_text (meta ! i)) \<noteq> [] \<and>
                              length (ke_text (meta ! i)) \<le> 600))"
proof -
  let ?t = "py_strip content"
  obtain r where r: "while_option (\<lambda>(start, _, stopped). \<not> stopped \<and> start < int (length ?t))
                       (chunk_step ?t 600 60) (0, [], False) = Some r"
    using chunk_loop_Some [of 60 600 ?t] by auto
  have inv: "\<forall>c \<in> set (fst (snd r)). py_strip c \<noteq> [] \<and> length c \<le> 600"
    using chunk_loop_inv [OF r] by simp
  have ne: "fst (snd r) = [] \<longleftrightarrow> ?t = []"
  proof
    assume "fst (snd r) = []"
    then show "?t = []" using chunk_loop_nonempty [OF r] py_strip_hd [of content] by fastforce
  next
    assume "?t = []"
    then show "fst (snd r) = []" using r by (subst (asm) while_option_unfold) auto
  qed
  show ?thesis
    using inv ne by (simp add: build_kb_meta_def chunk_text_def r nth_mem)
qed

theorem build_kb_meta_wf_witness:
  "build_kb_meta (Some ''Kavak'') \<noteq> None \<and> build_kb_meta (Some '' '') = Some (Inl KbEmpty)"
proof
  show "build_kb_meta (Some ''Kavak'') \<noteq> None" using build_kb_meta_wf [of "''Kavak''"] by auto
  have "py_strip '' '' = []" by (simp add: py_strip_def py_isspace_def)
  then show "build_kb_meta (Some '' '') = Some (Inl KbEmpty)"
    using build_kb_meta_wf [of "'' ''"] \<open>py_strip '' '' = []\<close>
    by (elim exE conjE) (auto split: sum.split_asm)
qed

end
