(* ===== verification/Columns.thy ===== *)
theory Columns
  imports Text
begin

text \<open>
  The column layer of the catalog CSV: the offline script
  \<open>src/scripts/normalizar_catalogo.py\<close>, which renames the columns of a raw export and
  keeps the required ones, and the column mapping of \<open>_normalize_columns\<close> in
  \<open>src/app/nlp/tools.py\<close>, which the catalog loader applies to every CSV it reads. A data
  frame is its column labels and its rows of cells, as \<open>read_csv\<close> gives it; the files
  themselves are I/O. The lemmas: the columns the script writes, and that the loader
  accepts every catalog the script wrote.
\<close>

section \<open>Definitions\<close>

subsection \<open>Frames\<close>


record frame =
  fr_cols :: "string list"
  fr_rows :: "string list list"

definition required_columns :: "string list" where
  "required_columns = [''id'', ''brand'', ''model'', ''year'', ''km'', ''price'', ''location'']"

text \<open>\<open>df[cols]\<close>: every column whose label is listed, in the order of the list, a label
  that several columns carry selecting all of them.\<close>

definition select_cols :: "frame \<Rightarrow> string list \<Rightarrow> frame" where
  "select_cols df cols =
     (let idx = concat (map (\<lambda>c. filter (\<lambda>i. fr_cols df ! i = c) [0..<length (fr_cols df)]) cols)
      in \<lparr>fr_cols = map (\<lambda>i. fr_cols df ! i) idx, fr_rows = map (\<lambda>r. map (\<lambda>i. r ! i) idx) (fr_rows df)\<rparr>)"

text \<open>\<open>df[name] = value\<close> for a column that is not there: a new last column holding
  \<open>value\<close> in every row.\<close>

definition add_col :: "frame \<Rightarrow> string \<Rightarrow> string \<Rightarrow> frame" where
  "add_col df name v =
     (if name \<notin> set (fr_cols df)
      then \<lparr>fr_cols = fr_cols df @ [name], fr_rows = map (\<lambda>r. r @ [v]) (fr_rows df)\<rparr>
      else df)"

subsection \<open>\<open>scripts/normalizar_catalogo.py\<close>\<close>

definition rename_map :: "string \<Rightarrow> string option" where
  "rename_map = map_of [(''stock_id'', ''id''), (''make'', ''brand''), (''model'', ''model''), (''year'', ''year''),
                        (''km'', ''km''), (''price'', ''price'')]"

text \<open>The script: rename, add \<open>location = "Online"\<close> when missing, stop with the missing
  labels (\<open>SystemExit\<close>), keep the required columns.\<close>

definition normalizar_catalogo :: "frame \<Rightarrow> string list + frame" where
  "normalizar_catalogo df0 =
     (let df1 = df0\<lparr>fr_cols := map (\<lambda>c. case rename_map c of Some d \<Rightarrow> d | None \<Rightarrow> c) (fr_cols df0)\<rparr>;
          df2 = add_col df1 ''location'' ''Online'';
          missing = filter (\<lambda>c. c \<notin> set (fr_cols df2)) required_columns
      in if missing \<noteq> [] then Inl missing else Inr (select_cols df2 required_columns))"

subsection \<open>The column mapping of \<open>nlp/tools.py\<close>\<close>

text \<open>The \<open>synonyms\<close> of \<open>_normalize_columns\<close>: each target label with the labels read
  as it, in the order of the dictionary.\<close>

definition COLUMN_SYNONYMS :: "(string \<times> string list) list" where
  "COLUMN_SYNONYMS =
     [(''id'', [''id'', ''stock_id'', ''stockid'', ''car_id'', ''codigo'']),
      (''brand'', [''brand'', ''make'', ''marca'']),
      (''model'', [''model'', ''modelo'']),
      (''year'', [''year'', ''anio'', ''a'' @ CHR 0xF1 # ''o'']),
      (''km'', [''km'', ''kilometraje'', ''mileage'', ''odometer'']),
      (''price'', [''price'', ''precio'', ''amount'', ''cost'']),
      (''location'', [''location'', ''ubicacion'', ''ciudad'', ''sede'', ''source'']),
      (''version'', [''version'', ''versi'' @ CHR 0xF3 # ''n'', ''trim'', ''variant''])]"

text \<open>The assignments \<open>rename[col] = target\<close> of the double loop, in order; the dictionary
  is \<open>map_of\<close> of the reversed list, the last assignment to a label winning.\<close>

definition rename_pairs :: "string list \<Rightarrow> (string \<times> string) list" where
  "rename_pairs cols =
     concat (map (\<lambda>(target, alts). map (\<lambda>col. (col, target)) (filter (\<lambda>col. col \<in> set alts \<and> col \<noteq> target) cols))
                 COLUMN_SYNONYMS)"

text \<open>
  \<open>_normalize_columns\<close> up to the checks: labels stripped and lowered, renamed by the
  synonyms, \<open>location = "Online"\<close> and \<open>version = ""\<close> added when missing, and
  \<open>ValueError\<close> (here \<open>Inl\<close> with the missing labels) when a required column is still
  missing. The coercion of the cells that follows is the typed row \<open>car\<close> of \<open>Catalog\<close>.
\<close>

definition normalize_columns :: "frame \<Rightarrow> string list + frame" where
  "normalize_columns df0 =
     (let cols0 = map (\<lambda>c. py_lower (py_strip c)) (fr_cols df0);
          ren = map_of (rev (rename_pairs cols0));
          df1 = \<lparr>fr_cols = map (\<lambda>c. case ren c of Some t \<Rightarrow> t | None \<Rightarrow> c) cols0, fr_rows = fr_rows df0\<rparr>;
          df2 = add_col (add_col df1 ''location'' ''Online'') ''version'' [];
          missing = filter (\<lambda>c. c \<notin> set (fr_cols df2)) required_columns
      in if missing \<noteq> [] then Inl missing else Inr df2)"

section \<open>Lemmas\<close>

lemma map_nth_filter_upt:
  "map ((!) xs) (filter (\<lambda>i. P (xs ! i)) [0..<length xs]) = filter P xs"
proof -
  have "filter P xs = filter P (map (\<lambda>i. xs ! i) [0..<length xs])" by (simp add: map_nth)
  also have "\<dots> = map ((!) xs) (filter (\<lambda>i. P (xs ! i)) [0..<length xs])" by (simp add: filter_map comp_def)
  finally show ?thesis by simp
qed

lemma filter_eq_distinct: "distinct xs \<Longrightarrow> c \<in> set xs \<Longrightarrow> filter (\<lambda>x. x = c) xs = [c]"
  by (induction xs) (auto simp: filter_empty_conv)

lemma add_col_cols [simp]:
  "fr_cols (add_col df n v) = (if n \<in> set (fr_cols df) then fr_cols df else fr_cols df @ [n])"
  by (simp add: add_col_def)

lemma length_add_col_rows [simp]: "length (fr_rows (add_col df n v)) = length (fr_rows df)"
  by (simp add: add_col_def)

lemma select_cols_distinct:
  assumes "distinct (fr_cols df)" "set cols \<subseteq> set (fr_cols df)"
  shows "fr_cols (select_cols df cols) = cols"
    and "length (fr_rows (select_cols df cols)) = length (fr_rows df)"
    and "\<forall>r \<in> set (fr_rows (select_cols df cols)). length r = length cols"
proof -
  let ?idx = "concat (map (\<lambda>c. filter (\<lambda>i. fr_cols df ! i = c) [0..<length (fr_cols df)]) cols)"
  have "map (\<lambda>i. fr_cols df ! i) ?idx = concat (map (\<lambda>c. filter (\<lambda>x. x = c) (fr_cols df)) cols)"
    by (simp add: map_concat comp_def map_nth_filter_upt [where P = "\<lambda>x. x = c" for c])
  also have "\<dots> = cols" using assms
    by (induction cols) (auto simp: filter_eq_distinct)
  finally have c: "map (\<lambda>i. fr_cols df ! i) ?idx = cols" .
  then show "fr_cols (select_cols df cols) = cols" by (simp add: select_cols_def Let_def)
  show "length (fr_rows (select_cols df cols)) = length (fr_rows df)" by (simp add: select_cols_def Let_def)
  have "length ?idx = length cols" using arg_cong [OF c, of length] by simp
  then show "\<forall>r \<in> set (fr_rows (select_cols df cols)). length r = length cols" by (auto simp: select_cols_def Let_def)
qed

lemma normalizar_catalogo_make_and_brand:
  "normalizar_catalogo \<lparr>fr_cols = [''stock_id'', ''make'', ''brand'', ''model'', ''year'', ''km'', ''price''], fr_rows = []\<rparr> =
   Inr \<lparr>fr_cols = [''id'', ''brand'', ''brand'', ''model'', ''year'', ''km'', ''price'', ''location''], fr_rows = []\<rparr>"
  by code_simp

lemma normalizar_catalogo_Inr_cols:
  assumes "distinct (map (\<lambda>c. case rename_map c of Some d \<Rightarrow> d | None \<Rightarrow> c) (fr_cols df))"
    and "normalizar_catalogo df = Inr df'"
  shows "fr_cols df' = required_columns"
proof -
  let ?df2 = "add_col (df\<lparr>fr_cols := map (\<lambda>c. case rename_map c of Some d \<Rightarrow> d | None \<Rightarrow> c) (fr_cols df)\<rparr>)
                ''location'' ''Online''"
  have "df' = select_cols ?df2 required_columns" and "set required_columns \<subseteq> set (fr_cols ?df2)"
    using assms(2) by (auto simp: normalizar_catalogo_def Let_def filter_empty_conv split: if_splits)
  moreover have "distinct (fr_cols ?df2)" using assms(1) by simp
  ultimately show ?thesis using select_cols_distinct(1) by blast
qed

lemma required_columns_normal:
  "map (\<lambda>c. py_lower (py_strip c)) required_columns = required_columns"
  "rename_pairs required_columns = []"
  by (simp_all add: required_columns_def rename_pairs_def COLUMN_SYNONYMS_def) code_simp

section \<open>Properties\<close>



text \<open>C39: The catalog loader accepts what the offline script writes: when the renamed
  columns are distinct, the frame that \<open>normalizar_catalogo\<close> writes passes the column
  mapping of \<open>_normalize_columns\<close> with no renaming and no error, gaining only the empty
  \<open>version\<close> column.\<close>

theorem normalized_catalog_loads:
  assumes "distinct (map (\<lambda>c. case rename_map c of Some d \<Rightarrow> d | None \<Rightarrow> c) (fr_cols df))"
    and "normalizar_catalogo df = Inr df'"
  shows "normalize_columns df' = Inr (add_col df' ''version'' [])"
proof -
  have c: "fr_cols df' = required_columns" by (rule normalizar_catalogo_Inr_cols [OF assms])
  have e: "\<lparr>fr_cols = required_columns, fr_rows = fr_rows df'\<rparr> = df'" using c by simp
  have l: "''location'' \<in> set required_columns" and v: "''version'' \<notin> set required_columns"
    by (simp_all add: required_columns_def)
  show ?thesis
    using l v c by (simp add: normalize_columns_def Let_def required_columns_normal e add_col_def)
qed

theorem normalized_catalog_loads_witness:
  "normalize_columns
     \<lparr>fr_cols = required_columns, fr_rows = [[''7'', ''Nissan'', ''Versa'', ''2019'', ''40000'', ''250000'', ''Online'']]\<rparr> =
   Inr \<lparr>fr_cols = required_columns @ [''version''],
        fr_rows = [[''7'', ''Nissan'', ''Versa'', ''2019'', ''40000'', ''250000'', ''Online'', []]]\<rparr>"
proof -
  let ?df = "\<lparr>fr_cols = [''stock_id'', ''make'', ''model'', ''year'', ''km'', ''price''],
              fr_rows = [[''7'', ''Nissan'', ''Versa'', ''2019'', ''40000'', ''250000'']]\<rparr>"
  have d: "distinct (map (\<lambda>c. case rename_map c of Some d \<Rightarrow> d | None \<Rightarrow> c) (fr_cols ?df))"
    by (simp add: rename_map_def)
  have n: "normalizar_catalogo ?df =
             Inr \<lparr>fr_cols = required_columns,
                  fr_rows = [[''7'', ''Nissan'', ''Versa'', ''2019'', ''40000'', ''250000'', ''Online'']]\<rparr>"
    by code_simp
  show ?thesis using normalized_catalog_loads [OF d n] by (simp add: add_col_def required_columns_def)
qed

end
