(* ===== verification/Spec2Isabelle.thy ===== *)
theory Spec2Isabelle
  imports Finance Text Catalog Regex Intent Router Render Prefs Recommender Webhook Knowledge Columns
begin

text \<open>
  A verification development of the auto-sales chatbot (\<open>src/app\<close>): a WhatsApp
  assistant that searches a car catalog, quotes financing, and recommends cars from
  free text. A message enters through the webhook of \<open>main.py\<close>, is routed by
  \<open>route_message\<close> of \<open>nlp/intent.py\<close>, which classifies it, parses prices, years, terms
  and removal directives with regular expressions, updates per-channel state, queries the
  catalog through \<open>nlp/tools.py\<close> and renders the reply in \<open>router.py\<close>. A second path,
  \<open>reco/catalog.py\<close>, recommends cars from the preferences that \<open>nlp/normalize.py\<close>
  extracts from a text.

  The theories, each modelling one part of the code and holding its lemmas:
  \<^item> \<open>Prelude\<close>: the Python built-ins the sources use (\<open>int()\<close> of a float, \<open>dict.get\<close>,
    \<open>unique\<close>, substring tests), shared lemmas in the collection \<open>py_simps\<close>.
  \<^item> \<open>Text\<close>: \<open>norm_txt\<close> and \<open>normalize_text\<close> of \<open>nlp/normalize.py\<close>, over Latin-1
    strings, with the Unidecode table; lemmas: idempotence and the fixpoints.
  \<^item> \<open>Finance\<close>: \<open>monthly_payment\<close>, \<open>finance_plan\<close> and the inline payment of
    \<open>cotiza_car\<close> (\<open>nlp/tools.py\<close>), the rate and terms of \<open>settings.py\<close>; floats are
    exact reals and \<open>ZeroDivisionError\<close> is \<open>None\<close> where the real denominator is 0.
    Lemmas: amortization, equivalence of the two payment formulas, term snapping.
  \<^item> \<open>Catalog\<close>: the catalog rows, the alias tables of \<open>nlp/aliases.py\<close>, brand, model
    and version inference and \<open>_filtered_df_for_search\<close>, \<open>search_cars\<close>,
    \<open>search_cars_count\<close>; RapidFuzz's scorers are a parameter, so every lemma holds
    for any scorer. Lemmas: refinement of the filter by a one-predicate specification,
    soundness, locks in the catalog's vocabulary.
  \<^item> \<open>Regex\<close>: a backtracking model of Python's \<open>re\<close> (\<open>mt\<close> lists the matches in the
    order \<open>sre\<close> tries them), with \<open>search\<close>, \<open>match\<close>, \<open>fullmatch\<close>, \<open>findall\<close>,
    \<open>group\<close>, \<open>sub\<close> and \<open>split\<close>. \<open>re.sub\<close> is a \<open>while_option\<close> loop each
    round of which moves the scan position forward (\<open>re_sub_step_decreases\<close>); the
    other loops are \<open>function\<close>s with measures.
    Lemmas: the characters a group can capture (\<open>grp_chars\<close>).
  \<^item> \<open>Intent\<close>: the compiled patterns, the money, term, price-bound and removal
    parsers and \<open>_detect_intent\<close> of \<open>nlp/intent.py\<close>.
  \<^item> \<open>Router\<close>: \<open>route_message\<close> as one step on the record \<open>bot\<close> of the module's
    per-channel dictionaries, with \<open>retrieve_cars\<close> and \<open>cotiza_car\<close>; the reply is a
    datatype. Lemmas: channel framing, the invariant of reachable states (rule
    induction over the inductive reachability relation), pagination and quoting.
  \<^item> \<open>Render\<close>: the reply text of \<open>router.py\<close> as UTF-8 bytes; the round trip of the
    money format through the money parser.
  \<^item> \<open>Prefs\<close>: \<open>parse_money_token\<close>, \<open>parse_price_hint\<close>, \<open>fuzzy_pick\<close>,
    \<open>canonicalize_brand\<close> and \<open>extract_preferences\<close> of \<open>nlp/normalize.py\<close>.
  \<^item> \<open>Recommender\<close>: \<open>load_catalog\<close>, \<open>build_brand_model_index\<close>, \<open>_apply_filters\<close>,
    \<open>recommend\<close>, \<open>format_recommendations\<close> and the \<open>Recommender\<close> class of
    \<open>reco/catalog.py\<close>; the CSV is a list of rows with coerced numeric cells.
    The missing-column error carries a set, as the code's \<open>required\<close> is a Python set.
    Lemmas: soundness, order and optimality of the recommended items, the index and
    the well-formedness of loaded rows.
  \<^item> \<open>Webhook\<close>: \<open>whatsapp_webhook\<close> and \<open>chat\<close> of \<open>main.py\<close> over a record of
    the request (form fields, path, signature header), the configuration of
    \<open>config.py\<close> read from an environment function, \<open>_twilio_signature_is_valid\<close>
    with Twilio's validator as a parameter, and \<open>_chunk_for_whatsapp\<close> on Unicode
    code points (\<open>ustr\<close>). The turn handler is a parameter of type \<open>'st handler\<close>
    whose \<open>Inl\<close> reply is an exception; \<open>router_handler\<close> instantiates it with
    \<open>route_message\<close> and a renderer. Lemmas: the webhook always answers, the chunking
    round trip and its equivalence with a recursive reference, one shared conversation
    for all senders, and the liveness of pagination: \<open>turns\<close> runs the same message
    \<open>k\<close> times, and \<open>Suc (length cat)\<close> turns of \<open>ver mas\<close> are enough to reach
    the end of results, because each page advances the stored offset, which stays
    below the number of matches.
  \<^item> \<open>Knowledge\<close>: \<open>kb_answer\<close>, \<open>_build_prompt\<close> and \<open>postprocess_no_info\<close> of
    \<open>nlp/retriever.py\<close> and \<open>kb_tool\<close> of \<open>nlp/tools.py\<close>, with the FAISS index and
    metadata, the embedding search, the API key and the chat completion as the
    parameters \<open>kb_env\<close> (an exception of the search is \<open>None\<close>, one of the completion
    an \<open>Inl\<close>), and Python's \<open>repr\<close> of the source dictionaries; \<open>chunk_text\<close> and
    the metadata of \<open>scripts/build_faiss.py\<close>, where the loop is a \<open>while_option\<close>
    whose \<open>None\<close> is a loop that never ends, and \<open>scripts/normalizar_catalogo.py\<close> on a
    data frame of labels and rows. Lemmas: answers are non-empty and cite the
    metadata, the agent offer is appended exactly once, the exact condition under
    which \<open>chunk_text\<close> terminates (so the defaults 600 and 60 always do), the
    well-formed metadata.
  \<^item> \<open>Columns\<close>: the data frame of a catalog CSV as labels and rows,
    \<open>scripts/normalizar_catalogo.py\<close>, and the column mapping and checks of
    \<open>_normalize_columns\<close> in \<open>nlp/tools.py\<close>. Lemmas: the columns the script writes, and
    that the loader accepts every catalog the script writes (the two components agree).
  This theory holds the properties of whole turns of \<open>route_message\<close>, proved from the
  field lemmas of \<open>Router\<close> and single regular-expression evaluations.

  Several properties, and the findings listed in the manifest, record behaviour of the code that its documentation or
  the specification contradicts: a price phrase read as a year, a year range read as
  prices, a range of prices never read as one, a year read as a price cap in
  recommendations, a crash on an empty location cell, every WhatsApp sender sharing one
  conversation, sources printed as dictionary reprs, a chunking loop that never ends
  when the overlap is at least the chunk size, a trigger phrase that can never match.

  Not modelled: the transport itself (FastAPI's request parsing and the root and health
  endpoints, which return constants; the XML that the Twilio SDK serialises from the
  message bodies; \<open>schemas.py\<close>, a type declaration), the sentence embeddings, FAISS
  and the OpenAI client (parameters of the models above), reading and writing files
  and environment variables at import time (the configuration is a value), the
  coercion of the catalog cells by \<open>pd.to_numeric\<close> (the rows of \<open>Catalog\<close> are typed), the
  unreachable second pagination block of \<open>route_message\<close>, the unused
  \<open>TASA_RE\<close>, float rounding and overflow (floats are reals, except the \<open>.0f\<close>
  format, whose ties-to-even rounding is modelled: so the \<open>ZeroDivisionError\<close> of a rate
  for which \<open>1 + r\<close> rounds to \<open>1.0\<close> and the \<open>OverflowError\<close> of \<open>(1 + r) ** n\<close> for a
  huge rate are not modelled, and the payment lemmas are facts of exact arithmetic,
  the contract of the specification), non-numeric ids (the \<open>id\<close> cells of the
  recommender's CSV are taken as numbers), missing integer years (pandas
  \<open>Int64\<close> NA), and the title case of the Latin-1 letters whose capital lies outside
  Latin-1. Strings that the code only passes through are Latin-1; a text with
  characters beyond Latin-1 is a list of code points where the code computes on it.
\<close>

section \<open>Findings on whole turns\<close>

text \<open>C20: A price phrase read as a year: the year pattern \<open>(19|20)\d{2}\<close> has no word
  boundary, so in \<open>menos de 200000\<close> it finds the year 2000. The message becomes a new
  search: whatever the channel had stored (a brand, say) is dropped, and a minimum year
  of 2000 is stored, whereas the specification's year token is a 4-digit token and a
  price refinement keeps the earlier filters.\<close>

theorem price_phrase_resets_search:
  "f_brand (the (last_filters (snd (search_turn sc cat ord st ch ''menos de 200000'')) ch)) = None \<and>
   f_year_min (the (last_filters (snd (search_turn sc cat ord st ch ''menos de 200000'')) ch)) = Some 2000"
proof -
  have n: "norm_txt ''menos de 200000'' = ''menos de 200000''" by code_simp
  have Y: "re_search YEAR_RE ''menos de 200000'' = Some (9, 13, [(1, 9, 11)])" by code_simp
  have K: "findall1 QUITAR_RE ''menos de 200000'' 0 = []" by code_simp
  have B: "find (\<lambda>mk. has_sub mk ''menos de 200000'') BRAND_WORDS = None" by code_simp
  have sp: "span_of ''menos de 200000'' (Some (9, 13, [(1, 9, 11)])) = ''2000''" by code_simp
  have r: "is_reset (norm_txt ''menos de 200000'')" unfolding n using is_reset_intro Y by simp
  have s: "the (last_filters (snd (search_turn sc cat ord st ch ''menos de 200000'')) ch) =
      (message_filters ord ''menos de 200000'')\<lparr>f_raw_text := Some []\<rparr>"
    by (simp add: search_turn_last_filters r)
  have b: "f_brand (message_filters ord ''menos de 200000'') = None"
    unfolding message_filters_brand n K B by simp
  have y: "f_year_min (message_filters ord ''menos de 200000'') = Some 2000"
    unfolding message_filters_year_min n K Y by (simp add: sp[simplified] digits_nat_def)
  show ?thesis by (simp add: s b y)
qed

text \<open>C21: The stored brand is the brand word of the message, not a value of the catalog:
  \<open>busco renault\<close> stores the brand \<open>renault\<close>, which no car of the test catalog has,
  against the specification's rule that a brand is always a catalog value.\<close>

theorem brand_outside_catalog:
  "f_brand (the (last_filters (snd (search_turn sc cat ord st ch ''busco renault'')) ch)) = Some ''renault'' \<and>
   ''renault'' \<notin> (\<lambda>c. py_lower (brand c)) ` set demo_catalog"
proof -
  have n: "norm_txt ''busco renault'' = ''busco renault''" by code_simp
  have K: "findall1 QUITAR_RE ''busco renault'' 0 = []" by code_simp
  have B: "find (\<lambda>mk. has_sub mk ''busco renault'') BRAND_WORDS = Some ''renault''" by code_simp
  have L: "list_ex (\<lambda>mk. has_sub mk ''busco renault'') BRAND_WORDS" by code_simp
  have r: "is_reset (norm_txt ''busco renault'')" unfolding n using is_reset_intro L by simp
  have c: "''renault'' \<notin> (\<lambda>c. py_lower (brand c)) ` set demo_catalog" by code_simp
  have s: "the (last_filters (snd (search_turn sc cat ord st ch ''busco renault'')) ch) =
      (message_filters ord ''busco renault'')\<lparr>f_raw_text := Some []\<rparr>"
    by (simp add: search_turn_last_filters r)
  have b: "f_brand (message_filters ord ''busco renault'') = Some ''renault''"
    unfolding message_filters_brand n K B by simp
  show ?thesis by (simp add: s b c)
qed

end
